theory Spec2Isabelle
  imports Main "HOL-Library.Char_ord" "HOL-Library.List_Lexorder"
begin

section \<open>JavaScript strings\<close>

text \<open>
  A JavaScript string is modelled as a \<^typ>\<open>string\<close>: a list of code units, here the
  code units \<open>0x00\<close> to \<open>0xFF\<close> (Latin-1). The built-in operations the exporter calls
  are written out for this range.

  \<^verbatim>\<open>String.prototype.trim\<close> and the regular-expression class \<^verbatim>\<open>\s\<close> share one set of white
  space and line terminators; below \<open>0x100\<close> it is TAB, LF, VT, FF, CR, SPACE and NBSP.
\<close>

definition spaceRanges :: "(char \<times> char) list" where
  "spaceRanges = [(CHR 0x09, CHR 0x0D), (CHR '' '', CHR '' ''), (CHR 0xA0, CHR 0xA0)]"

definition wordRanges :: "(char \<times> char) list" where
  "wordRanges = [(CHR ''A'', CHR ''Z''), (CHR ''a'', CHR ''z''), (CHR ''0'', CHR ''9''), (CHR ''_'', CHR ''_'')]"

fun inRanges :: "(char \<times> char) list \<Rightarrow> char \<Rightarrow> bool" where
  "inRanges [] c = False"
| "inRanges ((lo, hi) # rs) c = ((lo \<le> c \<and> c \<le> hi) \<or> inRanges rs c)"

definition isWhiteSpace :: "char \<Rightarrow> bool" where
  "isWhiteSpace c = inRanges spaceRanges c"

definition isWordChar :: "char \<Rightarrow> bool" where
  "isWordChar c = inRanges wordRanges c"

definition trim :: "string \<Rightarrow> string" where
  "trim s = rev (dropWhile isWhiteSpace (rev (dropWhile isWhiteSpace s)))"

text \<open>
  Case mapping on Latin-1: \<open>A\<close>..\<open>Z\<close> and \<open>0xC0\<close>..\<open>0xDE\<close> (without the multiplication sign
  \<open>0xD7\<close>) have their lower-case partner 32 code units above, that is with bit 5 set.
  The three Latin-1 letters whose upper case lies outside Latin-1 or is not a single code
  unit (\<open>0xB5\<close>, \<open>0xDF\<close>, \<open>0xFF\<close>) have no partner in this range and are left alone by both
  maps.
\<close>

definition toLowerChar :: "char \<Rightarrow> char" where
  "toLowerChar c =
     (if inRanges [(CHR ''A'', CHR ''Z''), (CHR 0xC0, CHR 0xD6), (CHR 0xD8, CHR 0xDE)] c
      then (case c of Char b0 b1 b2 b3 b4 b5 b6 b7 \<Rightarrow> Char b0 b1 b2 b3 b4 True b6 b7)
      else c)"

definition toUpperChar :: "char \<Rightarrow> char" where
  "toUpperChar c =
     (if inRanges [(CHR ''a'', CHR ''z''), (CHR 0xE0, CHR 0xF6), (CHR 0xF8, CHR 0xFE)] c
      then (case c of Char b0 b1 b2 b3 b4 b5 b6 b7 \<Rightarrow> Char b0 b1 b2 b3 b4 False b6 b7)
      else c)"

definition toLowerCase :: "string \<Rightarrow> string" where
  "toLowerCase s = map toLowerChar s"

text \<open>\<^verbatim>\<open>Array.prototype.join\<close> on an array of strings.\<close>

fun join :: "string \<Rightarrow> string list \<Rightarrow> string" where
  "join sep [] = []"
| "join sep [x] = x"
| "join sep (x # y # ys) = x @ sep @ join sep (y # ys)"

text \<open>
  \<^verbatim>\<open>s.replace(pat, repl)\<close> with a string pattern: the first occurrence of \<open>pat\<close>, if any,
  is replaced (the replacement texts of this program hold no \<^verbatim>\<open>$\<close>).
\<close>

fun replaceFirstStr :: "string \<Rightarrow> string \<Rightarrow> string \<Rightarrow> string" where
  "replaceFirstStr pat repl [] = (if pat = [] then repl else [])"
| "replaceFirstStr pat repl (c # cs) =
     (if take (length pat) (c # cs) = pat then repl @ drop (length pat) (c # cs)
      else c # replaceFirstStr pat repl cs)"

section \<open>Regular expressions\<close>

text \<open>
  The fragment of ECMAScript regular expressions the program uses: character classes
  (a negation flag and a list of inclusive ranges), sequence, alternation, greedy
  quantifiers \<^verbatim>\<open>{m,n}\<close> (\<open>None\<close> for no upper bound), capturing groups, and the assertions
  \<^verbatim>\<open>^\<close>, \<^verbatim>\<open>$\<close> (no multiline flag is used) and \<^verbatim>\<open>\b\<close>. Non-capturing groups are only
  parentheses of the term.
\<close>

datatype re =
    Cls bool "(char \<times> char) list"
  | Eps
  | Seq re re
  | Alt re re
  | Rep nat "nat option" re
  | Grp nat re
  | Bol
  | Eol
  | WordB

abbreviation Lit :: "char \<Rightarrow> re" where
  "Lit c \<equiv> Cls False [(c, c)]"

abbreviation Opt :: "re \<Rightarrow> re" where
  "Opt r \<equiv> Rep 0 (Some 1) r"

abbreviation Star :: "re \<Rightarrow> re" where
  "Star r \<equiv> Rep 0 None r"

abbreviation Plus :: "re \<Rightarrow> re" where
  "Plus r \<equiv> Rep 1 None r"

fun seqs :: "re list \<Rightarrow> re" where
  "seqs [] = Eps"
| "seqs [r] = r"
| "seqs (r # rs) = Seq r (seqs rs)"

fun alts :: "re list \<Rightarrow> re" where
  "alts [] = Eps"
| "alts [r] = r"
| "alts (r # rs) = Alt r (alts rs)"

definition Str :: "string \<Rightarrow> re" where
  "Str s = seqs (map Lit s)"

text \<open>
  A regular expression object: the pattern and its \<^verbatim>\<open>i\<close> flag. \<open>G\<close> and \<open>GI\<close> stand for
  the flag strings \<^verbatim>\<open>g\<close> and \<^verbatim>\<open>gi\<close>, \<open>N\<close> and \<open>NI\<close> for no flag and \<^verbatim>\<open>i\<close>; whether a
  call treats the expression as global is fixed by the function that models the call
  (\<open>exec\<close> for a non-global \<^verbatim>\<open>match\<close>, \<open>matchAll\<close> and \<open>replaceAll\<close> for the global ones).
\<close>

type_synonym RegExp = "re \<times> bool"

abbreviation G :: "re \<Rightarrow> RegExp" where
  "G r \<equiv> (r, False)"

abbreviation GI :: "re \<Rightarrow> RegExp" where
  "GI r \<equiv> (r, True)"

abbreviation N :: "re \<Rightarrow> RegExp" where
  "N r \<equiv> (r, False)"

abbreviation NI :: "re \<Rightarrow> RegExp" where
  "NI r \<equiv> (r, True)"

text \<open>
  A character matches a class under the \<^verbatim>\<open>i\<close> flag when some member of the class has the
  same canonical (upper-case) form, that is when the character, its upper-case or its
  lower-case partner is a member.
\<close>

definition inClass :: "bool \<Rightarrow> (char \<times> char) list \<Rightarrow> char \<Rightarrow> bool" where
  "inClass ic rs c =
     (inRanges rs c \<or> (ic \<and> (inRanges rs (toUpperChar c) \<or> inRanges rs (toLowerChar c))))"

text \<open>
  The matcher state: the input before the current position (reversed, so that its head
  is the previous character), the input from the current position on, and the captures.
\<close>

type_synonym caps = "(nat \<times> string) list"

type_synonym mstate = "string \<times> string \<times> caps"

fun grps :: "re \<Rightarrow> nat list" where
  "grps (Seq a b) = grps a @ grps b"
| "grps (Alt a b) = grps a @ grps b"
| "grps (Rep m n a) = grps a"
| "grps (Grp k a) = k # grps a"
| "grps (Cls neg rs) = []"
| "grps Eps = []"
| "grps Bol = []"
| "grps Eol = []"
| "grps WordB = []"

fun wordAtHead :: "string \<Rightarrow> bool" where
  "wordAtHead [] = False"
| "wordAtHead (c # cs) = isWordChar c"

fun decMax :: "nat option \<Rightarrow> nat option" where
  "decMax None = None"
| "decMax (Some k) = Some (k - 1)"

fun repMin :: "re \<Rightarrow> nat" where
  "repMin (Rep m n a) = m"
| "repMin (Cls neg rs) = 0"
| "repMin Eps = 0"
| "repMin (Seq a b) = 0"
| "repMin (Alt a b) = 0"
| "repMin (Grp k a) = 0"
| "repMin Bol = 0"
| "repMin Eol = 0"
| "repMin WordB = 0"

text \<open>
  \<open>ms ic r st\<close> lists the states in which a match of \<open>r\<close> begun in \<open>st\<close> can end, in the
  order in which the backtracking matcher of the language tries them: the head of the
  list is the match the engine reports. A quantifier with a positive minimum must
  iterate; at minimum zero it first tries one more iteration, refusing an iteration that
  consumed nothing, and then tries to stop. Each iteration starts with the captures of
  the groups inside the quantified term cleared.
\<close>

function ms :: "bool \<Rightarrow> re \<Rightarrow> mstate \<Rightarrow> mstate list" where
  "ms ic (Cls neg rs) (pre, [], cs) = []"
| "ms ic (Cls neg rs) (pre, c # rest, cs) =
     (if inClass ic rs c \<noteq> neg then [(c # pre, rest, cs)] else [])"
| "ms ic Eps st = [st]"
| "ms ic (Seq a b) st = concat (map (ms ic b) (ms ic a st))"
| "ms ic (Alt a b) st = ms ic a st @ ms ic b st"
| "ms ic (Rep m n a) (pre, rest, cs) =
     (if n = Some 0 then [(pre, rest, cs)]
      else if 0 < m then
        concat (map (ms ic (Rep (m - 1) (decMax n) a))
                    (ms ic a (pre, rest, filter (\<lambda>kv. fst kv \<notin> set (grps a)) cs)))
      else
        concat (map (ms ic (Rep 0 (decMax n) a))
                    (filter (\<lambda>st'. length (fst (snd st')) < length rest)
                       (ms ic a (pre, rest, filter (\<lambda>kv. fst kv \<notin> set (grps a)) cs))))
        @ [(pre, rest, cs)])"
| "ms ic (Grp k a) (pre, rest, cs) =
     map (\<lambda>st'. (fst st', fst (snd st'),
                 (k, take (length rest - length (fst (snd st'))) rest)
                   # filter (\<lambda>kv. fst kv \<noteq> k) (snd (snd st'))))
         (ms ic a (pre, rest, cs))"
| "ms ic Bol (pre, rest, cs) = (if pre = [] then [(pre, rest, cs)] else [])"
| "ms ic Eol (pre, rest, cs) = (if rest = [] then [(pre, rest, cs)] else [])"
| "ms ic WordB (pre, rest, cs) =
     (if wordAtHead pre \<noteq> wordAtHead rest then [(pre, rest, cs)] else [])"
  by pat_completeness auto

termination
  by (relation "measures [\<lambda>(ic, r, st). size r, \<lambda>(ic, r, st). repMin r,
                           \<lambda>(ic, r, st). length (fst (snd st))]") auto

text \<open>
  A match attempt at one position: the number of code units the first match consumes,
  and its captures.
\<close>

definition matchAt :: "RegExp \<Rightarrow> string \<Rightarrow> string \<Rightarrow> (nat \<times> caps) option" where
  "matchAt rx pre rest =
     (case ms (snd rx) (fst rx) (pre, rest, []) of
        [] \<Rightarrow> None
      | st' # _ \<Rightarrow> Some (length rest - length (fst (snd st')), snd (snd st')))"

text \<open>
  \<open>exec\<close> is \<^verbatim>\<open>RegExp.prototype.exec\<close> on a non-global expression, which is what
  \<^verbatim>\<open>String.prototype.match\<close> calls: the leftmost position at which the expression
  matches. The result holds the matched text and the captures; \<open>capture m k\<close> is \<^verbatim>\<open>m[k]\<close>
  (\<^verbatim>\<open>undefined\<close> as \<open>None\<close>).
\<close>

record MatchResult =
  index :: nat
  matched :: string
  groups :: caps

fun execFrom :: "RegExp \<Rightarrow> string \<Rightarrow> string \<Rightarrow> MatchResult option" where
  "execFrom rx pre [] =
     (case matchAt rx pre [] of
        None \<Rightarrow> None
      | Some (n, cs) \<Rightarrow> Some \<lparr>index = length pre, matched = [], groups = cs\<rparr>)"
| "execFrom rx pre (c # rest) =
     (case matchAt rx pre (c # rest) of
        None \<Rightarrow> execFrom rx (c # pre) rest
      | Some (n, cs) \<Rightarrow> Some \<lparr>index = length pre, matched = take n (c # rest), groups = cs\<rparr>)"

definition exec :: "RegExp \<Rightarrow> string \<Rightarrow> MatchResult option" where
  "exec rx s = execFrom rx [] s"

definition capture :: "MatchResult \<Rightarrow> nat \<Rightarrow> string option" where
  "capture m k = map_of (groups m) k"

text \<open>
  The scan of a global expression over a string, shared by \<^verbatim>\<open>match\<close> and \<^verbatim>\<open>replace\<close>: the
  string is cut into the code units outside every match (\<open>Inl\<close>) and the matches
  (\<open>Inr\<close>), found left to right without overlap. After an empty match the scan moves one
  code unit on, as \<^verbatim>\<open>lastIndex\<close> does.
\<close>

function scan :: "RegExp \<Rightarrow> string \<Rightarrow> string \<Rightarrow> (char + string) list" where
  "scan rx pre [] = (case matchAt rx pre [] of None \<Rightarrow> [] | Some (n, cs) \<Rightarrow> [Inr []])"
| "scan rx pre (c # rest) =
     (case matchAt rx pre (c # rest) of
        None \<Rightarrow> Inl c # scan rx (c # pre) rest
      | Some (n, cs) \<Rightarrow>
          (if n = 0 then Inr [] # Inl c # scan rx (c # pre) rest
           else Inr (take n (c # rest))
                  # scan rx (rev (take n (c # rest)) @ pre) (drop n (c # rest))))"
  by pat_completeness auto

termination
  by (relation "measure (\<lambda>(rx, pre, rest). length rest)") auto

fun isMatch :: "char + string \<Rightarrow> bool" where
  "isMatch (Inl c) = False"
| "isMatch (Inr m) = True"

fun pieceText :: "string \<Rightarrow> char + string \<Rightarrow> string" where
  "pieceText repl (Inl c) = [c]"
| "pieceText repl (Inr m) = repl"

text \<open>
  \<^verbatim>\<open>s.match(rx)\<close> for a global \<open>rx\<close> is the array of the matched texts, or \<^verbatim>\<open>null\<close> when
  there is none; only its length is read, so \<open>matchAll\<close> returns the possibly empty list.
  \<^verbatim>\<open>s.replace(rx, repl)\<close> puts \<open>repl\<close> in the place of every match.
\<close>

definition matchAll :: "RegExp \<Rightarrow> string \<Rightarrow> string list" where
  "matchAll rx s = map projr (filter isMatch (scan rx [] s))"

definition replaceAll :: "RegExp \<Rightarrow> string \<Rightarrow> string \<Rightarrow> string" where
  "replaceAll rx repl s = concat (map (pieceText repl) (scan rx [] s))"

section \<open>parser.ts: header addresses\<close>

text \<open>
  A value that may be \<^verbatim>\<open>null\<close> or \<^verbatim>\<open>undefined\<close> is an \<open>option\<close>; a string is truthy when it
  is present and not empty.
\<close>

definition truthy :: "string option \<Rightarrow> bool" where
  "truthy v = (case v of None \<Rightarrow> False | Some s \<Rightarrow> s \<noteq> [])"

definition orEmpty :: "string option \<Rightarrow> string" where
  "orEmpty v = (case v of None \<Rightarrow> [] | Some s \<Rightarrow> s)"

text \<open>
  The four expressions of \<^verbatim>\<open>parseEmail\<close>:
  \<^enum> \<^verbatim>\<open>/^(.*)<([^>]+)>$/\<close>
  \<^enum> \<^verbatim>\<open>/[A-Z0-9._%+-]+@[A-Z0-9.-]+\.[A-Z]{2,}/i\<close>
  \<^enum> \<^verbatim>\<open>/"/g\<close>
  \<^enum> \<^verbatim>\<open>/[<>"]/g\<close>
\<close>

definition angleRe :: RegExp where
  "angleRe =
     N (seqs [Bol, Grp 1 (Star (Cls True [(CHR 0x0A, CHR 0x0A), (CHR 0x0D, CHR 0x0D)])), Lit (CHR ''<''),
              Grp 2 (Plus (Cls True [(CHR ''>'', CHR ''>'')])), Lit (CHR ''>''), Eol])"

definition emailRe :: RegExp where
  "emailRe =
     NI (seqs [Plus (Cls False [(CHR ''A'', CHR ''Z''), (CHR ''0'', CHR ''9''), (CHR ''.'', CHR ''.''), (CHR ''_'', CHR ''_''), (CHR ''%'', CHR ''%''), (CHR ''+'', CHR ''+''), (CHR ''-'', CHR ''-'')]),
               Lit (CHR ''@''),
               Plus (Cls False [(CHR ''A'', CHR ''Z''), (CHR ''0'', CHR ''9''), (CHR ''.'', CHR ''.''), (CHR ''-'', CHR ''-'')]),
               Lit (CHR ''.''),
               Rep 2 None (Cls False [(CHR ''A'', CHR ''Z'')])])"

definition quoteRe :: RegExp where
  "quoteRe = G (Lit (CHR 0x22))"

definition angleQuoteRe :: RegExp where
  "angleQuoteRe = G (Cls False [(CHR ''<'', CHR ''<''), (CHR ''>'', CHR ''>''), (CHR 0x22, CHR 0x22)])"

record ParsedEmail =
  name :: string
  email :: string

text \<open>
  The second half of \<^verbatim>\<open>parseEmail\<close>, reached when the angle-bracket form did not apply:
  the first email-like substring, lower-cased, or the empty string; the name is computed
  only when an email was found.
\<close>

definition parseEmailBare :: "string \<Rightarrow> ParsedEmail" where
  "parseEmailBare s =
     (let email = (case exec emailRe s of None \<Rightarrow> [] | Some m \<Rightarrow> toLowerCase (matched m));
          name = (if email \<noteq> [] then trim (replaceAll angleQuoteRe [] (replaceFirstStr email [] s)) else [])
      in \<lparr>name = name, email = email\<rparr>)"

definition parseEmail :: "string \<Rightarrow> ParsedEmail" where
  "parseEmail raw =
     (let s = trim raw in
      case exec angleRe s of
        None \<Rightarrow> parseEmailBare s
      | Some m \<Rightarrow>
          (case (capture m 1, capture m 2) of
             (Some m1, Some m2) \<Rightarrow>
               (if m1 \<noteq> [] \<and> m2 \<noteq> []
                then \<lparr>name = trim (replaceAll quoteRe [] m1), email = toLowerCase (trim m2)\<rparr>
                else parseEmailBare s)
           | _ \<Rightarrow> parseEmailBare s))"

section \<open>parser.ts: the message-part tree\<close>

text \<open>
  \<^verbatim>\<open>gmail_v1.Schema$MessagePart\<close> and its body, with the fields the exporter reads. Every
  field may be absent; the code reads \<^verbatim>\<open>part.parts ?? []\<close>, so an absent list of children
  is the empty list.
\<close>

record MessagePartBody =
  data :: "string option"
  bodySize :: "int option"
  attachmentId :: "string option"

datatype MessagePart =
  MessagePart (mimeType: "string option") (filename: "string option")
              (body: "MessagePartBody option") (parts: "MessagePart list")

text \<open>The local constants of the two \<^verbatim>\<open>walk\<close> closures.\<close>

definition partFilename :: "MessagePart \<Rightarrow> string" where
  "partFilename p = trim (orEmpty (filename p))"

definition partAttachmentId :: "MessagePart \<Rightarrow> string option" where
  "partAttachmentId p = (case body p of None \<Rightarrow> None | Some b \<Rightarrow> attachmentId b)"

definition partSize :: "MessagePart \<Rightarrow> int" where
  "partSize p =
     (case body p of None \<Rightarrow> 0 | Some b \<Rightarrow> (case bodySize b of None \<Rightarrow> 0 | Some n \<Rightarrow> n))"

definition partData :: "MessagePart \<Rightarrow> string" where
  "partData p = (case body p of None \<Rightarrow> [] | Some b \<Rightarrow> orEmpty (data b))"

subsection \<open>collectAttachmentTypes\<close>

definition looksLikeAttachment :: "MessagePart \<Rightarrow> bool" where
  "looksLikeAttachment p =
     (partFilename p \<noteq> [] \<and> (truthy (partAttachmentId p) \<or> 0 < partSize p))"

text \<open>The extension expression \<^verbatim>\<open>/\.([a-z0-9]{1,10})$/\<close>.\<close>

definition extRe :: RegExp where
  "extRe = N (seqs [Lit (CHR ''.''), Grp 1 (Rep 1 (Some 10) (Cls False [(CHR ''a'', CHR ''z''), (CHR ''0'', CHR ''9'')])), Eol])"

definition fileExt :: "string \<Rightarrow> string option" where
  "fileExt fname = (case exec extRe (toLowerCase fname) of None \<Rightarrow> None | Some m \<Rightarrow> capture m 1)"

text \<open>What is added to the set \<open>types\<close> for a part that looks like an attachment.\<close>

definition attachmentType :: "MessagePart \<Rightarrow> string" where
  "attachmentType p =
     (if truthy (fileExt (partFilename p)) then orEmpty (fileExt (partFilename p))
      else if truthy (mimeType p) then toLowerCase (orEmpty (mimeType p))
      else ''unknown'')"

text \<open>
  A \<^verbatim>\<open>Set\<close> of strings keeps its members in insertion order; \<open>setAdd\<close> is \<^verbatim>\<open>Set.prototype.add\<close>.
\<close>

definition setAdd :: "string \<Rightarrow> string list \<Rightarrow> string list" where
  "setAdd x xs = (if x \<in> set xs then xs else xs @ [x])"

text \<open>
  The closure \<^verbatim>\<open>walk\<close> of \<^verbatim>\<open>collectAttachmentTypes\<close> updates the set \<open>types\<close> and the counter
  \<open>count\<close>; the model passes both through.
\<close>

fun walkAttachments :: "MessagePart \<Rightarrow> string list \<times> nat \<Rightarrow> string list \<times> nat" where
  "walkAttachments (MessagePart mt fn bd ps) (tys, cnt) =
     fold walkAttachments ps
       (if looksLikeAttachment (MessagePart mt fn bd ps)
        then (setAdd (attachmentType (MessagePart mt fn bd ps)) tys, cnt + 1)
        else (tys, cnt))"

record AttachmentTypes =
  hasAttachment :: bool
  types :: "string list"
  count :: nat

text \<open>
  \<^verbatim>\<open>Array.prototype.sort\<close> without a comparator orders strings by their code units, which
  is the lexicographic order of \<^typ>\<open>string\<close>.
\<close>

definition collectAttachmentTypes :: "MessagePart option \<Rightarrow> AttachmentTypes" where
  "collectAttachmentTypes payload =
     (let (tys, cnt) = (case payload of None \<Rightarrow> ([], 0) | Some p \<Rightarrow> walkAttachments p ([], 0))
      in \<lparr>hasAttachment = (tys \<noteq> []), types = sort tys, count = cnt\<rparr>)"

subsection \<open>decodeBase64Url\<close>

text \<open>
  \<^verbatim>\<open>Buffer.from(x, 'base64').toString('utf8')\<close> belongs to the runtime, not to the
  repository: it is the parameter \<open>dec\<close> of every function that decodes. The two
  \<^verbatim>\<open>replace\<close> calls use \<^verbatim>\<open>/-/g\<close> and \<^verbatim>\<open>/_/g\<close>.
\<close>

definition decodeBase64Url :: "(string \<Rightarrow> string) \<Rightarrow> string \<Rightarrow> string" where
  "decodeBase64Url dec d =
     (let b64 = replaceAll (G (Lit (CHR ''_''))) ''/'' (replaceAll (G (Lit (CHR ''-''))) ''+'' d);
          pad = (if length b64 mod 4 = 0 then [] else replicate (4 - length b64 mod 4) (CHR ''=''))
      in dec (b64 @ pad))"

subsection \<open>extractBodyText\<close>

text \<open>
  The closure \<^verbatim>\<open>walk\<close> of \<^verbatim>\<open>extractBodyText\<close> pushes decoded texts on \<open>plainParts\<close> and
  \<open>htmlParts\<close>.
\<close>

definition isAttachment :: "MessagePart \<Rightarrow> bool" where
  "isAttachment p = (partFilename p \<noteq> [] \<or> truthy (partAttachmentId p))"

definition partMimeType :: "MessagePart \<Rightarrow> string" where
  "partMimeType p = toLowerCase (orEmpty (mimeType p))"

fun walkBody :: "(string \<Rightarrow> string) \<Rightarrow> MessagePart \<Rightarrow> string list \<times> string list \<Rightarrow> string list \<times> string list" where
  "walkBody dec (MessagePart mt fn bd ps) (plainParts, htmlParts) =
     fold (walkBody dec) ps
       (if \<not> isAttachment (MessagePart mt fn bd ps) \<and> partData (MessagePart mt fn bd ps) \<noteq> []
        then (if partMimeType (MessagePart mt fn bd ps) = ''text/plain''
              then (plainParts @ [decodeBase64Url dec (partData (MessagePart mt fn bd ps))], htmlParts)
              else if partMimeType (MessagePart mt fn bd ps) = ''text/html''
              then (plainParts, htmlParts @ [decodeBase64Url dec (partData (MessagePart mt fn bd ps))])
              else (plainParts, htmlParts))
        else (plainParts, htmlParts))"

definition bodySegments :: "(string \<Rightarrow> string) \<Rightarrow> MessagePart option \<Rightarrow> string list \<times> string list" where
  "bodySegments dec payload = (case payload of None \<Rightarrow> ([], []) | Some p \<Rightarrow> walkBody dec p ([], []))"

text \<open>
  The value of \<open>out\<close> before the cut. \<^verbatim>\<open>htmlToTextKeepingLinks\<close> produces code points
  outside Latin-1 (the bullet, decoded numeric entities), so it is the parameter \<open>h2t\<close>:
  what is proved below holds for every such function.
\<close>

definition selectBody :: "(string \<Rightarrow> string) \<Rightarrow> string list \<times> string list \<Rightarrow> string" where
  "selectBody h2t segs =
     (let out = trim (join [CHR 0x0A] (fst segs)) in
      if out = [] then
        (let html = trim (join [CHR 0x0A] (snd segs)) in if html \<noteq> [] then h2t html else [])
      else out)"

text \<open>
  \<open>maxChars\<close> is a JavaScript number; the callers pass an integer, and a value that is
  not positive leaves the text as it is.
\<close>

definition extractBodyText :: "(string \<Rightarrow> string) \<Rightarrow> (string \<Rightarrow> string) \<Rightarrow> MessagePart option \<Rightarrow> int \<Rightarrow> string" where
  "extractBodyText dec h2t payload maxChars =
     (let out = selectBody h2t (bodySegments dec payload) in
      if 0 < maxChars \<and> maxChars < int (length out) then take (nat maxChars) out else out)"

section \<open>sanitizer.ts: categories\<close>

text \<open>The union type \<^verbatim>\<open>RedactionCategory\<close>.\<close>

datatype RedactionCategory =
    credit_cards
  | bank_accounts
  | tax_ids
  | passwords
  | api_keys
  | otp_codes
  | phone_numbers
  | physical_addresses
  | ip_addresses
  | government_ids
  | token_urls
  | case_numbers
  | claim_numbers
  | auth_codes
  | device_ids
  | employee_ids
  | dates_of_birth
  | ages
  | member_ids
  | vehicle_ids
  | medical_ids
  | email_addresses
  | order_numbers
  | tracking_numbers
  | booking_references
  | financial_amounts
  | regular_urls

text \<open>
  \<^verbatim>\<open>ALL_REDACTION_CATEGORIES\<close> is \<^verbatim>\<open>Object.keys(REDACTION_CATEGORIES)\<close>: the keys in the
  order in which the object literal declares them. \<open>categoryDefault\<close> is the field
  \<^verbatim>\<open>default\<close> of each entry; the display name and the description of an entry are read
  by the interactive prompts only and are left out.
\<close>

definition ALL_REDACTION_CATEGORIES :: "RedactionCategory list" where
  "ALL_REDACTION_CATEGORIES =
    [credit_cards, bank_accounts, tax_ids, passwords,
     api_keys, otp_codes, phone_numbers, physical_addresses,
     ip_addresses, government_ids, token_urls, case_numbers,
     claim_numbers, auth_codes, device_ids, employee_ids,
     dates_of_birth, ages, member_ids, vehicle_ids,
     medical_ids, email_addresses, order_numbers, tracking_numbers,
     booking_references, financial_amounts, regular_urls]"

definition categoryDefault :: "RedactionCategory \<Rightarrow> bool" where
  "categoryDefault c = (c \<notin> set [email_addresses, order_numbers, tracking_numbers, booking_references, financial_amounts, regular_urls])"

definition DEFAULT_REDACTION_CATEGORIES :: "RedactionCategory list" where
  "DEFAULT_REDACTION_CATEGORIES = filter categoryDefault ALL_REDACTION_CATEGORIES"

section \<open>address-detector.ts\<close>

text \<open>The name tables, as the source lists them.\<close>

definition US_STATES :: "string list" where
  "US_STATES =
    [
     ''AL'', ''AK'', ''AZ'', ''AR'', ''CA'', ''CO'',
     ''CT'', ''DE'', ''FL'', ''GA'', ''HI'', ''ID'',
     ''IL'', ''IN'', ''IA'', ''KS'', ''KY'', ''LA'',
     ''ME'', ''MD'', ''MA'', ''MI'', ''MN'', ''MS'',
     ''MO'', ''MT'', ''NE'', ''NV'', ''NH'', ''NJ'',
     ''NM'', ''NY'', ''NC'', ''ND'', ''OH'', ''OK'',
     ''OR'', ''PA'', ''RI'', ''SC'', ''SD'', ''TN'',
     ''TX'', ''UT'', ''VT'', ''VA'', ''WA'', ''WV'',
     ''WI'', ''WY'', ''DC'', ''Alabama'', ''Alaska'', ''Arizona'',
     ''Arkansas'', ''California'', ''Colorado'', ''Connecticut'', ''Delaware'', ''Florida'',
     ''Georgia'', ''Hawaii'', ''Idaho'', ''Illinois'', ''Indiana'', ''Iowa'',
     ''Kansas'', ''Kentucky'', ''Louisiana'', ''Maine'', ''Maryland'', ''Massachusetts'',
     ''Michigan'', ''Minnesota'', ''Mississippi'', ''Missouri'', ''Montana'', ''Nebraska'',
     ''Nevada'', ''New Hampshire'', ''New Jersey'', ''New Mexico'', ''New York'', ''North Carolina'',
     ''North Dakota'', ''Ohio'', ''Oklahoma'', ''Oregon'', ''Pennsylvania'', ''Rhode Island'',
     ''South Carolina'', ''South Dakota'', ''Tennessee'', ''Texas'', ''Utah'', ''Vermont'',
     ''Virginia'', ''Washington'', ''West Virginia'', ''Wisconsin'', ''Wyoming''
    ]"

definition STREET_TYPES :: "string list" where
  "STREET_TYPES =
    [
     ''Street'', ''St'', ''Avenue'', ''Ave'', ''Road'', ''Rd'',
     ''Drive'', ''Dr'', ''Lane'', ''Ln'', ''Way'', ''Court'',
     ''Ct'', ''Circle'', ''Cir'', ''Boulevard'', ''Blvd'', ''Place'',
     ''Pl'', ''Terrace'', ''Ter'', ''Parkway'', ''Pkwy'', ''Highway'',
     ''Hwy'', ''Freeway'', ''Fwy'', ''Expressway'', ''Expy'', ''Trail'',
     ''Trl'', ''Path'', ''Pass'', ''Pike'', ''Plaza'', ''Plz'',
     ''Alley'', ''Aly'', ''Center'', ''Ctr'', ''Commons'', ''Crossing'',
     ''Xing'', ''Estate'', ''Est'', ''Glen'', ''Green'', ''Grove'',
     ''Heights'', ''Hts'', ''Hill'', ''Hollow'', ''Junction'', ''Jct'',
     ''Knoll'', ''Lake'', ''Landing'', ''Loop'', ''Mall'', ''Manor'',
     ''Meadow'', ''Mill'', ''Park'', ''Passage'', ''Point'', ''Pt'',
     ''Ridge'', ''Row'', ''Run'', ''Square'', ''Sq'', ''Station'',
     ''Summit'', ''Trace'', ''Track'', ''Turnpike'', ''Tpke'', ''Valley'',
     ''View'', ''Village'', ''Vista'', ''Walk'', ''Way''
    ]"

definition INTERNATIONAL_STREET_TYPES :: "string list" where
  "INTERNATIONAL_STREET_TYPES =
    [
     ''Corte'', ''Calle'', ''Via'', ''Camino'', ''Avenida'', ''Paseo'',
     ''Plaza'', ''Cerrada'', ''Circulo'', ''Entrada'', ''Vereda'', ''Sendero'',
     ''Callejon'', ''Rue'', ''Strasse'', (''Stra'' @ [CHR 0xDF] @ ''e''), ''Gasse'', ''Weg'',
     ''Platz''
    ]"

definition UNIT_TYPES :: "string list" where
  "UNIT_TYPES =
    [
     ''Apt'', ''Apartment'', ''Suite'', ''Ste'', ''Unit'', ''Bldg'',
     ''Building'', ''Floor'', ''Fl'', ''Room'', ''Rm'', ''Dept'',
     ''Department'', ''Lot'', ''Space'', ''Spc'', ''Slip'', ''Pier'',
     ''Hangar'', ''Trlr'', ''Trailer''
    ]"

definition DIRECTIONS :: "string list" where
  "DIRECTIONS =
    [
     ''N'', ''S'', ''E'', ''W'', ''NE'', ''NW'',
     ''SE'', ''SW'', ''North'', ''South'', ''East'', ''West'',
     ''Northeast'', ''Northwest'', ''Southeast'', ''Southwest''
    ]"

definition MAJOR_CITIES :: "string list" where
  "MAJOR_CITIES =
    [
     ''New York'', ''Los Angeles'', ''Chicago'', ''Houston'', ''Phoenix'', ''Philadelphia'',
     ''San Antonio'', ''San Diego'', ''Dallas'', ''San Jose'', ''Austin'', ''Jacksonville'',
     ''Fort Worth'', ''Columbus'', ''Charlotte'', ''San Francisco'', ''Indianapolis'', ''Seattle'',
     ''Denver'', ''Boston'', ''El Paso'', ''Nashville'', ''Detroit'', ''Portland'',
     ''Memphis'', ''Oklahoma City'', ''Las Vegas'', ''Louisville'', ''Baltimore'', ''Milwaukee'',
     ''Albuquerque'', ''Tucson'', ''Fresno'', ''Sacramento'', ''Kansas City'', ''Mesa'',
     ''Atlanta'', ''Omaha'', ''Colorado Springs'', ''Raleigh'', ''Long Beach'', ''Virginia Beach'',
     ''Miami'', ''Oakland'', ''Minneapolis'', ''Tulsa'', ''Bakersfield'', ''Wichita'',
     ''Arlington'', ''Aurora'', ''Tampa'', ''New Orleans'', ''Cleveland'', ''Honolulu'',
     ''Anaheim'', ''Lexington'', ''Stockton'', ''Corpus Christi'', ''Henderson'', ''Riverside'',
     ''Newark'', ''Saint Paul'', ''Santa Ana'', ''Cincinnati'', ''Irvine'', ''Orlando'',
     ''Pittsburgh'', ''St. Louis'', ''Greensboro'', ''Jersey City'', ''Anchorage'', ''Lincoln'',
     ''Plano'', ''Durham'', ''Buffalo'', ''Chandler'', ''Chula Vista'', ''Toledo'',
     ''Madison'', ''Gilbert'', ''Reno'', ''Fort Wayne'', ''North Las Vegas'', ''St. Petersburg'',
     ''Lubbock'', ''Irving'', ''Laredo'', ''Winston-Salem'', ''Chesapeake'', ''Glendale'',
     ''Garland'', ''Scottsdale'', ''Norfolk'', ''Boise'', ''Fremont'', ''Spokane'',
     ''Santa Clarita'', ''Baton Rouge'', ''Richmond'', ''Hialeah'', ''Carlsbad'', ''Oceanside'',
     ''Escondido'', ''Vista'', ''Encinitas'', ''San Marcos'', ''Poway'', ''La Jolla'',
     ''Del Mar'', ''Solana Beach'', ''Rancho Santa Fe'', ''Coronado'', ''Chula Vista'', ''National City'',
     ''Imperial Beach'', ''La Mesa'', ''El Cajon'', ''Santee'', ''Lakeside''
    ]"

text \<open>
  The four builders join names with \<^verbatim>\<open>|\<close> into the source text of an alternation that is
  spliced into the templates below. The names hold letters, blanks and \<open>0xDF\<close> only, so
  each name is a literal string of the parsed expression. \<^verbatim>\<open>buildStatePattern\<close> first
  sorts the names by descending length; \<^verbatim>\<open>Array.prototype.sort\<close> is stable, as is
  \<^const>\<open>sort_key\<close>.
\<close>

definition buildStreetTypePattern :: re where
  "buildStreetTypePattern = alts (map Str (STREET_TYPES @ INTERNATIONAL_STREET_TYPES))"

definition buildUnitTypePattern :: re where
  "buildUnitTypePattern = alts (map Str UNIT_TYPES)"

definition buildStatePattern :: re where
  "buildStatePattern = alts (map Str (sort_key (\<lambda>s. - int (length s)) US_STATES))"

definition buildDirectionPattern :: re where
  "buildDirectionPattern = alts (map Str DIRECTIONS)"

text \<open>
  In the second template the directions are spliced without parentheses of their own, so
  the optional dot and the blanks belong to the last alternative only.
\<close>

text \<open>
  The list returned by \<^verbatim>\<open>getAddressPatterns\<close>, in order:
  \<^enum> \<^verbatim>\<open>new RegExp(`\\b[0-9]{1,6}\\s+(?:(?:${directions})\\.?\\s+)?[A-Za-z0-9\\s]{1,30}(?:${streetTypes})\\.?(?:\\s*[,.]?\\s*(?:${unitTypes})\\.?\\s*#?\\s*[A-Za-z0-9\\-]+)?\\b`, 'gi')\<close>
  \<^enum> \<^verbatim>\<open>new RegExp(`\\b[0-9]{1,6}\\s+(?:${directions}\\.?\\s+)?[A-Za-z]+(?:\\s+[A-Za-z]+)?\\s+(?:${streetTypes})\\b`, 'gi')\<close>
  \<^enum> \<^verbatim>\<open>new RegExp(`\\b(?:${unitTypes})\\.?\\s*#?\\s*[0-9A-Z]{1,6}\\b`, 'gi')\<close>
  \<^enum> \<^verbatim>\<open>/\b#\s*[0-9]{1,5}[A-Z]?\b/gi\<close>
  \<^enum> \<^verbatim>\<open>/\b(?:P\.?\s*O\.?\s*Box|Post\s*Office\s*Box|POB)\s*#?\s*[0-9]+\b/gi\<close>
  \<^enum> \<^verbatim>\<open>new RegExp(`\\b[A-Z][a-z]+(?:\\s+[A-Z][a-z]+)*[,.]?\\s*(?:${states})\\s*[0-9]{5}(?:-[0-9]{4})?\\b`, 'gi')\<close>
  \<^enum> \<^verbatim>\<open>new RegExp(`\\b(?:${states})\\s+[0-9]{5}(?:-[0-9]{4})?\\b`, 'g')\<close>
  \<^enum> \<^verbatim>\<open>/\b[0-9]{5}(?:-[0-9]{4})?\b/g\<close>
  \<^enum> \<^verbatim>\<open>/\b[A-Z]{1,2}[0-9][A-Z0-9]?\s*[0-9][A-Z]{2}\b/gi\<close>
  \<^enum> \<^verbatim>\<open>/\b[A-Z][0-9][A-Z]\s*[0-9][A-Z][0-9]\b/gi\<close>
  \<^enum> \<^verbatim>\<open>/\b(?:NSW|VIC|QLD|SA|WA|TAS|NT|ACT)\s*[0-9]{4}\b/gi\<close>
  \<^enum> \<^verbatim>\<open>/\b(?:address|ship(?:ping)?|deliver(?:y)?|mail(?:ing)?|located?\s*at|residence|home)\s*(?:to|at|is)?:?\s*[0-9]{1,6}\s+[A-Za-z0-9\s,\.]{10,100}/gi\<close>
  \<^enum> \<^verbatim>\<open>/\bat\s+[0-9]{1,6}\s+[A-Za-z]+(?:\s+[A-Za-z]+){0,3}\s+(?:Street|St|Avenue|Ave|Road|Rd|Drive|Dr|Lane|Ln|Way|Court|Ct|Boulevard|Blvd)\b/gi\<close>
  \<^enum> \<^verbatim>\<open>/\b[A-Za-z0-9]+\s+(?:Street|St|Avenue|Ave|Road|Rd|Drive|Dr)\s*(?:&|and)\s*[A-Za-z0-9]+\s+(?:Street|St|Avenue|Ave|Road|Rd|Drive|Dr)\b/gi\<close>
  \<^enum> \<^verbatim>\<open>/\b(?:Floor|Level|Fl)\s*#?\s*[0-9]{1,3}\b/gi\<close>
  \<^enum> \<^verbatim>\<open>/\b[0-9]{1,2}(?:st|nd|rd|th)\s+(?:Floor|Level)\b/gi\<close>
  \<^enum> \<^verbatim>\<open>/\b(?:Building|Bldg)\s*#?\s*[A-Z0-9]{1,5}\b/gi\<close>
  \<^enum> \<^verbatim>\<open>/\bC\/O\s+[A-Za-z\s]+/gi\<close>
  \<^enum> \<^verbatim>\<open>/\bAttn:?\s+[A-Za-z\s]+/gi\<close>
  \<^enum> \<^verbatim>\<open>/\b[A-Za-z\u00E4\u00F6\u00FC\u00C4\u00D6\u00DC\u00DF]+(?:stra\u00DFe|strasse|gasse|weg|platz|allee)\s*[0-9]+[A-Za-z]?\b/gi\<close>
  \<^enum> \<^verbatim>\<open>/\b[0-9]+\s+(?:Rue|Avenue|Boulevard|Place|Chemin|All\u00E9e)\s+[A-Za-z\s]+/gi\<close>
\<close>

definition getAddressPatterns :: "RegExp list" where
  "getAddressPatterns =
    [
     GI (seqs [WordB, Rep 1 (Some 6) (Cls False [(CHR ''0'', CHR ''9'')]), Plus (Cls False spaceRanges), Opt (seqs [buildDirectionPattern, Opt (Lit (CHR ''.'')), Plus (Cls False spaceRanges)]), Rep 1 (Some 30) (Cls False ([(CHR ''A'', CHR ''Z''), (CHR ''a'', CHR ''z''), (CHR ''0'', CHR ''9'')] @ spaceRanges)), buildStreetTypePattern, Opt (Lit (CHR ''.'')), Opt (seqs [Star (Cls False spaceRanges), Opt (Cls False [(CHR '','', CHR '',''), (CHR ''.'', CHR ''.'')]), Star (Cls False spaceRanges), buildUnitTypePattern, Opt (Lit (CHR ''.'')), Star (Cls False spaceRanges), Opt (Lit (CHR ''#'')), Star (Cls False spaceRanges), Plus (Cls False [(CHR ''A'', CHR ''Z''), (CHR ''a'', CHR ''z''), (CHR ''0'', CHR ''9''), (CHR ''-'', CHR ''-'')])]), WordB]),
     GI (seqs [WordB, Rep 1 (Some 6) (Cls False [(CHR ''0'', CHR ''9'')]), Plus (Cls False spaceRanges), Opt (alts (map Str (butlast DIRECTIONS) @ [seqs [Str (last DIRECTIONS), Opt (Lit (CHR ''.'')), Plus (Cls False spaceRanges)]])), Plus (Cls False [(CHR ''A'', CHR ''Z''), (CHR ''a'', CHR ''z'')]), Opt (seqs [Plus (Cls False spaceRanges), Plus (Cls False [(CHR ''A'', CHR ''Z''), (CHR ''a'', CHR ''z'')])]), Plus (Cls False spaceRanges), buildStreetTypePattern, WordB]),
     GI (seqs [WordB, buildUnitTypePattern, Opt (Lit (CHR ''.'')), Star (Cls False spaceRanges), Opt (Lit (CHR ''#'')), Star (Cls False spaceRanges), Rep 1 (Some 6) (Cls False [(CHR ''0'', CHR ''9''), (CHR ''A'', CHR ''Z'')]), WordB]),
     GI (seqs [WordB, Lit (CHR ''#''), Star (Cls False spaceRanges), Rep 1 (Some 5) (Cls False [(CHR ''0'', CHR ''9'')]), Opt (Cls False [(CHR ''A'', CHR ''Z'')]), WordB]),
     GI (seqs [WordB, alts [seqs [Lit (CHR ''P''), Opt (Lit (CHR ''.'')), Star (Cls False spaceRanges), Lit (CHR ''O''), Opt (Lit (CHR ''.'')), Star (Cls False spaceRanges), Str ''Box''], seqs [Str ''Post'', Star (Cls False spaceRanges), Str ''Office'', Star (Cls False spaceRanges), Str ''Box''], Str ''POB''], Star (Cls False spaceRanges), Opt (Lit (CHR ''#'')), Star (Cls False spaceRanges), Plus (Cls False [(CHR ''0'', CHR ''9'')]), WordB]),
     GI (seqs [WordB, Cls False [(CHR ''A'', CHR ''Z'')], Plus (Cls False [(CHR ''a'', CHR ''z'')]), Star (seqs [Plus (Cls False spaceRanges), Cls False [(CHR ''A'', CHR ''Z'')], Plus (Cls False [(CHR ''a'', CHR ''z'')])]), Opt (Cls False [(CHR '','', CHR '',''), (CHR ''.'', CHR ''.'')]), Star (Cls False spaceRanges), buildStatePattern, Star (Cls False spaceRanges), Rep 5 (Some 5) (Cls False [(CHR ''0'', CHR ''9'')]), Opt (seqs [Lit (CHR ''-''), Rep 4 (Some 4) (Cls False [(CHR ''0'', CHR ''9'')])]), WordB]),
     G (seqs [WordB, buildStatePattern, Plus (Cls False spaceRanges), Rep 5 (Some 5) (Cls False [(CHR ''0'', CHR ''9'')]), Opt (seqs [Lit (CHR ''-''), Rep 4 (Some 4) (Cls False [(CHR ''0'', CHR ''9'')])]), WordB]),
     G (seqs [WordB, Rep 5 (Some 5) (Cls False [(CHR ''0'', CHR ''9'')]), Opt (seqs [Lit (CHR ''-''), Rep 4 (Some 4) (Cls False [(CHR ''0'', CHR ''9'')])]), WordB]),
     GI (seqs [WordB, Rep 1 (Some 2) (Cls False [(CHR ''A'', CHR ''Z'')]), Cls False [(CHR ''0'', CHR ''9'')], Opt (Cls False [(CHR ''A'', CHR ''Z''), (CHR ''0'', CHR ''9'')]), Star (Cls False spaceRanges), Cls False [(CHR ''0'', CHR ''9'')], Rep 2 (Some 2) (Cls False [(CHR ''A'', CHR ''Z'')]), WordB]),
     GI (seqs [WordB, Cls False [(CHR ''A'', CHR ''Z'')], Cls False [(CHR ''0'', CHR ''9'')], Cls False [(CHR ''A'', CHR ''Z'')], Star (Cls False spaceRanges), Cls False [(CHR ''0'', CHR ''9'')], Cls False [(CHR ''A'', CHR ''Z'')], Cls False [(CHR ''0'', CHR ''9'')], WordB]),
     GI (seqs [WordB, alts [Str ''NSW'', Str ''VIC'', Str ''QLD'', Str ''SA'', Str ''WA'', Str ''TAS'', Str ''NT'', Str ''ACT''], Star (Cls False spaceRanges), Rep 4 (Some 4) (Cls False [(CHR ''0'', CHR ''9'')]), WordB]),
     GI (seqs [WordB, alts [Str ''address'', seqs [Str ''ship'', Opt (Str ''ping'')], seqs [Str ''deliver'', Opt (Lit (CHR ''y''))], seqs [Str ''mail'', Opt (Str ''ing'')], seqs [Str ''locate'', Opt (Lit (CHR ''d'')), Star (Cls False spaceRanges), Str ''at''], Str ''residence'', Str ''home''], Star (Cls False spaceRanges), Opt (alts [Str ''to'', Str ''at'', Str ''is'']), Opt (Lit (CHR '':'')), Star (Cls False spaceRanges), Rep 1 (Some 6) (Cls False [(CHR ''0'', CHR ''9'')]), Plus (Cls False spaceRanges), Rep 10 (Some 100) (Cls False ([(CHR ''A'', CHR ''Z''), (CHR ''a'', CHR ''z''), (CHR ''0'', CHR ''9'')] @ spaceRanges @ [(CHR '','', CHR '',''), (CHR ''.'', CHR ''.'')]))]),
     GI (seqs [WordB, Str ''at'', Plus (Cls False spaceRanges), Rep 1 (Some 6) (Cls False [(CHR ''0'', CHR ''9'')]), Plus (Cls False spaceRanges), Plus (Cls False [(CHR ''A'', CHR ''Z''), (CHR ''a'', CHR ''z'')]), Rep 0 (Some 3) (seqs [Plus (Cls False spaceRanges), Plus (Cls False [(CHR ''A'', CHR ''Z''), (CHR ''a'', CHR ''z'')])]), Plus (Cls False spaceRanges), alts [Str ''Street'', Str ''St'', Str ''Avenue'', Str ''Ave'', Str ''Road'', Str ''Rd'', Str ''Drive'', Str ''Dr'', Str ''Lane'', Str ''Ln'', Str ''Way'', Str ''Court'', Str ''Ct'', Str ''Boulevard'', Str ''Blvd''], WordB]),
     GI (seqs [WordB, Plus (Cls False [(CHR ''A'', CHR ''Z''), (CHR ''a'', CHR ''z''), (CHR ''0'', CHR ''9'')]), Plus (Cls False spaceRanges), alts [Str ''Street'', Str ''St'', Str ''Avenue'', Str ''Ave'', Str ''Road'', Str ''Rd'', Str ''Drive'', Str ''Dr''], Star (Cls False spaceRanges), alts [Lit (CHR ''&''), Str ''and''], Star (Cls False spaceRanges), Plus (Cls False [(CHR ''A'', CHR ''Z''), (CHR ''a'', CHR ''z''), (CHR ''0'', CHR ''9'')]), Plus (Cls False spaceRanges), alts [Str ''Street'', Str ''St'', Str ''Avenue'', Str ''Ave'', Str ''Road'', Str ''Rd'', Str ''Drive'', Str ''Dr''], WordB]),
     GI (seqs [WordB, alts [Str ''Floor'', Str ''Level'', Str ''Fl''], Star (Cls False spaceRanges), Opt (Lit (CHR ''#'')), Star (Cls False spaceRanges), Rep 1 (Some 3) (Cls False [(CHR ''0'', CHR ''9'')]), WordB]),
     GI (seqs [WordB, Rep 1 (Some 2) (Cls False [(CHR ''0'', CHR ''9'')]), alts [Str ''st'', Str ''nd'', Str ''rd'', Str ''th''], Plus (Cls False spaceRanges), alts [Str ''Floor'', Str ''Level''], WordB]),
     GI (seqs [WordB, alts [Str ''Building'', Str ''Bldg''], Star (Cls False spaceRanges), Opt (Lit (CHR ''#'')), Star (Cls False spaceRanges), Rep 1 (Some 5) (Cls False [(CHR ''A'', CHR ''Z''), (CHR ''0'', CHR ''9'')]), WordB]),
     GI (seqs [WordB, Str ''C/O'', Plus (Cls False spaceRanges), Plus (Cls False ([(CHR ''A'', CHR ''Z''), (CHR ''a'', CHR ''z'')] @ spaceRanges))]),
     GI (seqs [WordB, Str ''Attn'', Opt (Lit (CHR '':'')), Plus (Cls False spaceRanges), Plus (Cls False ([(CHR ''A'', CHR ''Z''), (CHR ''a'', CHR ''z'')] @ spaceRanges))]),
     GI (seqs [WordB, Plus (Cls False [(CHR ''A'', CHR ''Z''), (CHR ''a'', CHR ''z''), (CHR 0xE4, CHR 0xE4), (CHR 0xF6, CHR 0xF6), (CHR 0xFC, CHR 0xFC), (CHR 0xC4, CHR 0xC4), (CHR 0xD6, CHR 0xD6), (CHR 0xDC, CHR 0xDC), (CHR 0xDF, CHR 0xDF)]), alts [Str (''stra'' @ [CHR 0xDF] @ ''e''), Str ''strasse'', Str ''gasse'', Str ''weg'', Str ''platz'', Str ''allee''], Star (Cls False spaceRanges), Plus (Cls False [(CHR ''0'', CHR ''9'')]), Opt (Cls False [(CHR ''A'', CHR ''Z''), (CHR ''a'', CHR ''z'')]), WordB]),
     GI (seqs [WordB, Plus (Cls False [(CHR ''0'', CHR ''9'')]), Plus (Cls False spaceRanges), alts [Str ''Rue'', Str ''Avenue'', Str ''Boulevard'', Str ''Place'', Str ''Chemin'', Str (''All'' @ [CHR 0xE9] @ ''e'')], Plus (Cls False spaceRanges), Plus (Cls False ([(CHR ''A'', CHR ''Z''), (CHR ''a'', CHR ''z'')] @ spaceRanges))])
    ]"

text \<open>
  \<^verbatim>\<open>getCityPatterns\<close>: the cities sorted by descending length, each escaped and put into
  \<^verbatim>\<open>new RegExp(`\\b${escaped}\\s*[,.]?\\s*(?:[A-Z]{2}\\s*)?[0-9]{5}(?:-[0-9]{4})?\\b`, 'gi')\<close>.
  Escaping makes every character of the name a literal.
\<close>

definition cityPattern :: "string \<Rightarrow> RegExp" where
  "cityPattern city =
     GI (seqs [WordB, Str city, Star (Cls False spaceRanges), Opt (Cls False [(CHR '','', CHR '',''), (CHR ''.'', CHR ''.'')]), Star (Cls False spaceRanges), Opt (seqs [Rep 2 (Some 2) (Cls False [(CHR ''A'', CHR ''Z'')]), Star (Cls False spaceRanges)]), Rep 5 (Some 5) (Cls False [(CHR ''0'', CHR ''9'')]), Opt (seqs [Lit (CHR ''-''), Rep 4 (Some 4) (Cls False [(CHR ''0'', CHR ''9'')])]), WordB])"

definition getCityPatterns :: "RegExp list" where
  "getCityPatterns = map cityPattern (sort_key (\<lambda>s. - int (length s)) MAJOR_CITIES)"

definition ADDRESS_PATTERNS :: "RegExp list" where
  "ADDRESS_PATTERNS = getAddressPatterns"

definition CITY_PATTERNS :: "RegExp list" where
  "CITY_PATTERNS = getCityPatterns"

section \<open>sanitizer.ts: the patterns\<close>

text \<open>
  An entry of \<^verbatim>\<open>PATTERNS\<close>. The fields \<^verbatim>\<open>name\<close> and \<^verbatim>\<open>description\<close> are not read by
  \<^verbatim>\<open>sanitizeText\<close> and are left out. Every expression of the table carries the flag \<^verbatim>\<open>g\<close>.
\<close>

record RedactionPattern =
  category :: RedactionCategory
  patterns :: "RegExp list"
  replacement :: string

text \<open>
  Category \<^verbatim>\<open>credit_cards\<close>, replacement \<^verbatim>\<open>[REDACTED_CARD]\<close>; its patterns, in order:
  \<^enum> \<^verbatim>\<open>/\b4[0-9]{3}[\s\-]?[0-9]{4}[\s\-]?[0-9]{4}[\s\-]?[0-9]{4}\b/g\<close>
  \<^enum> \<^verbatim>\<open>/\b(?:5[1-5][0-9]{2}|2[2-7][0-9]{2})[\s\-]?[0-9]{4}[\s\-]?[0-9]{4}[\s\-]?[0-9]{4}\b/g\<close>
  \<^enum> \<^verbatim>\<open>/\b3[47][0-9]{2}[\s\-]?[0-9]{6}[\s\-]?[0-9]{5}\b/g\<close>
  \<^enum> \<^verbatim>\<open>/\b6(?:011|5[0-9]{2}|4[4-9][0-9])[\s\-]?[0-9]{4}[\s\-]?[0-9]{4}[\s\-]?[0-9]{4}\b/g\<close>
  \<^enum> \<^verbatim>\<open>/\b[0-9]{4}[\s\-][0-9]{4}[\s\-][0-9]{4}[\s\-][0-9]{4}\b/g\<close>
  \<^enum> \<^verbatim>\<open>/\b(?:card|ending|ends|last\s*4)(?:\s+(?:in|digits?|number)?:?\s*)[0-9]{4}\b/gi\<close>
  \<^enum> \<^verbatim>\<open>/\.{2,}[0-9]{4}\b/g\<close>
  \<^enum> \<^verbatim>\<open>/\*{2,}[0-9]{4}\b/g\<close>
  \<^enum> \<^verbatim>\<open>/[xX]{2,}[0-9]{4}\b/g\<close>
  \<^enum> \<^verbatim>\<open>/\(\.\.\.[0-9]{4}\)/g\<close>
  \<^enum> \<^verbatim>\<open>/[\*xX]{4,}[0-9]{4}\b/gi\<close>
  \<^enum> \<^verbatim>\<open>/\b(?:your|my|the)\s+(?:\w+\s+)?card\s+[0-9]{8,20}\b/gi\<close>
  \<^enum> \<^verbatim>\<open>/\bcard\s*(?:#|number|no\.?)?:?\s*[0-9]{8,20}\b/gi\<close>
  \<^enum> \<^verbatim>\<open>/\bcontrol\s*(?:#|number|no\.?)?:?\s*[0-9]{8,20}\b/gi\<close>
  \<^enum> \<^verbatim>\<open>/\b(?:\w+\s+)?agreement\s*(?:#|number|no\.?)?:?\s*[0-9]{8,20}\b/gi\<close>
  \<^enum> \<^verbatim>\<open>/\bnumber:?\s*[0-9]{8,20}\b/gi\<close>
\<close>

definition credit_cards_patterns :: "RegExp list" where
  "credit_cards_patterns =
    [
     G (seqs [WordB, Lit (CHR ''4''), Rep 3 (Some 3) (Cls False [(CHR ''0'', CHR ''9'')]), Opt (Cls False (spaceRanges @ [(CHR ''-'', CHR ''-'')])), Rep 4 (Some 4) (Cls False [(CHR ''0'', CHR ''9'')]), Opt (Cls False (spaceRanges @ [(CHR ''-'', CHR ''-'')])), Rep 4 (Some 4) (Cls False [(CHR ''0'', CHR ''9'')]), Opt (Cls False (spaceRanges @ [(CHR ''-'', CHR ''-'')])), Rep 4 (Some 4) (Cls False [(CHR ''0'', CHR ''9'')]), WordB]),
     G (seqs [WordB, alts [seqs [Lit (CHR ''5''), Cls False [(CHR ''1'', CHR ''5'')], Rep 2 (Some 2) (Cls False [(CHR ''0'', CHR ''9'')])], seqs [Lit (CHR ''2''), Cls False [(CHR ''2'', CHR ''7'')], Rep 2 (Some 2) (Cls False [(CHR ''0'', CHR ''9'')])]], Opt (Cls False (spaceRanges @ [(CHR ''-'', CHR ''-'')])), Rep 4 (Some 4) (Cls False [(CHR ''0'', CHR ''9'')]), Opt (Cls False (spaceRanges @ [(CHR ''-'', CHR ''-'')])), Rep 4 (Some 4) (Cls False [(CHR ''0'', CHR ''9'')]), Opt (Cls False (spaceRanges @ [(CHR ''-'', CHR ''-'')])), Rep 4 (Some 4) (Cls False [(CHR ''0'', CHR ''9'')]), WordB]),
     G (seqs [WordB, Lit (CHR ''3''), Cls False [(CHR ''4'', CHR ''4''), (CHR ''7'', CHR ''7'')], Rep 2 (Some 2) (Cls False [(CHR ''0'', CHR ''9'')]), Opt (Cls False (spaceRanges @ [(CHR ''-'', CHR ''-'')])), Rep 6 (Some 6) (Cls False [(CHR ''0'', CHR ''9'')]), Opt (Cls False (spaceRanges @ [(CHR ''-'', CHR ''-'')])), Rep 5 (Some 5) (Cls False [(CHR ''0'', CHR ''9'')]), WordB]),
     G (seqs [WordB, Lit (CHR ''6''), alts [Str ''011'', seqs [Lit (CHR ''5''), Rep 2 (Some 2) (Cls False [(CHR ''0'', CHR ''9'')])], seqs [Lit (CHR ''4''), Cls False [(CHR ''4'', CHR ''9'')], Cls False [(CHR ''0'', CHR ''9'')]]], Opt (Cls False (spaceRanges @ [(CHR ''-'', CHR ''-'')])), Rep 4 (Some 4) (Cls False [(CHR ''0'', CHR ''9'')]), Opt (Cls False (spaceRanges @ [(CHR ''-'', CHR ''-'')])), Rep 4 (Some 4) (Cls False [(CHR ''0'', CHR ''9'')]), Opt (Cls False (spaceRanges @ [(CHR ''-'', CHR ''-'')])), Rep 4 (Some 4) (Cls False [(CHR ''0'', CHR ''9'')]), WordB]),
     G (seqs [WordB, Rep 4 (Some 4) (Cls False [(CHR ''0'', CHR ''9'')]), Cls False (spaceRanges @ [(CHR ''-'', CHR ''-'')]), Rep 4 (Some 4) (Cls False [(CHR ''0'', CHR ''9'')]), Cls False (spaceRanges @ [(CHR ''-'', CHR ''-'')]), Rep 4 (Some 4) (Cls False [(CHR ''0'', CHR ''9'')]), Cls False (spaceRanges @ [(CHR ''-'', CHR ''-'')]), Rep 4 (Some 4) (Cls False [(CHR ''0'', CHR ''9'')]), WordB]),
     GI (seqs [WordB, alts [Str ''card'', Str ''ending'', Str ''ends'', seqs [Str ''last'', Star (Cls False spaceRanges), Lit (CHR ''4'')]], seqs [Plus (Cls False spaceRanges), Opt (alts [Str ''in'', seqs [Str ''digit'', Opt (Lit (CHR ''s''))], Str ''number'']), Opt (Lit (CHR '':'')), Star (Cls False spaceRanges)], Rep 4 (Some 4) (Cls False [(CHR ''0'', CHR ''9'')]), WordB]),
     G (seqs [Rep 2 None (Lit (CHR ''.'')), Rep 4 (Some 4) (Cls False [(CHR ''0'', CHR ''9'')]), WordB]),
     G (seqs [Rep 2 None (Lit (CHR ''*'')), Rep 4 (Some 4) (Cls False [(CHR ''0'', CHR ''9'')]), WordB]),
     G (seqs [Rep 2 None (Cls False [(CHR ''x'', CHR ''x''), (CHR ''X'', CHR ''X'')]), Rep 4 (Some 4) (Cls False [(CHR ''0'', CHR ''9'')]), WordB]),
     G (seqs [Str ''(...'', Rep 4 (Some 4) (Cls False [(CHR ''0'', CHR ''9'')]), Lit (CHR '')'')]),
     GI (seqs [Rep 4 None (Cls False [(CHR ''*'', CHR ''*''), (CHR ''x'', CHR ''x''), (CHR ''X'', CHR ''X'')]), Rep 4 (Some 4) (Cls False [(CHR ''0'', CHR ''9'')]), WordB]),
     GI (seqs [WordB, alts [Str ''your'', Str ''my'', Str ''the''], Plus (Cls False spaceRanges), Opt (seqs [Plus (Cls False wordRanges), Plus (Cls False spaceRanges)]), Str ''card'', Plus (Cls False spaceRanges), Rep 8 (Some 20) (Cls False [(CHR ''0'', CHR ''9'')]), WordB]),
     GI (seqs [WordB, Str ''card'', Star (Cls False spaceRanges), Opt (alts [Lit (CHR ''#''), Str ''number'', seqs [Str ''no'', Opt (Lit (CHR ''.''))]]), Opt (Lit (CHR '':'')), Star (Cls False spaceRanges), Rep 8 (Some 20) (Cls False [(CHR ''0'', CHR ''9'')]), WordB]),
     GI (seqs [WordB, Str ''control'', Star (Cls False spaceRanges), Opt (alts [Lit (CHR ''#''), Str ''number'', seqs [Str ''no'', Opt (Lit (CHR ''.''))]]), Opt (Lit (CHR '':'')), Star (Cls False spaceRanges), Rep 8 (Some 20) (Cls False [(CHR ''0'', CHR ''9'')]), WordB]),
     GI (seqs [WordB, Opt (seqs [Plus (Cls False wordRanges), Plus (Cls False spaceRanges)]), Str ''agreement'', Star (Cls False spaceRanges), Opt (alts [Lit (CHR ''#''), Str ''number'', seqs [Str ''no'', Opt (Lit (CHR ''.''))]]), Opt (Lit (CHR '':'')), Star (Cls False spaceRanges), Rep 8 (Some 20) (Cls False [(CHR ''0'', CHR ''9'')]), WordB]),
     GI (seqs [WordB, Str ''number'', Opt (Lit (CHR '':'')), Star (Cls False spaceRanges), Rep 8 (Some 20) (Cls False [(CHR ''0'', CHR ''9'')]), WordB])
    ]"

text \<open>
  Category \<^verbatim>\<open>bank_accounts\<close>, replacement \<^verbatim>\<open>[REDACTED_BANK]\<close>; its patterns, in order:
  \<^enum> \<^verbatim>\<open>/\b(?:routing|aba|transit)(?:\s*(?:#|number|no\.?)?:?\s*)[0-9]{9}\b/gi\<close>
  \<^enum> \<^verbatim>\<open>/\b(?:account|acct)(?:\s*(?:#|number|no\.?)?:?\s*)[0-9]{6,17}\b/gi\<close>
  \<^enum> \<^verbatim>\<open>/\b[A-Z]{2}[0-9]{2}[\s]?[A-Z0-9]{4}[\s]?[0-9]{4}[\s]?[0-9]{4}[\s]?[0-9]{4}[\s]?[0-9]{0,4}\b/g\<close>
  \<^enum> \<^verbatim>\<open>/\b[A-Z]{4}[A-Z]{2}[A-Z0-9]{2}(?:[A-Z0-9]{3})?\b/g\<close>
\<close>

definition bank_accounts_patterns :: "RegExp list" where
  "bank_accounts_patterns =
    [
     GI (seqs [WordB, alts [Str ''routing'', Str ''aba'', Str ''transit''], seqs [Star (Cls False spaceRanges), Opt (alts [Lit (CHR ''#''), Str ''number'', seqs [Str ''no'', Opt (Lit (CHR ''.''))]]), Opt (Lit (CHR '':'')), Star (Cls False spaceRanges)], Rep 9 (Some 9) (Cls False [(CHR ''0'', CHR ''9'')]), WordB]),
     GI (seqs [WordB, alts [Str ''account'', Str ''acct''], seqs [Star (Cls False spaceRanges), Opt (alts [Lit (CHR ''#''), Str ''number'', seqs [Str ''no'', Opt (Lit (CHR ''.''))]]), Opt (Lit (CHR '':'')), Star (Cls False spaceRanges)], Rep 6 (Some 17) (Cls False [(CHR ''0'', CHR ''9'')]), WordB]),
     G (seqs [WordB, Rep 2 (Some 2) (Cls False [(CHR ''A'', CHR ''Z'')]), Rep 2 (Some 2) (Cls False [(CHR ''0'', CHR ''9'')]), Opt (Cls False spaceRanges), Rep 4 (Some 4) (Cls False [(CHR ''A'', CHR ''Z''), (CHR ''0'', CHR ''9'')]), Opt (Cls False spaceRanges), Rep 4 (Some 4) (Cls False [(CHR ''0'', CHR ''9'')]), Opt (Cls False spaceRanges), Rep 4 (Some 4) (Cls False [(CHR ''0'', CHR ''9'')]), Opt (Cls False spaceRanges), Rep 4 (Some 4) (Cls False [(CHR ''0'', CHR ''9'')]), Opt (Cls False spaceRanges), Rep 0 (Some 4) (Cls False [(CHR ''0'', CHR ''9'')]), WordB]),
     G (seqs [WordB, Rep 4 (Some 4) (Cls False [(CHR ''A'', CHR ''Z'')]), Rep 2 (Some 2) (Cls False [(CHR ''A'', CHR ''Z'')]), Rep 2 (Some 2) (Cls False [(CHR ''A'', CHR ''Z''), (CHR ''0'', CHR ''9'')]), Opt (Rep 3 (Some 3) (Cls False [(CHR ''A'', CHR ''Z''), (CHR ''0'', CHR ''9'')])), WordB])
    ]"

text \<open>
  Category \<^verbatim>\<open>tax_ids\<close>, replacement \<^verbatim>\<open>[REDACTED_TAX_ID]\<close>; its patterns, in order:
  \<^enum> \<^verbatim>\<open>/\b[0-9]{3}[\s\-][0-9]{2}[\s\-][0-9]{4}\b/g\<close>
  \<^enum> \<^verbatim>\<open>/\b[0-9]{2}[\s\-][0-9]{7}\b/g\<close>
  \<^enum> \<^verbatim>\<open>/\b(?:ssn|social\s*security|tin|tax\s*id|ein|itin)(?:\s*(?:#|number|no\.?)?:?\s*)[0-9\-\s]{9,11}\b/gi\<close>
  \<^enum> \<^verbatim>\<open>/\b[0-9]{3}[\s\-][0-9]{3}[\s\-][0-9]{3}\b/g\<close>
  \<^enum> \<^verbatim>\<open>/\b[A-Z]{2}[0-9]{6}[A-Z]\b/g\<close>
  \<^enum> \<^verbatim>\<open>/\b(?:tfn|tax\s*file)(?:\s*(?:#|number|no\.?)?:?\s*)[0-9]{3}[\s]?[0-9]{3}[\s]?[0-9]{3}\b/gi\<close>
\<close>

definition tax_ids_patterns :: "RegExp list" where
  "tax_ids_patterns =
    [
     G (seqs [WordB, Rep 3 (Some 3) (Cls False [(CHR ''0'', CHR ''9'')]), Cls False (spaceRanges @ [(CHR ''-'', CHR ''-'')]), Rep 2 (Some 2) (Cls False [(CHR ''0'', CHR ''9'')]), Cls False (spaceRanges @ [(CHR ''-'', CHR ''-'')]), Rep 4 (Some 4) (Cls False [(CHR ''0'', CHR ''9'')]), WordB]),
     G (seqs [WordB, Rep 2 (Some 2) (Cls False [(CHR ''0'', CHR ''9'')]), Cls False (spaceRanges @ [(CHR ''-'', CHR ''-'')]), Rep 7 (Some 7) (Cls False [(CHR ''0'', CHR ''9'')]), WordB]),
     GI (seqs [WordB, alts [Str ''ssn'', seqs [Str ''social'', Star (Cls False spaceRanges), Str ''security''], Str ''tin'', seqs [Str ''tax'', Star (Cls False spaceRanges), Str ''id''], Str ''ein'', Str ''itin''], seqs [Star (Cls False spaceRanges), Opt (alts [Lit (CHR ''#''), Str ''number'', seqs [Str ''no'', Opt (Lit (CHR ''.''))]]), Opt (Lit (CHR '':'')), Star (Cls False spaceRanges)], Rep 9 (Some 11) (Cls False ([(CHR ''0'', CHR ''9''), (CHR ''-'', CHR ''-'')] @ spaceRanges)), WordB]),
     G (seqs [WordB, Rep 3 (Some 3) (Cls False [(CHR ''0'', CHR ''9'')]), Cls False (spaceRanges @ [(CHR ''-'', CHR ''-'')]), Rep 3 (Some 3) (Cls False [(CHR ''0'', CHR ''9'')]), Cls False (spaceRanges @ [(CHR ''-'', CHR ''-'')]), Rep 3 (Some 3) (Cls False [(CHR ''0'', CHR ''9'')]), WordB]),
     G (seqs [WordB, Rep 2 (Some 2) (Cls False [(CHR ''A'', CHR ''Z'')]), Rep 6 (Some 6) (Cls False [(CHR ''0'', CHR ''9'')]), Cls False [(CHR ''A'', CHR ''Z'')], WordB]),
     GI (seqs [WordB, alts [Str ''tfn'', seqs [Str ''tax'', Star (Cls False spaceRanges), Str ''file'']], seqs [Star (Cls False spaceRanges), Opt (alts [Lit (CHR ''#''), Str ''number'', seqs [Str ''no'', Opt (Lit (CHR ''.''))]]), Opt (Lit (CHR '':'')), Star (Cls False spaceRanges)], Rep 3 (Some 3) (Cls False [(CHR ''0'', CHR ''9'')]), Opt (Cls False spaceRanges), Rep 3 (Some 3) (Cls False [(CHR ''0'', CHR ''9'')]), Opt (Cls False spaceRanges), Rep 3 (Some 3) (Cls False [(CHR ''0'', CHR ''9'')]), WordB])
    ]"

text \<open>
  Category \<^verbatim>\<open>passwords\<close>, replacement \<^verbatim>\<open>[REDACTED_PASSWORD]\<close>; its patterns, in order:
  \<^enum> \<^verbatim>\<open>/\b(?:password|passwd|pwd|pin|passcode|secret)(?:\s*(?:is|was|:)\s*)["']?[^\s"']{4,50}["']?/gi\<close>
  \<^enum> \<^verbatim>\<open>/\b(?:temporary|temp|new|initial|default)\s+(?:password|pwd|pin)(?:\s*(?:is|was|:)\s*)["']?[^\s"']{4,50}["']?/gi\<close>
  \<^enum> \<^verbatim>\<open>/(?:your|the)\s+(?:password|pin|passcode)\s+(?:is|was|:)\s*["']?[^\s"'\n]{4,50}["']?/gi\<close>
\<close>

definition passwords_patterns :: "RegExp list" where
  "passwords_patterns =
    [
     GI (seqs [WordB, alts [Str ''password'', Str ''passwd'', Str ''pwd'', Str ''pin'', Str ''passcode'', Str ''secret''], seqs [Star (Cls False spaceRanges), alts [Str ''is'', Str ''was'', Lit (CHR '':'')], Star (Cls False spaceRanges)], Opt (Cls False [(CHR 0x22, CHR 0x22), (CHR 0x27, CHR 0x27)]), Rep 4 (Some 50) (Cls True (spaceRanges @ [(CHR 0x22, CHR 0x22), (CHR 0x27, CHR 0x27)])), Opt (Cls False [(CHR 0x22, CHR 0x22), (CHR 0x27, CHR 0x27)])]),
     GI (seqs [WordB, alts [Str ''temporary'', Str ''temp'', Str ''new'', Str ''initial'', Str ''default''], Plus (Cls False spaceRanges), alts [Str ''password'', Str ''pwd'', Str ''pin''], seqs [Star (Cls False spaceRanges), alts [Str ''is'', Str ''was'', Lit (CHR '':'')], Star (Cls False spaceRanges)], Opt (Cls False [(CHR 0x22, CHR 0x22), (CHR 0x27, CHR 0x27)]), Rep 4 (Some 50) (Cls True (spaceRanges @ [(CHR 0x22, CHR 0x22), (CHR 0x27, CHR 0x27)])), Opt (Cls False [(CHR 0x22, CHR 0x22), (CHR 0x27, CHR 0x27)])]),
     GI (seqs [alts [Str ''your'', Str ''the''], Plus (Cls False spaceRanges), alts [Str ''password'', Str ''pin'', Str ''passcode''], Plus (Cls False spaceRanges), alts [Str ''is'', Str ''was'', Lit (CHR '':'')], Star (Cls False spaceRanges), Opt (Cls False [(CHR 0x22, CHR 0x22), (CHR 0x27, CHR 0x27)]), Rep 4 (Some 50) (Cls True (spaceRanges @ [(CHR 0x22, CHR 0x22), (CHR 0x27, CHR 0x27), (CHR 0x0A, CHR 0x0A)])), Opt (Cls False [(CHR 0x22, CHR 0x22), (CHR 0x27, CHR 0x27)])])
    ]"

text \<open>
  Category \<^verbatim>\<open>api_keys\<close>, replacement \<^verbatim>\<open>[REDACTED_API_KEY]\<close>; its patterns, in order:
  \<^enum> \<^verbatim>\<open>/\b(?:AKIA|ABIA|ACCA|ASIA)[A-Z0-9]{16}\b/g\<close>
  \<^enum> \<^verbatim>\<open>/\b(?:aws[_\-]?secret|secret[_\-]?key)["']?\s*[:=]\s*["']?[A-Za-z0-9\/+=]{40}["']?/gi\<close>
  \<^enum> \<^verbatim>\<open>/\bAIza[A-Za-z0-9_-]{35}\b/g\<close>
  \<^enum> \<^verbatim>\<open>/\b(?:sk|pk|rk)_(?:live|test)_[A-Za-z0-9]{24,}\b/g\<close>
  \<^enum> \<^verbatim>\<open>/\b(?:ghp|gho|ghu|ghs|ghr)_[A-Za-z0-9]{36,}\b/g\<close>
  \<^enum> \<^verbatim>\<open>/\bxox[baprs]-[A-Za-z0-9\-]{10,}\b/g\<close>
  \<^enum> \<^verbatim>\<open>/\b(?:api[_\-]?key|apikey|access[_\-]?token|auth[_\-]?token|bearer)["']?\s*[:=]\s*["']?[A-Za-z0-9_\-]{20,}["']?/gi\<close>
  \<^enum> \<^verbatim>\<open>/\bBearer\s+[A-Za-z0-9_\-\.]+/g\<close>
  \<^enum> \<^verbatim>\<open>/\beyJ[A-Za-z0-9_-]*\.eyJ[A-Za-z0-9_-]*\.[A-Za-z0-9_-]*/g\<close>
\<close>

definition api_keys_patterns :: "RegExp list" where
  "api_keys_patterns =
    [
     G (seqs [WordB, alts [Str ''AKIA'', Str ''ABIA'', Str ''ACCA'', Str ''ASIA''], Rep 16 (Some 16) (Cls False [(CHR ''A'', CHR ''Z''), (CHR ''0'', CHR ''9'')]), WordB]),
     GI (seqs [WordB, alts [seqs [Str ''aws'', Opt (Cls False [(CHR ''_'', CHR ''_''), (CHR ''-'', CHR ''-'')]), Str ''secret''], seqs [Str ''secret'', Opt (Cls False [(CHR ''_'', CHR ''_''), (CHR ''-'', CHR ''-'')]), Str ''key'']], Opt (Cls False [(CHR 0x22, CHR 0x22), (CHR 0x27, CHR 0x27)]), Star (Cls False spaceRanges), Cls False [(CHR '':'', CHR '':''), (CHR ''='', CHR ''='')], Star (Cls False spaceRanges), Opt (Cls False [(CHR 0x22, CHR 0x22), (CHR 0x27, CHR 0x27)]), Rep 40 (Some 40) (Cls False [(CHR ''A'', CHR ''Z''), (CHR ''a'', CHR ''z''), (CHR ''0'', CHR ''9''), (CHR ''/'', CHR ''/''), (CHR ''+'', CHR ''+''), (CHR ''='', CHR ''='')]), Opt (Cls False [(CHR 0x22, CHR 0x22), (CHR 0x27, CHR 0x27)])]),
     G (seqs [WordB, Str ''AIza'', Rep 35 (Some 35) (Cls False [(CHR ''A'', CHR ''Z''), (CHR ''a'', CHR ''z''), (CHR ''0'', CHR ''9''), (CHR ''_'', CHR ''_''), (CHR ''-'', CHR ''-'')]), WordB]),
     G (seqs [WordB, alts [Str ''sk'', Str ''pk'', Str ''rk''], Lit (CHR ''_''), alts [Str ''live'', Str ''test''], Lit (CHR ''_''), Rep 24 None (Cls False [(CHR ''A'', CHR ''Z''), (CHR ''a'', CHR ''z''), (CHR ''0'', CHR ''9'')]), WordB]),
     G (seqs [WordB, alts [Str ''ghp'', Str ''gho'', Str ''ghu'', Str ''ghs'', Str ''ghr''], Lit (CHR ''_''), Rep 36 None (Cls False [(CHR ''A'', CHR ''Z''), (CHR ''a'', CHR ''z''), (CHR ''0'', CHR ''9'')]), WordB]),
     G (seqs [WordB, Str ''xox'', Cls False [(CHR ''b'', CHR ''b''), (CHR ''a'', CHR ''a''), (CHR ''p'', CHR ''p''), (CHR ''r'', CHR ''r''), (CHR ''s'', CHR ''s'')], Lit (CHR ''-''), Rep 10 None (Cls False [(CHR ''A'', CHR ''Z''), (CHR ''a'', CHR ''z''), (CHR ''0'', CHR ''9''), (CHR ''-'', CHR ''-'')]), WordB]),
     GI (seqs [WordB, alts [seqs [Str ''api'', Opt (Cls False [(CHR ''_'', CHR ''_''), (CHR ''-'', CHR ''-'')]), Str ''key''], Str ''apikey'', seqs [Str ''access'', Opt (Cls False [(CHR ''_'', CHR ''_''), (CHR ''-'', CHR ''-'')]), Str ''token''], seqs [Str ''auth'', Opt (Cls False [(CHR ''_'', CHR ''_''), (CHR ''-'', CHR ''-'')]), Str ''token''], Str ''bearer''], Opt (Cls False [(CHR 0x22, CHR 0x22), (CHR 0x27, CHR 0x27)]), Star (Cls False spaceRanges), Cls False [(CHR '':'', CHR '':''), (CHR ''='', CHR ''='')], Star (Cls False spaceRanges), Opt (Cls False [(CHR 0x22, CHR 0x22), (CHR 0x27, CHR 0x27)]), Rep 20 None (Cls False [(CHR ''A'', CHR ''Z''), (CHR ''a'', CHR ''z''), (CHR ''0'', CHR ''9''), (CHR ''_'', CHR ''_''), (CHR ''-'', CHR ''-'')]), Opt (Cls False [(CHR 0x22, CHR 0x22), (CHR 0x27, CHR 0x27)])]),
     G (seqs [WordB, Str ''Bearer'', Plus (Cls False spaceRanges), Plus (Cls False [(CHR ''A'', CHR ''Z''), (CHR ''a'', CHR ''z''), (CHR ''0'', CHR ''9''), (CHR ''_'', CHR ''_''), (CHR ''-'', CHR ''-''), (CHR ''.'', CHR ''.'')])]),
     G (seqs [WordB, Str ''eyJ'', Star (Cls False [(CHR ''A'', CHR ''Z''), (CHR ''a'', CHR ''z''), (CHR ''0'', CHR ''9''), (CHR ''_'', CHR ''_''), (CHR ''-'', CHR ''-'')]), Str ''.eyJ'', Star (Cls False [(CHR ''A'', CHR ''Z''), (CHR ''a'', CHR ''z''), (CHR ''0'', CHR ''9''), (CHR ''_'', CHR ''_''), (CHR ''-'', CHR ''-'')]), Lit (CHR ''.''), Star (Cls False [(CHR ''A'', CHR ''Z''), (CHR ''a'', CHR ''z''), (CHR ''0'', CHR ''9''), (CHR ''_'', CHR ''_''), (CHR ''-'', CHR ''-'')])])
    ]"

text \<open>
  Category \<^verbatim>\<open>otp_codes\<close>, replacement \<^verbatim>\<open>[REDACTED_CODE]\<close>; its patterns, in order:
  \<^enum> \<^verbatim>\<open>/\b(?:verification|confirmation|security|authentication|otp)\s+code\s*(?:is|was)?:?\s*[0-9]{4,8}\b/gi\<close>
  \<^enum> \<^verbatim>\<open>/\bone[\s\-]?time\s+(?:code|password|passcode)[^0-9]*[0-9]{4,8}\b/gi\<close>
  \<^enum> \<^verbatim>\<open>/\bcode\s+(?:is\s+)?(?:only\s+)?valid[^0-9]*[0-9]{4,8}\b/gi\<close>
  \<^enum> \<^verbatim>\<open>/\b(?:your|the)\s+(?:code|pin|otp|passcode)\s*(?:is|was)?:?\s*[0-9]{4,8}\b/gi\<close>
  \<^enum> \<^verbatim>\<open>/\bcode\s*(?:is|was)?:?\s*[0-9]{4,8}\b/gi\<close>
  \<^enum> \<^verbatim>\<open>/\b(?:pin|otp)\s*:?\s*[0-9]{4,8}\b/gi\<close>
  \<^enum> \<^verbatim>\<open>/\b(?:2fa|two[\s\-]?factor|mfa)\s*(?:code)?\s*(?:is|was)?:?\s*[0-9]{4,8}\b/gi\<close>
  \<^enum> \<^verbatim>\<open>/\benter\s+(?:code\s+)?[0-9]{4,8}\b/gi\<close>
  \<^enum> \<^verbatim>\<open>/\bis\s*:\s*[0-9]{6}\b/gi\<close>
  \<^enum> \<^verbatim>\<open>/\bvalid\s+(?:for\s+)?[0-9]+\s*(?:minutes?|mins?|hours?|hrs?)[^0-9]*[0-9]{4,8}\b/gi\<close>
\<close>

definition otp_codes_patterns :: "RegExp list" where
  "otp_codes_patterns =
    [
     GI (seqs [WordB, alts [Str ''verification'', Str ''confirmation'', Str ''security'', Str ''authentication'', Str ''otp''], Plus (Cls False spaceRanges), Str ''code'', Star (Cls False spaceRanges), Opt (alts [Str ''is'', Str ''was'']), Opt (Lit (CHR '':'')), Star (Cls False spaceRanges), Rep 4 (Some 8) (Cls False [(CHR ''0'', CHR ''9'')]), WordB]),
     GI (seqs [WordB, Str ''one'', Opt (Cls False (spaceRanges @ [(CHR ''-'', CHR ''-'')])), Str ''time'', Plus (Cls False spaceRanges), alts [Str ''code'', Str ''password'', Str ''passcode''], Star (Cls True [(CHR ''0'', CHR ''9'')]), Rep 4 (Some 8) (Cls False [(CHR ''0'', CHR ''9'')]), WordB]),
     GI (seqs [WordB, Str ''code'', Plus (Cls False spaceRanges), Opt (seqs [Str ''is'', Plus (Cls False spaceRanges)]), Opt (seqs [Str ''only'', Plus (Cls False spaceRanges)]), Str ''valid'', Star (Cls True [(CHR ''0'', CHR ''9'')]), Rep 4 (Some 8) (Cls False [(CHR ''0'', CHR ''9'')]), WordB]),
     GI (seqs [WordB, alts [Str ''your'', Str ''the''], Plus (Cls False spaceRanges), alts [Str ''code'', Str ''pin'', Str ''otp'', Str ''passcode''], Star (Cls False spaceRanges), Opt (alts [Str ''is'', Str ''was'']), Opt (Lit (CHR '':'')), Star (Cls False spaceRanges), Rep 4 (Some 8) (Cls False [(CHR ''0'', CHR ''9'')]), WordB]),
     GI (seqs [WordB, Str ''code'', Star (Cls False spaceRanges), Opt (alts [Str ''is'', Str ''was'']), Opt (Lit (CHR '':'')), Star (Cls False spaceRanges), Rep 4 (Some 8) (Cls False [(CHR ''0'', CHR ''9'')]), WordB]),
     GI (seqs [WordB, alts [Str ''pin'', Str ''otp''], Star (Cls False spaceRanges), Opt (Lit (CHR '':'')), Star (Cls False spaceRanges), Rep 4 (Some 8) (Cls False [(CHR ''0'', CHR ''9'')]), WordB]),
     GI (seqs [WordB, alts [Str ''2fa'', seqs [Str ''two'', Opt (Cls False (spaceRanges @ [(CHR ''-'', CHR ''-'')])), Str ''factor''], Str ''mfa''], Star (Cls False spaceRanges), Opt (Str ''code''), Star (Cls False spaceRanges), Opt (alts [Str ''is'', Str ''was'']), Opt (Lit (CHR '':'')), Star (Cls False spaceRanges), Rep 4 (Some 8) (Cls False [(CHR ''0'', CHR ''9'')]), WordB]),
     GI (seqs [WordB, Str ''enter'', Plus (Cls False spaceRanges), Opt (seqs [Str ''code'', Plus (Cls False spaceRanges)]), Rep 4 (Some 8) (Cls False [(CHR ''0'', CHR ''9'')]), WordB]),
     GI (seqs [WordB, Str ''is'', Star (Cls False spaceRanges), Lit (CHR '':''), Star (Cls False spaceRanges), Rep 6 (Some 6) (Cls False [(CHR ''0'', CHR ''9'')]), WordB]),
     GI (seqs [WordB, Str ''valid'', Plus (Cls False spaceRanges), Opt (seqs [Str ''for'', Plus (Cls False spaceRanges)]), Plus (Cls False [(CHR ''0'', CHR ''9'')]), Star (Cls False spaceRanges), alts [seqs [Str ''minute'', Opt (Lit (CHR ''s''))], seqs [Str ''min'', Opt (Lit (CHR ''s''))], seqs [Str ''hour'', Opt (Lit (CHR ''s''))], seqs [Str ''hr'', Opt (Lit (CHR ''s''))]], Star (Cls True [(CHR ''0'', CHR ''9'')]), Rep 4 (Some 8) (Cls False [(CHR ''0'', CHR ''9'')]), WordB])
    ]"

text \<open>
  Category \<^verbatim>\<open>phone_numbers\<close>, replacement \<^verbatim>\<open>[REDACTED_PHONE]\<close>; its patterns, in order:
  \<^enum> \<^verbatim>\<open>/\+1[0-9]{10}\b/g\<close>
  \<^enum> \<^verbatim>\<open>/\b(?:\+?1[\s\-\.]?)?\(?[0-9]{3}\)?[\s\-\.][0-9]{3}[\s\-\.][0-9]{4}\b/g\<close>
  \<^enum> \<^verbatim>\<open>/\b[2-9][0-9]{2}[2-9][0-9]{6}\b/g\<close>
  \<^enum> \<^verbatim>\<open>/\+[0-9]{1,3}[\s\-\.][0-9]{1,4}[\s\-\.][0-9]{1,4}[\s\-\.][0-9]{1,4}[\s\-\.]?[0-9]{0,4}\b/g\<close>
  \<^enum> \<^verbatim>\<open>/\+[0-9]{11,15}\b/g\<close>
  \<^enum> \<^verbatim>\<open>/\b(?:\+44|0)[\s\-\.]?[0-9]{4}[\s\-\.]?[0-9]{6}\b/g\<close>
  \<^enum> \<^verbatim>\<open>/\b(?:phone|tel|mobile|cell|fax|call)(?:\s*(?:#|number|no\.?)?:?\s*)[\+]?[0-9\s\-\.\(\)]{7,20}\b/gi\<close>
\<close>

definition phone_numbers_patterns :: "RegExp list" where
  "phone_numbers_patterns =
    [
     G (seqs [Str ''+1'', Rep 10 (Some 10) (Cls False [(CHR ''0'', CHR ''9'')]), WordB]),
     G (seqs [WordB, Opt (seqs [Opt (Lit (CHR ''+'')), Lit (CHR ''1''), Opt (Cls False (spaceRanges @ [(CHR ''-'', CHR ''-''), (CHR ''.'', CHR ''.'')]))]), Opt (Lit (CHR ''('')), Rep 3 (Some 3) (Cls False [(CHR ''0'', CHR ''9'')]), Opt (Lit (CHR '')'')), Cls False (spaceRanges @ [(CHR ''-'', CHR ''-''), (CHR ''.'', CHR ''.'')]), Rep 3 (Some 3) (Cls False [(CHR ''0'', CHR ''9'')]), Cls False (spaceRanges @ [(CHR ''-'', CHR ''-''), (CHR ''.'', CHR ''.'')]), Rep 4 (Some 4) (Cls False [(CHR ''0'', CHR ''9'')]), WordB]),
     G (seqs [WordB, Cls False [(CHR ''2'', CHR ''9'')], Rep 2 (Some 2) (Cls False [(CHR ''0'', CHR ''9'')]), Cls False [(CHR ''2'', CHR ''9'')], Rep 6 (Some 6) (Cls False [(CHR ''0'', CHR ''9'')]), WordB]),
     G (seqs [Lit (CHR ''+''), Rep 1 (Some 3) (Cls False [(CHR ''0'', CHR ''9'')]), Cls False (spaceRanges @ [(CHR ''-'', CHR ''-''), (CHR ''.'', CHR ''.'')]), Rep 1 (Some 4) (Cls False [(CHR ''0'', CHR ''9'')]), Cls False (spaceRanges @ [(CHR ''-'', CHR ''-''), (CHR ''.'', CHR ''.'')]), Rep 1 (Some 4) (Cls False [(CHR ''0'', CHR ''9'')]), Cls False (spaceRanges @ [(CHR ''-'', CHR ''-''), (CHR ''.'', CHR ''.'')]), Rep 1 (Some 4) (Cls False [(CHR ''0'', CHR ''9'')]), Opt (Cls False (spaceRanges @ [(CHR ''-'', CHR ''-''), (CHR ''.'', CHR ''.'')])), Rep 0 (Some 4) (Cls False [(CHR ''0'', CHR ''9'')]), WordB]),
     G (seqs [Lit (CHR ''+''), Rep 11 (Some 15) (Cls False [(CHR ''0'', CHR ''9'')]), WordB]),
     G (seqs [WordB, alts [Str ''+44'', Lit (CHR ''0'')], Opt (Cls False (spaceRanges @ [(CHR ''-'', CHR ''-''), (CHR ''.'', CHR ''.'')])), Rep 4 (Some 4) (Cls False [(CHR ''0'', CHR ''9'')]), Opt (Cls False (spaceRanges @ [(CHR ''-'', CHR ''-''), (CHR ''.'', CHR ''.'')])), Rep 6 (Some 6) (Cls False [(CHR ''0'', CHR ''9'')]), WordB]),
     GI (seqs [WordB, alts [Str ''phone'', Str ''tel'', Str ''mobile'', Str ''cell'', Str ''fax'', Str ''call''], seqs [Star (Cls False spaceRanges), Opt (alts [Lit (CHR ''#''), Str ''number'', seqs [Str ''no'', Opt (Lit (CHR ''.''))]]), Opt (Lit (CHR '':'')), Star (Cls False spaceRanges)], Opt (Cls False [(CHR ''+'', CHR ''+'')]), Rep 7 (Some 20) (Cls False ([(CHR ''0'', CHR ''9'')] @ spaceRanges @ [(CHR ''-'', CHR ''-''), (CHR ''.'', CHR ''.''), (CHR ''('', CHR ''(''), (CHR '')'', CHR '')'')])), WordB])
    ]"

definition physical_addresses_patterns :: "RegExp list" where
  "physical_addresses_patterns = ADDRESS_PATTERNS @ CITY_PATTERNS"

text \<open>
  Category \<^verbatim>\<open>ip_addresses\<close>, replacement \<^verbatim>\<open>[REDACTED_IP]\<close>; its patterns, in order:
  \<^enum> \<^verbatim>\<open>/\b(?:(?:25[0-5]|2[0-4][0-9]|[01]?[0-9][0-9]?)\.){3}(?:25[0-5]|2[0-4][0-9]|[01]?[0-9][0-9]?)\b/g\<close>
  \<^enum> \<^verbatim>\<open>/\b(?:[0-9a-fA-F]{1,4}:){7}[0-9a-fA-F]{1,4}\b/g\<close>
  \<^enum> \<^verbatim>\<open>/\b(?:[0-9a-fA-F]{1,4}:){1,7}:\b/g\<close>
  \<^enum> \<^verbatim>\<open>/\b::(?:[0-9a-fA-F]{1,4}:){0,6}[0-9a-fA-F]{1,4}\b/g\<close>
\<close>

definition ip_addresses_patterns :: "RegExp list" where
  "ip_addresses_patterns =
    [
     G (seqs [WordB, Rep 3 (Some 3) (seqs [alts [seqs [Str ''25'', Cls False [(CHR ''0'', CHR ''5'')]], seqs [Lit (CHR ''2''), Cls False [(CHR ''0'', CHR ''4'')], Cls False [(CHR ''0'', CHR ''9'')]], seqs [Opt (Cls False [(CHR ''0'', CHR ''0''), (CHR ''1'', CHR ''1'')]), Cls False [(CHR ''0'', CHR ''9'')], Opt (Cls False [(CHR ''0'', CHR ''9'')])]], Lit (CHR ''.'')]), alts [seqs [Str ''25'', Cls False [(CHR ''0'', CHR ''5'')]], seqs [Lit (CHR ''2''), Cls False [(CHR ''0'', CHR ''4'')], Cls False [(CHR ''0'', CHR ''9'')]], seqs [Opt (Cls False [(CHR ''0'', CHR ''0''), (CHR ''1'', CHR ''1'')]), Cls False [(CHR ''0'', CHR ''9'')], Opt (Cls False [(CHR ''0'', CHR ''9'')])]], WordB]),
     G (seqs [WordB, Rep 7 (Some 7) (seqs [Rep 1 (Some 4) (Cls False [(CHR ''0'', CHR ''9''), (CHR ''a'', CHR ''f''), (CHR ''A'', CHR ''F'')]), Lit (CHR '':'')]), Rep 1 (Some 4) (Cls False [(CHR ''0'', CHR ''9''), (CHR ''a'', CHR ''f''), (CHR ''A'', CHR ''F'')]), WordB]),
     G (seqs [WordB, Rep 1 (Some 7) (seqs [Rep 1 (Some 4) (Cls False [(CHR ''0'', CHR ''9''), (CHR ''a'', CHR ''f''), (CHR ''A'', CHR ''F'')]), Lit (CHR '':'')]), Lit (CHR '':''), WordB]),
     G (seqs [WordB, Str ''::'', Rep 0 (Some 6) (seqs [Rep 1 (Some 4) (Cls False [(CHR ''0'', CHR ''9''), (CHR ''a'', CHR ''f''), (CHR ''A'', CHR ''F'')]), Lit (CHR '':'')]), Rep 1 (Some 4) (Cls False [(CHR ''0'', CHR ''9''), (CHR ''a'', CHR ''f''), (CHR ''A'', CHR ''F'')]), WordB])
    ]"

text \<open>
  Category \<^verbatim>\<open>government_ids\<close>, replacement \<^verbatim>\<open>[REDACTED_GOV_ID]\<close>; its patterns, in order:
  \<^enum> \<^verbatim>\<open>/\b(?:passport)(?:\s*(?:#|number|no\.?)?:?\s*)[A-Z0-9]{6,12}\b/gi\<close>
  \<^enum> \<^verbatim>\<open>/\b(?:driver'?s?\s*licen[sc]e|dl|license)(?:\s*(?:#|number|no\.?)?:?\s*)[A-Z0-9\-]{5,20}\b/gi\<close>
  \<^enum> \<^verbatim>\<open>/\b(?:national\s*id|id\s*card|identity\s*card)(?:\s*(?:#|number|no\.?)?:?\s*)[A-Z0-9\-]{5,20}\b/gi\<close>
  \<^enum> \<^verbatim>\<open>/\b(?:medicare)(?:\s*(?:#|number|no\.?)?:?\s*)[0-9]{10,11}\b/gi\<close>
  \<^enum> \<^verbatim>\<open>/\b(?:nhs)(?:\s*(?:#|number|no\.?)?:?\s*)[0-9]{3}[\s\-]?[0-9]{3}[\s\-]?[0-9]{4}\b/gi\<close>
\<close>

definition government_ids_patterns :: "RegExp list" where
  "government_ids_patterns =
    [
     GI (seqs [WordB, Str ''passport'', seqs [Star (Cls False spaceRanges), Opt (alts [Lit (CHR ''#''), Str ''number'', seqs [Str ''no'', Opt (Lit (CHR ''.''))]]), Opt (Lit (CHR '':'')), Star (Cls False spaceRanges)], Rep 6 (Some 12) (Cls False [(CHR ''A'', CHR ''Z''), (CHR ''0'', CHR ''9'')]), WordB]),
     GI (seqs [WordB, alts [seqs [Str ''driver'', Opt (Lit (CHR 0x27)), Opt (Lit (CHR ''s'')), Star (Cls False spaceRanges), Str ''licen'', Cls False [(CHR ''s'', CHR ''s''), (CHR ''c'', CHR ''c'')], Lit (CHR ''e'')], Str ''dl'', Str ''license''], seqs [Star (Cls False spaceRanges), Opt (alts [Lit (CHR ''#''), Str ''number'', seqs [Str ''no'', Opt (Lit (CHR ''.''))]]), Opt (Lit (CHR '':'')), Star (Cls False spaceRanges)], Rep 5 (Some 20) (Cls False [(CHR ''A'', CHR ''Z''), (CHR ''0'', CHR ''9''), (CHR ''-'', CHR ''-'')]), WordB]),
     GI (seqs [WordB, alts [seqs [Str ''national'', Star (Cls False spaceRanges), Str ''id''], seqs [Str ''id'', Star (Cls False spaceRanges), Str ''card''], seqs [Str ''identity'', Star (Cls False spaceRanges), Str ''card'']], seqs [Star (Cls False spaceRanges), Opt (alts [Lit (CHR ''#''), Str ''number'', seqs [Str ''no'', Opt (Lit (CHR ''.''))]]), Opt (Lit (CHR '':'')), Star (Cls False spaceRanges)], Rep 5 (Some 20) (Cls False [(CHR ''A'', CHR ''Z''), (CHR ''0'', CHR ''9''), (CHR ''-'', CHR ''-'')]), WordB]),
     GI (seqs [WordB, Str ''medicare'', seqs [Star (Cls False spaceRanges), Opt (alts [Lit (CHR ''#''), Str ''number'', seqs [Str ''no'', Opt (Lit (CHR ''.''))]]), Opt (Lit (CHR '':'')), Star (Cls False spaceRanges)], Rep 10 (Some 11) (Cls False [(CHR ''0'', CHR ''9'')]), WordB]),
     GI (seqs [WordB, Str ''nhs'', seqs [Star (Cls False spaceRanges), Opt (alts [Lit (CHR ''#''), Str ''number'', seqs [Str ''no'', Opt (Lit (CHR ''.''))]]), Opt (Lit (CHR '':'')), Star (Cls False spaceRanges)], Rep 3 (Some 3) (Cls False [(CHR ''0'', CHR ''9'')]), Opt (Cls False (spaceRanges @ [(CHR ''-'', CHR ''-'')])), Rep 3 (Some 3) (Cls False [(CHR ''0'', CHR ''9'')]), Opt (Cls False (spaceRanges @ [(CHR ''-'', CHR ''-'')])), Rep 4 (Some 4) (Cls False [(CHR ''0'', CHR ''9'')]), WordB])
    ]"

text \<open>
  Category \<^verbatim>\<open>token_urls\<close>, replacement \<^verbatim>\<open>[REDACTED_URL]\<close>; its patterns, in order:
  \<^enum> \<^verbatim>\<open>/https?:\/\/[^\s]*(?:reset|password|recover|forgot)[^\s]*[?&][^\s]*(?:token|key|code|hash|id)=[^\s&"']{10,}[^\s]*/gi\<close>
  \<^enum> \<^verbatim>\<open>/https?:\/\/[^\s]*(?:verify|confirm|activate|validate)[^\s]*[?&][^\s]*(?:token|key|code|hash|id)=[^\s&"']{10,}[^\s]*/gi\<close>
  \<^enum> \<^verbatim>\<open>/https?:\/\/[^\s]*(?:unsubscribe|optout|opt-out|preferences)[^\s]*[?&][^\s]*=[^\s&"']{20,}[^\s]*/gi\<close>
  \<^enum> \<^verbatim>\<open>/https?:\/\/[^\s]*(?:magic|login|signin|auth)[^\s]*[?&][^\s]*(?:token|key|code)=[^\s&"']{10,}[^\s]*/gi\<close>
  \<^enum> \<^verbatim>\<open>/https?:\/\/[^\s]*[?&](?:track|click|open|view|pixel)[^\s]*=[^\s&"']{20,}[^\s]*/gi\<close>
  \<^enum> \<^verbatim>\<open>/https?:\/\/[^\s<>"']*[?&][a-z_]*(?:token|key|hash|signature|sig|auth|session)=[A-Za-z0-9_\-\.%]{30,}[^\s<>"']*/gi\<close>
  \<^enum> \<^verbatim>\<open>/https?:\/\/[^\s<>"']*[?&;](?:payeeId|bu|uid|userId|user_id|trkId|euid|cnvId|mesgId|osub|segname|plmtId|ndid|_ei_|username|pcid)=[A-Za-z0-9_\-\.%]+[^\s<>"']*/gi\<close>
  \<^enum> \<^verbatim>\<open>/https?:\/\/[^\s<>"']*[?&][a-z_]*[iI]d=[0-9]{8,}[^\s<>"']*/gi\<close>
\<close>

definition token_urls_patterns :: "RegExp list" where
  "token_urls_patterns =
    [
     GI (seqs [Str ''http'', Opt (Lit (CHR ''s'')), Str ''://'', Star (Cls True spaceRanges), alts [Str ''reset'', Str ''password'', Str ''recover'', Str ''forgot''], Star (Cls True spaceRanges), Cls False [(CHR ''?'', CHR ''?''), (CHR ''&'', CHR ''&'')], Star (Cls True spaceRanges), alts [Str ''token'', Str ''key'', Str ''code'', Str ''hash'', Str ''id''], Lit (CHR ''=''), Rep 10 None (Cls True (spaceRanges @ [(CHR ''&'', CHR ''&''), (CHR 0x22, CHR 0x22), (CHR 0x27, CHR 0x27)])), Star (Cls True spaceRanges)]),
     GI (seqs [Str ''http'', Opt (Lit (CHR ''s'')), Str ''://'', Star (Cls True spaceRanges), alts [Str ''verify'', Str ''confirm'', Str ''activate'', Str ''validate''], Star (Cls True spaceRanges), Cls False [(CHR ''?'', CHR ''?''), (CHR ''&'', CHR ''&'')], Star (Cls True spaceRanges), alts [Str ''token'', Str ''key'', Str ''code'', Str ''hash'', Str ''id''], Lit (CHR ''=''), Rep 10 None (Cls True (spaceRanges @ [(CHR ''&'', CHR ''&''), (CHR 0x22, CHR 0x22), (CHR 0x27, CHR 0x27)])), Star (Cls True spaceRanges)]),
     GI (seqs [Str ''http'', Opt (Lit (CHR ''s'')), Str ''://'', Star (Cls True spaceRanges), alts [Str ''unsubscribe'', Str ''optout'', Str ''opt-out'', Str ''preferences''], Star (Cls True spaceRanges), Cls False [(CHR ''?'', CHR ''?''), (CHR ''&'', CHR ''&'')], Star (Cls True spaceRanges), Lit (CHR ''=''), Rep 20 None (Cls True (spaceRanges @ [(CHR ''&'', CHR ''&''), (CHR 0x22, CHR 0x22), (CHR 0x27, CHR 0x27)])), Star (Cls True spaceRanges)]),
     GI (seqs [Str ''http'', Opt (Lit (CHR ''s'')), Str ''://'', Star (Cls True spaceRanges), alts [Str ''magic'', Str ''login'', Str ''signin'', Str ''auth''], Star (Cls True spaceRanges), Cls False [(CHR ''?'', CHR ''?''), (CHR ''&'', CHR ''&'')], Star (Cls True spaceRanges), alts [Str ''token'', Str ''key'', Str ''code''], Lit (CHR ''=''), Rep 10 None (Cls True (spaceRanges @ [(CHR ''&'', CHR ''&''), (CHR 0x22, CHR 0x22), (CHR 0x27, CHR 0x27)])), Star (Cls True spaceRanges)]),
     GI (seqs [Str ''http'', Opt (Lit (CHR ''s'')), Str ''://'', Star (Cls True spaceRanges), Cls False [(CHR ''?'', CHR ''?''), (CHR ''&'', CHR ''&'')], alts [Str ''track'', Str ''click'', Str ''open'', Str ''view'', Str ''pixel''], Star (Cls True spaceRanges), Lit (CHR ''=''), Rep 20 None (Cls True (spaceRanges @ [(CHR ''&'', CHR ''&''), (CHR 0x22, CHR 0x22), (CHR 0x27, CHR 0x27)])), Star (Cls True spaceRanges)]),
     GI (seqs [Str ''http'', Opt (Lit (CHR ''s'')), Str ''://'', Star (Cls True (spaceRanges @ [(CHR ''<'', CHR ''<''), (CHR ''>'', CHR ''>''), (CHR 0x22, CHR 0x22), (CHR 0x27, CHR 0x27)])), Cls False [(CHR ''?'', CHR ''?''), (CHR ''&'', CHR ''&'')], Star (Cls False [(CHR ''a'', CHR ''z''), (CHR ''_'', CHR ''_'')]), alts [Str ''token'', Str ''key'', Str ''hash'', Str ''signature'', Str ''sig'', Str ''auth'', Str ''session''], Lit (CHR ''=''), Rep 30 None (Cls False [(CHR ''A'', CHR ''Z''), (CHR ''a'', CHR ''z''), (CHR ''0'', CHR ''9''), (CHR ''_'', CHR ''_''), (CHR ''-'', CHR ''-''), (CHR ''.'', CHR ''.''), (CHR ''%'', CHR ''%'')]), Star (Cls True (spaceRanges @ [(CHR ''<'', CHR ''<''), (CHR ''>'', CHR ''>''), (CHR 0x22, CHR 0x22), (CHR 0x27, CHR 0x27)]))]),
     GI (seqs [Str ''http'', Opt (Lit (CHR ''s'')), Str ''://'', Star (Cls True (spaceRanges @ [(CHR ''<'', CHR ''<''), (CHR ''>'', CHR ''>''), (CHR 0x22, CHR 0x22), (CHR 0x27, CHR 0x27)])), Cls False [(CHR ''?'', CHR ''?''), (CHR ''&'', CHR ''&''), (CHR '';'', CHR '';'')], alts [Str ''payeeId'', Str ''bu'', Str ''uid'', Str ''userId'', Str ''user_id'', Str ''trkId'', Str ''euid'', Str ''cnvId'', Str ''mesgId'', Str ''osub'', Str ''segname'', Str ''plmtId'', Str ''ndid'', Str ''_ei_'', Str ''username'', Str ''pcid''], Lit (CHR ''=''), Plus (Cls False [(CHR ''A'', CHR ''Z''), (CHR ''a'', CHR ''z''), (CHR ''0'', CHR ''9''), (CHR ''_'', CHR ''_''), (CHR ''-'', CHR ''-''), (CHR ''.'', CHR ''.''), (CHR ''%'', CHR ''%'')]), Star (Cls True (spaceRanges @ [(CHR ''<'', CHR ''<''), (CHR ''>'', CHR ''>''), (CHR 0x22, CHR 0x22), (CHR 0x27, CHR 0x27)]))]),
     GI (seqs [Str ''http'', Opt (Lit (CHR ''s'')), Str ''://'', Star (Cls True (spaceRanges @ [(CHR ''<'', CHR ''<''), (CHR ''>'', CHR ''>''), (CHR 0x22, CHR 0x22), (CHR 0x27, CHR 0x27)])), Cls False [(CHR ''?'', CHR ''?''), (CHR ''&'', CHR ''&'')], Star (Cls False [(CHR ''a'', CHR ''z''), (CHR ''_'', CHR ''_'')]), Cls False [(CHR ''i'', CHR ''i''), (CHR ''I'', CHR ''I'')], Str ''d='', Rep 8 None (Cls False [(CHR ''0'', CHR ''9'')]), Star (Cls True (spaceRanges @ [(CHR ''<'', CHR ''<''), (CHR ''>'', CHR ''>''), (CHR 0x22, CHR 0x22), (CHR 0x27, CHR 0x27)]))])
    ]"

text \<open>
  Category \<^verbatim>\<open>case_numbers\<close>, replacement \<^verbatim>\<open>[REDACTED_CASE]\<close>; its patterns, in order:
  \<^enum> \<^verbatim>\<open>/\b(?:case|ticket|incident|issue)(?:\s*(?:#|number|no\.?|id)?:?\s*)[0-9]{5,}\b/gi\<close>
  \<^enum> \<^verbatim>\<open>/\b(?:support|service|help)(?:\s*(?:ticket|case|request))?(?:\s*(?:#|number|no\.?|id)?:?\s*)[0-9]{5,}\b/gi\<close>
\<close>

definition case_numbers_patterns :: "RegExp list" where
  "case_numbers_patterns =
    [
     GI (seqs [WordB, alts [Str ''case'', Str ''ticket'', Str ''incident'', Str ''issue''], seqs [Star (Cls False spaceRanges), Opt (alts [Lit (CHR ''#''), Str ''number'', seqs [Str ''no'', Opt (Lit (CHR ''.''))], Str ''id'']), Opt (Lit (CHR '':'')), Star (Cls False spaceRanges)], Rep 5 None (Cls False [(CHR ''0'', CHR ''9'')]), WordB]),
     GI (seqs [WordB, alts [Str ''support'', Str ''service'', Str ''help''], Opt (seqs [Star (Cls False spaceRanges), alts [Str ''ticket'', Str ''case'', Str ''request'']]), seqs [Star (Cls False spaceRanges), Opt (alts [Lit (CHR ''#''), Str ''number'', seqs [Str ''no'', Opt (Lit (CHR ''.''))], Str ''id'']), Opt (Lit (CHR '':'')), Star (Cls False spaceRanges)], Rep 5 None (Cls False [(CHR ''0'', CHR ''9'')]), WordB])
    ]"

text \<open>
  Category \<^verbatim>\<open>claim_numbers\<close>, replacement \<^verbatim>\<open>[REDACTED_CLAIM]\<close>; its patterns, in order:
  \<^enum> \<^verbatim>\<open>/\b(?:claim)(?:\s*(?:#|number|no\.?|id)?:?\s*)[0-9]{5,}\b/gi\<close>
  \<^enum> \<^verbatim>\<open>/\b(?:warranty|dispute|refund)(?:\s*(?:claim|case|request))?(?:\s*(?:#|number|no\.?|id)?:?\s*)[0-9]{5,}\b/gi\<close>
\<close>

definition claim_numbers_patterns :: "RegExp list" where
  "claim_numbers_patterns =
    [
     GI (seqs [WordB, Str ''claim'', seqs [Star (Cls False spaceRanges), Opt (alts [Lit (CHR ''#''), Str ''number'', seqs [Str ''no'', Opt (Lit (CHR ''.''))], Str ''id'']), Opt (Lit (CHR '':'')), Star (Cls False spaceRanges)], Rep 5 None (Cls False [(CHR ''0'', CHR ''9'')]), WordB]),
     GI (seqs [WordB, alts [Str ''warranty'', Str ''dispute'', Str ''refund''], Opt (seqs [Star (Cls False spaceRanges), alts [Str ''claim'', Str ''case'', Str ''request'']]), seqs [Star (Cls False spaceRanges), Opt (alts [Lit (CHR ''#''), Str ''number'', seqs [Str ''no'', Opt (Lit (CHR ''.''))], Str ''id'']), Opt (Lit (CHR '':'')), Star (Cls False spaceRanges)], Rep 5 None (Cls False [(CHR ''0'', CHR ''9'')]), WordB])
    ]"

text \<open>
  Category \<^verbatim>\<open>auth_codes\<close>, replacement \<^verbatim>\<open>[REDACTED_AUTH]\<close>; its patterns, in order:
  \<^enum> \<^verbatim>\<open>/\b(?:auth(?:orization)?|approval)(?:\.?\s*(?:code|#|number|no\.?)?:?\s*)[A-Z0-9]{4,}\b/gi\<close>
  \<^enum> \<^verbatim>\<open>/\b(?:transaction|trans|txn)(?:\s*(?:auth|code|#|id)?:?\s*)[A-Z0-9]{5,}\b/gi\<close>
\<close>

definition auth_codes_patterns :: "RegExp list" where
  "auth_codes_patterns =
    [
     GI (seqs [WordB, alts [seqs [Str ''auth'', Opt (Str ''orization'')], Str ''approval''], seqs [Opt (Lit (CHR ''.'')), Star (Cls False spaceRanges), Opt (alts [Str ''code'', Lit (CHR ''#''), Str ''number'', seqs [Str ''no'', Opt (Lit (CHR ''.''))]]), Opt (Lit (CHR '':'')), Star (Cls False spaceRanges)], Rep 4 None (Cls False [(CHR ''A'', CHR ''Z''), (CHR ''0'', CHR ''9'')]), WordB]),
     GI (seqs [WordB, alts [Str ''transaction'', Str ''trans'', Str ''txn''], seqs [Star (Cls False spaceRanges), Opt (alts [Str ''auth'', Str ''code'', Lit (CHR ''#''), Str ''id'']), Opt (Lit (CHR '':'')), Star (Cls False spaceRanges)], Rep 5 None (Cls False [(CHR ''A'', CHR ''Z''), (CHR ''0'', CHR ''9'')]), WordB])
    ]"

text \<open>
  Category \<^verbatim>\<open>device_ids\<close>, replacement \<^verbatim>\<open>[REDACTED_DEVICE]\<close>; its patterns, in order:
  \<^enum> \<^verbatim>\<open>/\b(?:device|hardware|serial|imei|udid|uuid)(?:[\s\-_]*(?:id|number|#)?:?\s*)[A-Z0-9\-]{6,}\b/gi\<close>
  \<^enum> \<^verbatim>\<open>/\b(?:[0-9A-Fa-f]{2}[:\-]){5}[0-9A-Fa-f]{2}\b/g\<close>
\<close>

definition device_ids_patterns :: "RegExp list" where
  "device_ids_patterns =
    [
     GI (seqs [WordB, alts [Str ''device'', Str ''hardware'', Str ''serial'', Str ''imei'', Str ''udid'', Str ''uuid''], seqs [Star (Cls False (spaceRanges @ [(CHR ''-'', CHR ''-''), (CHR ''_'', CHR ''_'')])), Opt (alts [Str ''id'', Str ''number'', Lit (CHR ''#'')]), Opt (Lit (CHR '':'')), Star (Cls False spaceRanges)], Rep 6 None (Cls False [(CHR ''A'', CHR ''Z''), (CHR ''0'', CHR ''9''), (CHR ''-'', CHR ''-'')]), WordB]),
     G (seqs [WordB, Rep 5 (Some 5) (seqs [Rep 2 (Some 2) (Cls False [(CHR ''0'', CHR ''9''), (CHR ''A'', CHR ''F''), (CHR ''a'', CHR ''f'')]), Cls False [(CHR '':'', CHR '':''), (CHR ''-'', CHR ''-'')]]), Rep 2 (Some 2) (Cls False [(CHR ''0'', CHR ''9''), (CHR ''A'', CHR ''F''), (CHR ''a'', CHR ''f'')]), WordB])
    ]"

text \<open>
  Category \<^verbatim>\<open>employee_ids\<close>, replacement \<^verbatim>\<open>[REDACTED_EMP_ID]\<close>; its patterns, in order:
  \<^enum> \<^verbatim>\<open>/\b(?:employee|emp|staff|worker)(?:\s*(?:id|#|number|no\.?)?(?:\s*(?:is|number|:))?\s*)[A-Z0-9]{5,}\b/gi\<close>
  \<^enum> \<^verbatim>\<open>/\b(?:student)(?:\s*(?:id|#|number|no\.?)?:?\s*)[A-Z0-9]{5,}\b/gi\<close>
  \<^enum> \<^verbatim>\<open>/\b(?:badge|id)(?:\s*(?:#|number|no\.?)?:?\s*)[A-Z0-9]{5,}\b/gi\<close>
\<close>

definition employee_ids_patterns :: "RegExp list" where
  "employee_ids_patterns =
    [
     GI (seqs [WordB, alts [Str ''employee'', Str ''emp'', Str ''staff'', Str ''worker''], seqs [Star (Cls False spaceRanges), Opt (alts [Str ''id'', Lit (CHR ''#''), Str ''number'', seqs [Str ''no'', Opt (Lit (CHR ''.''))]]), Opt (seqs [Star (Cls False spaceRanges), alts [Str ''is'', Str ''number'', Lit (CHR '':'')]]), Star (Cls False spaceRanges)], Rep 5 None (Cls False [(CHR ''A'', CHR ''Z''), (CHR ''0'', CHR ''9'')]), WordB]),
     GI (seqs [WordB, Str ''student'', seqs [Star (Cls False spaceRanges), Opt (alts [Str ''id'', Lit (CHR ''#''), Str ''number'', seqs [Str ''no'', Opt (Lit (CHR ''.''))]]), Opt (Lit (CHR '':'')), Star (Cls False spaceRanges)], Rep 5 None (Cls False [(CHR ''A'', CHR ''Z''), (CHR ''0'', CHR ''9'')]), WordB]),
     GI (seqs [WordB, alts [Str ''badge'', Str ''id''], seqs [Star (Cls False spaceRanges), Opt (alts [Lit (CHR ''#''), Str ''number'', seqs [Str ''no'', Opt (Lit (CHR ''.''))]]), Opt (Lit (CHR '':'')), Star (Cls False spaceRanges)], Rep 5 None (Cls False [(CHR ''A'', CHR ''Z''), (CHR ''0'', CHR ''9'')]), WordB])
    ]"

text \<open>
  Category \<^verbatim>\<open>email_addresses\<close>, replacement \<^verbatim>\<open>[REDACTED_EMAIL]\<close>; its patterns, in order:
  \<^enum> \<^verbatim>\<open>/\b[A-Za-z0-9._%+-]+@[A-Za-z0-9.-]+\.[A-Z|a-z]{2,}\b/g\<close>
\<close>

definition email_addresses_patterns :: "RegExp list" where
  "email_addresses_patterns =
    [
     G (seqs [WordB, Plus (Cls False [(CHR ''A'', CHR ''Z''), (CHR ''a'', CHR ''z''), (CHR ''0'', CHR ''9''), (CHR ''.'', CHR ''.''), (CHR ''_'', CHR ''_''), (CHR ''%'', CHR ''%''), (CHR ''+'', CHR ''+''), (CHR ''-'', CHR ''-'')]), Lit (CHR ''@''), Plus (Cls False [(CHR ''A'', CHR ''Z''), (CHR ''a'', CHR ''z''), (CHR ''0'', CHR ''9''), (CHR ''.'', CHR ''.''), (CHR ''-'', CHR ''-'')]), Lit (CHR ''.''), Rep 2 None (Cls False [(CHR ''A'', CHR ''Z''), (CHR ''|'', CHR ''|''), (CHR ''a'', CHR ''z'')]), WordB])
    ]"

text \<open>
  Category \<^verbatim>\<open>dates_of_birth\<close>, replacement \<^verbatim>\<open>[REDACTED_DOB]\<close>; its patterns, in order:
  \<^enum> \<^verbatim>\<open>/\b(?:dob|date\s*of\s*birth|birth\s*date|born|birthday)(?:\s*(?:is|was|:)\s*)[0-9]{1,2}[\s\/\-\.][0-9]{1,2}[\s\/\-\.][0-9]{2,4}\b/gi\<close>
  \<^enum> \<^verbatim>\<open>/\b(?:born\s+(?:on\s+)?)[A-Za-z]+\s+[0-9]{1,2},?\s+[0-9]{4}\b/gi\<close>
  \<^enum> \<^verbatim>\<open>/\b(?:birthday|dob)(?:\s*:?\s*)[0-9]{1,2}[\s\/\-][0-9]{1,2}[\s\/\-][0-9]{2,4}\b/gi\<close>
\<close>

definition dates_of_birth_patterns :: "RegExp list" where
  "dates_of_birth_patterns =
    [
     GI (seqs [WordB, alts [Str ''dob'', seqs [Str ''date'', Star (Cls False spaceRanges), Str ''of'', Star (Cls False spaceRanges), Str ''birth''], seqs [Str ''birth'', Star (Cls False spaceRanges), Str ''date''], Str ''born'', Str ''birthday''], seqs [Star (Cls False spaceRanges), alts [Str ''is'', Str ''was'', Lit (CHR '':'')], Star (Cls False spaceRanges)], Rep 1 (Some 2) (Cls False [(CHR ''0'', CHR ''9'')]), Cls False (spaceRanges @ [(CHR ''/'', CHR ''/''), (CHR ''-'', CHR ''-''), (CHR ''.'', CHR ''.'')]), Rep 1 (Some 2) (Cls False [(CHR ''0'', CHR ''9'')]), Cls False (spaceRanges @ [(CHR ''/'', CHR ''/''), (CHR ''-'', CHR ''-''), (CHR ''.'', CHR ''.'')]), Rep 2 (Some 4) (Cls False [(CHR ''0'', CHR ''9'')]), WordB]),
     GI (seqs [WordB, seqs [Str ''born'', Plus (Cls False spaceRanges), Opt (seqs [Str ''on'', Plus (Cls False spaceRanges)])], Plus (Cls False [(CHR ''A'', CHR ''Z''), (CHR ''a'', CHR ''z'')]), Plus (Cls False spaceRanges), Rep 1 (Some 2) (Cls False [(CHR ''0'', CHR ''9'')]), Opt (Lit (CHR '','')), Plus (Cls False spaceRanges), Rep 4 (Some 4) (Cls False [(CHR ''0'', CHR ''9'')]), WordB]),
     GI (seqs [WordB, alts [Str ''birthday'', Str ''dob''], seqs [Star (Cls False spaceRanges), Opt (Lit (CHR '':'')), Star (Cls False spaceRanges)], Rep 1 (Some 2) (Cls False [(CHR ''0'', CHR ''9'')]), Cls False (spaceRanges @ [(CHR ''/'', CHR ''/''), (CHR ''-'', CHR ''-'')]), Rep 1 (Some 2) (Cls False [(CHR ''0'', CHR ''9'')]), Cls False (spaceRanges @ [(CHR ''/'', CHR ''/''), (CHR ''-'', CHR ''-'')]), Rep 2 (Some 4) (Cls False [(CHR ''0'', CHR ''9'')]), WordB])
    ]"

text \<open>
  Category \<^verbatim>\<open>ages\<close>, replacement \<^verbatim>\<open>[REDACTED_AGE]\<close>; its patterns, in order:
  \<^enum> \<^verbatim>\<open>/\b(?:i\s+am|i'm|he\s+is|she\s+is|they\s+are)\s+[0-9]{1,3}\s+(?:years?\s+old|yrs?\s+old|y\.?o\.?)\b/gi\<close>
  \<^enum> \<^verbatim>\<open>/\b(?:age[d]?|age\s*:)\s*[0-9]{1,3}\b/gi\<close>
  \<^enum> \<^verbatim>\<open>/\b[0-9]{1,3}[\s\-]?year[\s\-]?old\b/gi\<close>
\<close>

definition ages_patterns :: "RegExp list" where
  "ages_patterns =
    [
     GI (seqs [WordB, alts [seqs [Lit (CHR ''i''), Plus (Cls False spaceRanges), Str ''am''], Str (''i'' @ [CHR 0x27] @ ''m''), seqs [Str ''he'', Plus (Cls False spaceRanges), Str ''is''], seqs [Str ''she'', Plus (Cls False spaceRanges), Str ''is''], seqs [Str ''they'', Plus (Cls False spaceRanges), Str ''are'']], Plus (Cls False spaceRanges), Rep 1 (Some 3) (Cls False [(CHR ''0'', CHR ''9'')]), Plus (Cls False spaceRanges), alts [seqs [Str ''year'', Opt (Lit (CHR ''s'')), Plus (Cls False spaceRanges), Str ''old''], seqs [Str ''yr'', Opt (Lit (CHR ''s'')), Plus (Cls False spaceRanges), Str ''old''], seqs [Lit (CHR ''y''), Opt (Lit (CHR ''.'')), Lit (CHR ''o''), Opt (Lit (CHR ''.''))]], WordB]),
     GI (seqs [WordB, alts [seqs [Str ''age'', Opt (Cls False [(CHR ''d'', CHR ''d'')])], seqs [Str ''age'', Star (Cls False spaceRanges), Lit (CHR '':'')]], Star (Cls False spaceRanges), Rep 1 (Some 3) (Cls False [(CHR ''0'', CHR ''9'')]), WordB]),
     GI (seqs [WordB, Rep 1 (Some 3) (Cls False [(CHR ''0'', CHR ''9'')]), Opt (Cls False (spaceRanges @ [(CHR ''-'', CHR ''-'')])), Str ''year'', Opt (Cls False (spaceRanges @ [(CHR ''-'', CHR ''-'')])), Str ''old'', WordB])
    ]"

text \<open>
  Category \<^verbatim>\<open>order_numbers\<close>, replacement \<^verbatim>\<open>[REDACTED_ORDER]\<close>; its patterns, in order:
  \<^enum> \<^verbatim>\<open>/\b(?:order|confirmation|invoice|receipt|transaction|purchase)(?:\s*(?:#|number|no\.?|id)?:?\s*)\(?[A-Z0-9\-]{6,20}\)?\b/gi\<close>
  \<^enum> \<^verbatim>\<open>/\b(?:order|conf|inv)(?:\s*#?\s*)\(?[A-Z0-9\-]{6,20}\)?\b/gi\<close>
  \<^enum> \<^verbatim>\<open>/\b(?:reference|ref)(?:\s*(?:#|number|no\.?)?:?\s*)[A-Z0-9\-]{6,20}\b/gi\<close>
\<close>

definition order_numbers_patterns :: "RegExp list" where
  "order_numbers_patterns =
    [
     GI (seqs [WordB, alts [Str ''order'', Str ''confirmation'', Str ''invoice'', Str ''receipt'', Str ''transaction'', Str ''purchase''], seqs [Star (Cls False spaceRanges), Opt (alts [Lit (CHR ''#''), Str ''number'', seqs [Str ''no'', Opt (Lit (CHR ''.''))], Str ''id'']), Opt (Lit (CHR '':'')), Star (Cls False spaceRanges)], Opt (Lit (CHR ''('')), Rep 6 (Some 20) (Cls False [(CHR ''A'', CHR ''Z''), (CHR ''0'', CHR ''9''), (CHR ''-'', CHR ''-'')]), Opt (Lit (CHR '')'')), WordB]),
     GI (seqs [WordB, alts [Str ''order'', Str ''conf'', Str ''inv''], seqs [Star (Cls False spaceRanges), Opt (Lit (CHR ''#'')), Star (Cls False spaceRanges)], Opt (Lit (CHR ''('')), Rep 6 (Some 20) (Cls False [(CHR ''A'', CHR ''Z''), (CHR ''0'', CHR ''9''), (CHR ''-'', CHR ''-'')]), Opt (Lit (CHR '')'')), WordB]),
     GI (seqs [WordB, alts [Str ''reference'', Str ''ref''], seqs [Star (Cls False spaceRanges), Opt (alts [Lit (CHR ''#''), Str ''number'', seqs [Str ''no'', Opt (Lit (CHR ''.''))]]), Opt (Lit (CHR '':'')), Star (Cls False spaceRanges)], Rep 6 (Some 20) (Cls False [(CHR ''A'', CHR ''Z''), (CHR ''0'', CHR ''9''), (CHR ''-'', CHR ''-'')]), WordB])
    ]"

text \<open>
  Category \<^verbatim>\<open>tracking_numbers\<close>, replacement \<^verbatim>\<open>[REDACTED_TRACKING]\<close>; its patterns, in order:
  \<^enum> \<^verbatim>\<open>/\b1Z[A-Z0-9]{16}\b/gi\<close>
  \<^enum> \<^verbatim>\<open>/\b(?:fedex|fed\s*ex)(?:\s*(?:#|tracking)?:?\s*)[0-9]{12,34}\b/gi\<close>
  \<^enum> \<^verbatim>\<open>/\b(?:usps|postal)(?:\s*(?:#|tracking)?:?\s*)[0-9]{20,22}\b/gi\<close>
  \<^enum> \<^verbatim>\<open>/\b(?:tracking|shipment)(?:\s*(?:#|number|no\.?)?:?\s*)[A-Z0-9]{10,30}\b/gi\<close>
  \<^enum> \<^verbatim>\<open>/\b(?:dhl)(?:\s*(?:#|tracking)?:?\s*)[0-9]{10,11}\b/gi\<close>
\<close>

definition tracking_numbers_patterns :: "RegExp list" where
  "tracking_numbers_patterns =
    [
     GI (seqs [WordB, Str ''1Z'', Rep 16 (Some 16) (Cls False [(CHR ''A'', CHR ''Z''), (CHR ''0'', CHR ''9'')]), WordB]),
     GI (seqs [WordB, alts [Str ''fedex'', seqs [Str ''fed'', Star (Cls False spaceRanges), Str ''ex'']], seqs [Star (Cls False spaceRanges), Opt (alts [Lit (CHR ''#''), Str ''tracking'']), Opt (Lit (CHR '':'')), Star (Cls False spaceRanges)], Rep 12 (Some 34) (Cls False [(CHR ''0'', CHR ''9'')]), WordB]),
     GI (seqs [WordB, alts [Str ''usps'', Str ''postal''], seqs [Star (Cls False spaceRanges), Opt (alts [Lit (CHR ''#''), Str ''tracking'']), Opt (Lit (CHR '':'')), Star (Cls False spaceRanges)], Rep 20 (Some 22) (Cls False [(CHR ''0'', CHR ''9'')]), WordB]),
     GI (seqs [WordB, alts [Str ''tracking'', Str ''shipment''], seqs [Star (Cls False spaceRanges), Opt (alts [Lit (CHR ''#''), Str ''number'', seqs [Str ''no'', Opt (Lit (CHR ''.''))]]), Opt (Lit (CHR '':'')), Star (Cls False spaceRanges)], Rep 10 (Some 30) (Cls False [(CHR ''A'', CHR ''Z''), (CHR ''0'', CHR ''9'')]), WordB]),
     GI (seqs [WordB, Str ''dhl'', seqs [Star (Cls False spaceRanges), Opt (alts [Lit (CHR ''#''), Str ''tracking'']), Opt (Lit (CHR '':'')), Star (Cls False spaceRanges)], Rep 10 (Some 11) (Cls False [(CHR ''0'', CHR ''9'')]), WordB])
    ]"

text \<open>
  Category \<^verbatim>\<open>booking_references\<close>, replacement \<^verbatim>\<open>[REDACTED_BOOKING]\<close>; its patterns, in order:
  \<^enum> \<^verbatim>\<open>/\b(?:pnr|booking|confirmation|reservation)(?:\s*(?:#|code|number|ref)?:?\s*)[A-Z0-9]{6}\b/gi\<close>
  \<^enum> \<^verbatim>\<open>/\b(?:flight|airline)(?:\s*(?:confirmation|booking|ref)?:?\s*)[A-Z0-9]{6}\b/gi\<close>
  \<^enum> \<^verbatim>\<open>/\b(?:hotel|resort|airbnb)(?:\s*(?:confirmation|booking|reservation)?:?\s*)[A-Z0-9]{6,12}\b/gi\<close>
  \<^enum> \<^verbatim>\<open>/\b(?:record\s*locator|locator)(?:\s*:?\s*)[A-Z0-9]{6}\b/gi\<close>
\<close>

definition booking_references_patterns :: "RegExp list" where
  "booking_references_patterns =
    [
     GI (seqs [WordB, alts [Str ''pnr'', Str ''booking'', Str ''confirmation'', Str ''reservation''], seqs [Star (Cls False spaceRanges), Opt (alts [Lit (CHR ''#''), Str ''code'', Str ''number'', Str ''ref'']), Opt (Lit (CHR '':'')), Star (Cls False spaceRanges)], Rep 6 (Some 6) (Cls False [(CHR ''A'', CHR ''Z''), (CHR ''0'', CHR ''9'')]), WordB]),
     GI (seqs [WordB, alts [Str ''flight'', Str ''airline''], seqs [Star (Cls False spaceRanges), Opt (alts [Str ''confirmation'', Str ''booking'', Str ''ref'']), Opt (Lit (CHR '':'')), Star (Cls False spaceRanges)], Rep 6 (Some 6) (Cls False [(CHR ''A'', CHR ''Z''), (CHR ''0'', CHR ''9'')]), WordB]),
     GI (seqs [WordB, alts [Str ''hotel'', Str ''resort'', Str ''airbnb''], seqs [Star (Cls False spaceRanges), Opt (alts [Str ''confirmation'', Str ''booking'', Str ''reservation'']), Opt (Lit (CHR '':'')), Star (Cls False spaceRanges)], Rep 6 (Some 12) (Cls False [(CHR ''A'', CHR ''Z''), (CHR ''0'', CHR ''9'')]), WordB]),
     GI (seqs [WordB, alts [seqs [Str ''record'', Star (Cls False spaceRanges), Str ''locator''], Str ''locator''], seqs [Star (Cls False spaceRanges), Opt (Lit (CHR '':'')), Star (Cls False spaceRanges)], Rep 6 (Some 6) (Cls False [(CHR ''A'', CHR ''Z''), (CHR ''0'', CHR ''9'')]), WordB])
    ]"

text \<open>
  Category \<^verbatim>\<open>member_ids\<close>, replacement \<^verbatim>\<open>[REDACTED_MEMBER_ID]\<close>; its patterns, in order:
  \<^enum> \<^verbatim>\<open>/\b(?:member|membership)(?:\s*(?:#|number|no\.?|id)?:?\s*)[A-Z0-9\-]{6,20}\b/gi\<close>
  \<^enum> \<^verbatim>\<open>/\b(?:loyalty|rewards?|points)(?:\s*(?:#|number|no\.?|id)?:?\s*)[A-Z0-9\-]{6,20}\b/gi\<close>
  \<^enum> \<^verbatim>\<open>/\b(?:customer|client|user)(?:\s*(?:#|number|no\.?|id)?:?\s*)[A-Z0-9\-]{6,20}\b/gi\<close>
  \<^enum> \<^verbatim>\<open>/\b(?:account|acct)(?:\s*(?:#|number|no\.?)?:?\s*)[A-Z0-9\-]{6,15}\b/gi\<close>
  \<^enum> \<^verbatim>\<open>/\b(?:subscriber|subscription)(?:\s*(?:#|number|no\.?|id)?:?\s*)[A-Z0-9\-]{6,20}\b/gi\<close>
  \<^enum> \<^verbatim>\<open>/\b(?:RR|FF|MP|SK|AA|UA|DL|WN)(?:\s*#?\s*)[0-9]{8,12}\b/gi\<close>
  \<^enum> \<^verbatim>\<open>/\b(?:rapid\s*rewards?|mileage\s*plus|sky\s*miles?|aadvantage|frequent\s*flyer)(?:\s*(?:#|number|no\.?|id|account)?:?\s*)[0-9]{8,12}\b/gi\<close>
  \<^enum> \<^verbatim>\<open>/\b[A-Za-z]+\s*ID:?\s*[A-Z0-9\-]{4,20}\b/gi\<close>
\<close>

definition member_ids_patterns :: "RegExp list" where
  "member_ids_patterns =
    [
     GI (seqs [WordB, alts [Str ''member'', Str ''membership''], seqs [Star (Cls False spaceRanges), Opt (alts [Lit (CHR ''#''), Str ''number'', seqs [Str ''no'', Opt (Lit (CHR ''.''))], Str ''id'']), Opt (Lit (CHR '':'')), Star (Cls False spaceRanges)], Rep 6 (Some 20) (Cls False [(CHR ''A'', CHR ''Z''), (CHR ''0'', CHR ''9''), (CHR ''-'', CHR ''-'')]), WordB]),
     GI (seqs [WordB, alts [Str ''loyalty'', seqs [Str ''reward'', Opt (Lit (CHR ''s''))], Str ''points''], seqs [Star (Cls False spaceRanges), Opt (alts [Lit (CHR ''#''), Str ''number'', seqs [Str ''no'', Opt (Lit (CHR ''.''))], Str ''id'']), Opt (Lit (CHR '':'')), Star (Cls False spaceRanges)], Rep 6 (Some 20) (Cls False [(CHR ''A'', CHR ''Z''), (CHR ''0'', CHR ''9''), (CHR ''-'', CHR ''-'')]), WordB]),
     GI (seqs [WordB, alts [Str ''customer'', Str ''client'', Str ''user''], seqs [Star (Cls False spaceRanges), Opt (alts [Lit (CHR ''#''), Str ''number'', seqs [Str ''no'', Opt (Lit (CHR ''.''))], Str ''id'']), Opt (Lit (CHR '':'')), Star (Cls False spaceRanges)], Rep 6 (Some 20) (Cls False [(CHR ''A'', CHR ''Z''), (CHR ''0'', CHR ''9''), (CHR ''-'', CHR ''-'')]), WordB]),
     GI (seqs [WordB, alts [Str ''account'', Str ''acct''], seqs [Star (Cls False spaceRanges), Opt (alts [Lit (CHR ''#''), Str ''number'', seqs [Str ''no'', Opt (Lit (CHR ''.''))]]), Opt (Lit (CHR '':'')), Star (Cls False spaceRanges)], Rep 6 (Some 15) (Cls False [(CHR ''A'', CHR ''Z''), (CHR ''0'', CHR ''9''), (CHR ''-'', CHR ''-'')]), WordB]),
     GI (seqs [WordB, alts [Str ''subscriber'', Str ''subscription''], seqs [Star (Cls False spaceRanges), Opt (alts [Lit (CHR ''#''), Str ''number'', seqs [Str ''no'', Opt (Lit (CHR ''.''))], Str ''id'']), Opt (Lit (CHR '':'')), Star (Cls False spaceRanges)], Rep 6 (Some 20) (Cls False [(CHR ''A'', CHR ''Z''), (CHR ''0'', CHR ''9''), (CHR ''-'', CHR ''-'')]), WordB]),
     GI (seqs [WordB, alts [Str ''RR'', Str ''FF'', Str ''MP'', Str ''SK'', Str ''AA'', Str ''UA'', Str ''DL'', Str ''WN''], seqs [Star (Cls False spaceRanges), Opt (Lit (CHR ''#'')), Star (Cls False spaceRanges)], Rep 8 (Some 12) (Cls False [(CHR ''0'', CHR ''9'')]), WordB]),
     GI (seqs [WordB, alts [seqs [Str ''rapid'', Star (Cls False spaceRanges), Str ''reward'', Opt (Lit (CHR ''s''))], seqs [Str ''mileage'', Star (Cls False spaceRanges), Str ''plus''], seqs [Str ''sky'', Star (Cls False spaceRanges), Str ''mile'', Opt (Lit (CHR ''s''))], Str ''aadvantage'', seqs [Str ''frequent'', Star (Cls False spaceRanges), Str ''flyer'']], seqs [Star (Cls False spaceRanges), Opt (alts [Lit (CHR ''#''), Str ''number'', seqs [Str ''no'', Opt (Lit (CHR ''.''))], Str ''id'', Str ''account'']), Opt (Lit (CHR '':'')), Star (Cls False spaceRanges)], Rep 8 (Some 12) (Cls False [(CHR ''0'', CHR ''9'')]), WordB]),
     GI (seqs [WordB, Plus (Cls False [(CHR ''A'', CHR ''Z''), (CHR ''a'', CHR ''z'')]), Star (Cls False spaceRanges), Str ''ID'', Opt (Lit (CHR '':'')), Star (Cls False spaceRanges), Rep 4 (Some 20) (Cls False [(CHR ''A'', CHR ''Z''), (CHR ''0'', CHR ''9''), (CHR ''-'', CHR ''-'')]), WordB])
    ]"

text \<open>
  Category \<^verbatim>\<open>vehicle_ids\<close>, replacement \<^verbatim>\<open>[REDACTED_VEHICLE]\<close>; its patterns, in order:
  \<^enum> \<^verbatim>\<open>/\b(?:vin|vehicle\s*identification)(?:\s*(?:#|number|no\.?)?:?\s*)[A-HJ-NPR-Z0-9]{17}\b/gi\<close>
  \<^enum> \<^verbatim>\<open>/\b[A-HJ-NPR-Z0-9]{17}\b/g\<close>
  \<^enum> \<^verbatim>\<open>/\b(?:license\s*plate|plate\s*(?:#|number)|registration)(?:\s*:?\s*)[A-Z0-9\-\s]{4,10}\b/gi\<close>
\<close>

definition vehicle_ids_patterns :: "RegExp list" where
  "vehicle_ids_patterns =
    [
     GI (seqs [WordB, alts [Str ''vin'', seqs [Str ''vehicle'', Star (Cls False spaceRanges), Str ''identification'']], seqs [Star (Cls False spaceRanges), Opt (alts [Lit (CHR ''#''), Str ''number'', seqs [Str ''no'', Opt (Lit (CHR ''.''))]]), Opt (Lit (CHR '':'')), Star (Cls False spaceRanges)], Rep 17 (Some 17) (Cls False [(CHR ''A'', CHR ''H''), (CHR ''J'', CHR ''N''), (CHR ''P'', CHR ''P''), (CHR ''R'', CHR ''Z''), (CHR ''0'', CHR ''9'')]), WordB]),
     G (seqs [WordB, Rep 17 (Some 17) (Cls False [(CHR ''A'', CHR ''H''), (CHR ''J'', CHR ''N''), (CHR ''P'', CHR ''P''), (CHR ''R'', CHR ''Z''), (CHR ''0'', CHR ''9'')]), WordB]),
     GI (seqs [WordB, alts [seqs [Str ''license'', Star (Cls False spaceRanges), Str ''plate''], seqs [Str ''plate'', Star (Cls False spaceRanges), alts [Lit (CHR ''#''), Str ''number'']], Str ''registration''], seqs [Star (Cls False spaceRanges), Opt (Lit (CHR '':'')), Star (Cls False spaceRanges)], Rep 4 (Some 10) (Cls False ([(CHR ''A'', CHR ''Z''), (CHR ''0'', CHR ''9''), (CHR ''-'', CHR ''-'')] @ spaceRanges)), WordB])
    ]"

text \<open>
  Category \<^verbatim>\<open>medical_ids\<close>, replacement \<^verbatim>\<open>[REDACTED_MEDICAL]\<close>; its patterns, in order:
  \<^enum> \<^verbatim>\<open>/\b(?:mrn|medical\s*record|patient\s*id)(?:\s*(?:#|number|no\.?)?:?\s*)[A-Z0-9\-]{6,20}\b/gi\<close>
  \<^enum> \<^verbatim>\<open>/\b(?:insurance\s*id|policy\s*(?:#|number)|member\s*id)(?:\s*:?\s*)[A-Z0-9\-]{6,20}\b/gi\<close>
  \<^enum> \<^verbatim>\<open>/\b(?:prescription|rx)(?:\s*(?:#|number|no\.?)?:?\s*)[A-Z0-9\-]{6,15}\b/gi\<close>
  \<^enum> \<^verbatim>\<open>/\b(?:group)(?:\s*(?:#|number|no\.?)?:?\s*)[A-Z0-9\-]{4,15}\b/gi\<close>
\<close>

definition medical_ids_patterns :: "RegExp list" where
  "medical_ids_patterns =
    [
     GI (seqs [WordB, alts [Str ''mrn'', seqs [Str ''medical'', Star (Cls False spaceRanges), Str ''record''], seqs [Str ''patient'', Star (Cls False spaceRanges), Str ''id'']], seqs [Star (Cls False spaceRanges), Opt (alts [Lit (CHR ''#''), Str ''number'', seqs [Str ''no'', Opt (Lit (CHR ''.''))]]), Opt (Lit (CHR '':'')), Star (Cls False spaceRanges)], Rep 6 (Some 20) (Cls False [(CHR ''A'', CHR ''Z''), (CHR ''0'', CHR ''9''), (CHR ''-'', CHR ''-'')]), WordB]),
     GI (seqs [WordB, alts [seqs [Str ''insurance'', Star (Cls False spaceRanges), Str ''id''], seqs [Str ''policy'', Star (Cls False spaceRanges), alts [Lit (CHR ''#''), Str ''number'']], seqs [Str ''member'', Star (Cls False spaceRanges), Str ''id'']], seqs [Star (Cls False spaceRanges), Opt (Lit (CHR '':'')), Star (Cls False spaceRanges)], Rep 6 (Some 20) (Cls False [(CHR ''A'', CHR ''Z''), (CHR ''0'', CHR ''9''), (CHR ''-'', CHR ''-'')]), WordB]),
     GI (seqs [WordB, alts [Str ''prescription'', Str ''rx''], seqs [Star (Cls False spaceRanges), Opt (alts [Lit (CHR ''#''), Str ''number'', seqs [Str ''no'', Opt (Lit (CHR ''.''))]]), Opt (Lit (CHR '':'')), Star (Cls False spaceRanges)], Rep 6 (Some 15) (Cls False [(CHR ''A'', CHR ''Z''), (CHR ''0'', CHR ''9''), (CHR ''-'', CHR ''-'')]), WordB]),
     GI (seqs [WordB, Str ''group'', seqs [Star (Cls False spaceRanges), Opt (alts [Lit (CHR ''#''), Str ''number'', seqs [Str ''no'', Opt (Lit (CHR ''.''))]]), Opt (Lit (CHR '':'')), Star (Cls False spaceRanges)], Rep 4 (Some 15) (Cls False [(CHR ''A'', CHR ''Z''), (CHR ''0'', CHR ''9''), (CHR ''-'', CHR ''-'')]), WordB])
    ]"

text \<open>
  Category \<^verbatim>\<open>financial_amounts\<close>, replacement \<^verbatim>\<open>[REDACTED_AMOUNT]\<close>; its patterns, in order:
  \<^enum> \<^verbatim>\<open>/\$[0-9,]+\.[0-9]{2}\b/g\<close>
  \<^enum> \<^verbatim>\<open>/\$[0-9,]+\b/g\<close>
  \<^enum> \<^verbatim>\<open>/\$\s*[0-9]+\s*\.\s*[0-9]{2}\b/g\<close>
  \<^enum> \<^verbatim>\<open>/\b(?:amount|balance|total|payment|price|cost|fee|charge)(?:\s*(?:of|is|was|:)?\s*)\$[0-9,]+(?:\.[0-9]{2})?\b/gi\<close>
\<close>

definition financial_amounts_patterns :: "RegExp list" where
  "financial_amounts_patterns =
    [
     G (seqs [Lit (CHR ''$''), Plus (Cls False [(CHR ''0'', CHR ''9''), (CHR '','', CHR '','')]), Lit (CHR ''.''), Rep 2 (Some 2) (Cls False [(CHR ''0'', CHR ''9'')]), WordB]),
     G (seqs [Lit (CHR ''$''), Plus (Cls False [(CHR ''0'', CHR ''9''), (CHR '','', CHR '','')]), WordB]),
     G (seqs [Lit (CHR ''$''), Star (Cls False spaceRanges), Plus (Cls False [(CHR ''0'', CHR ''9'')]), Star (Cls False spaceRanges), Lit (CHR ''.''), Star (Cls False spaceRanges), Rep 2 (Some 2) (Cls False [(CHR ''0'', CHR ''9'')]), WordB]),
     GI (seqs [WordB, alts [Str ''amount'', Str ''balance'', Str ''total'', Str ''payment'', Str ''price'', Str ''cost'', Str ''fee'', Str ''charge''], seqs [Star (Cls False spaceRanges), Opt (alts [Str ''of'', Str ''is'', Str ''was'', Lit (CHR '':'')]), Star (Cls False spaceRanges)], Lit (CHR ''$''), Plus (Cls False [(CHR ''0'', CHR ''9''), (CHR '','', CHR '','')]), Opt (seqs [Lit (CHR ''.''), Rep 2 (Some 2) (Cls False [(CHR ''0'', CHR ''9'')])]), WordB])
    ]"

text \<open>
  Category \<^verbatim>\<open>regular_urls\<close>, replacement \<^verbatim>\<open>[REDACTED_URL]\<close>; its patterns, in order:
  \<^enum> \<^verbatim>\<open>/https?:\/\/[^\s<>"']+/gi\<close>
\<close>

definition regular_urls_patterns :: "RegExp list" where
  "regular_urls_patterns =
    [
     GI (seqs [Str ''http'', Opt (Lit (CHR ''s'')), Str ''://'', Plus (Cls True (spaceRanges @ [(CHR ''<'', CHR ''<''), (CHR ''>'', CHR ''>''), (CHR 0x22, CHR 0x22), (CHR 0x27, CHR 0x27)]))])
    ]"

definition PATTERNS :: "RedactionPattern list" where
  "PATTERNS =
    [\<lparr>category = credit_cards, patterns = credit_cards_patterns, replacement = ''[REDACTED_CARD]''\<rparr>,
     \<lparr>category = bank_accounts, patterns = bank_accounts_patterns, replacement = ''[REDACTED_BANK]''\<rparr>,
     \<lparr>category = tax_ids, patterns = tax_ids_patterns, replacement = ''[REDACTED_TAX_ID]''\<rparr>,
     \<lparr>category = passwords, patterns = passwords_patterns, replacement = ''[REDACTED_PASSWORD]''\<rparr>,
     \<lparr>category = api_keys, patterns = api_keys_patterns, replacement = ''[REDACTED_API_KEY]''\<rparr>,
     \<lparr>category = otp_codes, patterns = otp_codes_patterns, replacement = ''[REDACTED_CODE]''\<rparr>,
     \<lparr>category = phone_numbers, patterns = phone_numbers_patterns, replacement = ''[REDACTED_PHONE]''\<rparr>,
     \<lparr>category = physical_addresses, patterns = physical_addresses_patterns, replacement = ''[REDACTED_ADDRESS]''\<rparr>,
     \<lparr>category = ip_addresses, patterns = ip_addresses_patterns, replacement = ''[REDACTED_IP]''\<rparr>,
     \<lparr>category = government_ids, patterns = government_ids_patterns, replacement = ''[REDACTED_GOV_ID]''\<rparr>,
     \<lparr>category = token_urls, patterns = token_urls_patterns, replacement = ''[REDACTED_URL]''\<rparr>,
     \<lparr>category = case_numbers, patterns = case_numbers_patterns, replacement = ''[REDACTED_CASE]''\<rparr>,
     \<lparr>category = claim_numbers, patterns = claim_numbers_patterns, replacement = ''[REDACTED_CLAIM]''\<rparr>,
     \<lparr>category = auth_codes, patterns = auth_codes_patterns, replacement = ''[REDACTED_AUTH]''\<rparr>,
     \<lparr>category = device_ids, patterns = device_ids_patterns, replacement = ''[REDACTED_DEVICE]''\<rparr>,
     \<lparr>category = employee_ids, patterns = employee_ids_patterns, replacement = ''[REDACTED_EMP_ID]''\<rparr>,
     \<lparr>category = email_addresses, patterns = email_addresses_patterns, replacement = ''[REDACTED_EMAIL]''\<rparr>,
     \<lparr>category = dates_of_birth, patterns = dates_of_birth_patterns, replacement = ''[REDACTED_DOB]''\<rparr>,
     \<lparr>category = ages, patterns = ages_patterns, replacement = ''[REDACTED_AGE]''\<rparr>,
     \<lparr>category = order_numbers, patterns = order_numbers_patterns, replacement = ''[REDACTED_ORDER]''\<rparr>,
     \<lparr>category = tracking_numbers, patterns = tracking_numbers_patterns, replacement = ''[REDACTED_TRACKING]''\<rparr>,
     \<lparr>category = booking_references, patterns = booking_references_patterns, replacement = ''[REDACTED_BOOKING]''\<rparr>,
     \<lparr>category = member_ids, patterns = member_ids_patterns, replacement = ''[REDACTED_MEMBER_ID]''\<rparr>,
     \<lparr>category = vehicle_ids, patterns = vehicle_ids_patterns, replacement = ''[REDACTED_VEHICLE]''\<rparr>,
     \<lparr>category = medical_ids, patterns = medical_ids_patterns, replacement = ''[REDACTED_MEDICAL]''\<rparr>,
     \<lparr>category = financial_amounts, patterns = financial_amounts_patterns, replacement = ''[REDACTED_AMOUNT]''\<rparr>,
     \<lparr>category = regular_urls, patterns = regular_urls_patterns, replacement = ''[REDACTED_URL]''\<rparr>]"


section \<open>sanitizer.ts: sanitizeText\<close>

record SanitizeOptions =
  enabled :: bool
  categories :: "RedactionCategory list"

text \<open>
  The result; its field \<^verbatim>\<open>text\<close> is called \<open>rtext\<close> here. \<^verbatim>\<open>redactionsByCategory\<close> is an object
  used as a dictionary: an association list in the order in which the keys were added.
\<close>

record SanitizeResult =
  rtext :: string
  redactionCount :: nat
  redactionsByCategory :: "(RedactionCategory \<times> nat) list"

text \<open>\<^verbatim>\<open>countsByCategory[cat] += n\<close> on a dictionary that holds the key.\<close>

fun addCount :: "RedactionCategory \<Rightarrow> nat \<Rightarrow> (RedactionCategory \<times> nat) list \<Rightarrow> (RedactionCategory \<times> nat) list" where
  "addCount cat n [] = []"
| "addCount cat n ((k, v) # kvs) = (if k = cat then (k, v + n) # kvs else (k, v) # addCount cat n kvs)"

text \<open>
  The body of the inner loop: count the matches of one expression in the current text,
  then replace them. The state is \<open>(result, totalCount, countsByCategory)\<close>.
\<close>

type_synonym sanState = "string \<times> nat \<times> (RedactionCategory \<times> nat) list"

definition applyRegex :: "RedactionCategory \<Rightarrow> string \<Rightarrow> RegExp \<Rightarrow> sanState \<Rightarrow> sanState" where
  "applyRegex cat repl regex st =
     (case st of (result, totalCount, countsByCategory) \<Rightarrow>
        (let matches = matchAll regex result in
         (if matches \<noteq> []
          then (replaceAll regex repl result, totalCount + length matches,
                addCount cat (length matches) countsByCategory)
          else (replaceAll regex repl result, totalCount, countsByCategory))))"

text \<open>The body of the outer loop: a category that is not enabled is skipped.\<close>

definition applyPattern :: "RedactionCategory list \<Rightarrow> RedactionPattern \<Rightarrow> sanState \<Rightarrow> sanState" where
  "applyPattern cats p st =
     (if category p \<notin> set cats then st
      else fold (applyRegex (category p) (replacement p)) (patterns p) st)"

definition sanitizeText :: "string \<Rightarrow> SanitizeOptions \<Rightarrow> SanitizeResult" where
  "sanitizeText t options =
     (if \<not> enabled options \<or> t = [] then
        \<lparr>rtext = t, redactionCount = 0, redactionsByCategory = []\<rparr>
      else
        (case fold (applyPattern (categories options)) PATTERNS
                (t, 0, map (\<lambda>cat. (cat, 0)) ALL_REDACTION_CATEGORIES) of
           (result, totalCount, countsByCategory) \<Rightarrow>
             \<lparr>rtext = result, redactionCount = totalCount, redactionsByCategory = countsByCategory\<rparr>))"

section \<open>Notions used in the statements\<close>

text \<open>
  A state \<open>st'\<close> of the matcher lies ahead of \<open>st\<close> when it is reached by consuming some
  prefix of the remaining input of \<open>st\<close>.
\<close>

definition advances :: "mstate \<Rightarrow> mstate \<Rightarrow> bool" where
  "advances st st' =
     (\<exists>k. k \<le> length (fst (snd st)) \<and> fst (snd st') = drop k (fst (snd st))
          \<and> fst st' = rev (take k (fst (snd st))) @ fst st)"

text \<open>
  No expression of a category in \<open>cats\<close> matches the text \<open>t\<close>, for the entries \<open>ps\<close> of the
  pattern table.
\<close>

definition unmatched :: "RedactionCategory list \<Rightarrow> RedactionPattern list \<Rightarrow> string \<Rightarrow> bool" where
  "unmatched cats ps t =
     (\<forall>p\<in>set ps. category p \<in> set cats \<longrightarrow> (\<forall>rx\<in>set (patterns p). matchAll rx t = []))"

text \<open>The parts of a tree in depth-first pre-order, the order in which both walks visit them.\<close>

fun preorder :: "MessagePart \<Rightarrow> MessagePart list" where
  "preorder (MessagePart mt fn bd ps) = MessagePart mt fn bd ps # concat (map preorder ps)"

text \<open>
  The specification's attachment test, word for word: a non-empty filename, and an
  attachment id that is present or a body size above zero.
\<close>

definition specIsAttachment :: "MessagePart \<Rightarrow> bool" where
  "specIsAttachment p =
     (orEmpty (filename p) \<noteq> [] \<and> (partAttachmentId p \<noteq> None \<or> 0 < partSize p))"

text \<open>
  The specification's extension of a (lower-cased) file name: the text after the last
  dot, when there is a dot and that text has 1 to 10 characters, all of them lower-case
  ASCII letters or digits.
\<close>

definition isLowerAlnum :: "char \<Rightarrow> bool" where
  "isLowerAlnum c = inRanges [(CHR ''a'', CHR ''z''), (CHR ''0'', CHR ''9'')] c"

definition afterLastDot :: "string \<Rightarrow> string" where
  "afterLastDot s = rev (takeWhile (\<lambda>c. c \<noteq> CHR ''.'') (rev s))"

definition specExtension :: "string \<Rightarrow> string option" where
  "specExtension s =
     (if CHR ''.'' \<in> set s \<and> 1 \<le> length (afterLastDot s) \<and> length (afterLastDot s) \<le> 10
         \<and> list_all isLowerAlnum (afterLastDot s)
      then Some (afterLastDot s) else None)"

text \<open>The test on the text after a dot that makes it an extension.\<close>

definition goodExt :: "string \<Rightarrow> bool" where
  "goodExt r = (1 \<le> length r \<and> length r \<le> 10 \<and> list_all isLowerAlnum r)"

text \<open>The specification's translation of the URL-safe alphabet.\<close>

definition specTranslate :: "char \<Rightarrow> char" where
  "specTranslate c = (if c = CHR ''-'' then CHR ''+'' else if c = CHR ''_'' then CHR ''/'' else c)"

text \<open>
  What a part contributes to the body under the code's test: its decoded data, when it
  is no attachment for \<^verbatim>\<open>extractBodyText\<close>, its data is not empty and its lower-cased
  MIME type is the given one.
\<close>

definition contributes :: "string \<Rightarrow> MessagePart \<Rightarrow> bool" where
  "contributes mt p = (\<not> isAttachment p \<and> partData p \<noteq> [] \<and> partMimeType p = mt)"

text \<open>
  The decoded data of the parts of a tree that contribute plain text, and HTML, in
  pre-order; the parts that look like attachments; and the set \<open>types\<close> after adding the
  types of a list of parts.
\<close>

definition plainOf :: "(string \<Rightarrow> string) \<Rightarrow> MessagePart \<Rightarrow> string list" where
  "plainOf dec p = map (\<lambda>q. decodeBase64Url dec (partData q)) (filter (contributes ''text/plain'') (preorder p))"

definition htmlOf :: "(string \<Rightarrow> string) \<Rightarrow> MessagePart \<Rightarrow> string list" where
  "htmlOf dec p = map (\<lambda>q. decodeBase64Url dec (partData q)) (filter (contributes ''text/html'') (preorder p))"

definition attachmentsOf :: "MessagePart \<Rightarrow> MessagePart list" where
  "attachmentsOf p = filter looksLikeAttachment (preorder p)"

definition addTypes :: "MessagePart list \<Rightarrow> string list \<Rightarrow> string list" where
  "addTypes qs tys = fold (\<lambda>q. setAdd (attachmentType q)) qs tys"

text \<open>
  For the closed examples, a decoder: standard base64 (RFC 4648) of a text whose bytes
  are ASCII, for which the UTF-8 text is the byte sequence itself. Characters outside
  the alphabet are skipped and decoding stops at the first \<^verbatim>\<open>=\<close>; the examples use
  well-formed input only.
\<close>

definition b64Alphabet :: string where
  "b64Alphabet = ''ABCDEFGHIJKLMNOPQRSTUVWXYZabcdefghijklmnopqrstuvwxyz0123456789+/''"

fun indexOf :: "char \<Rightarrow> string \<Rightarrow> nat option" where
  "indexOf c [] = None"
| "indexOf c (x # xs) = (if c = x then Some 0 else map_option Suc (indexOf c xs))"

definition sextet :: "nat \<Rightarrow> bool list" where
  "sextet n = [odd (n div 32), odd (n div 16), odd (n div 8), odd (n div 4), odd (n div 2), odd n]"

fun octets :: "bool list \<Rightarrow> string" where
  "octets (b7 # b6 # b5 # b4 # b3 # b2 # b1 # b0 # bs) = Char b0 b1 b2 b3 b4 b5 b6 b7 # octets bs"
| "octets bs = []"

definition base64Text :: "string \<Rightarrow> string" where
  "base64Text s =
     octets (concat (map sextet
       (List.map_filter (\<lambda>c. indexOf c b64Alphabet) (takeWhile (\<lambda>c. c \<noteq> CHR ''='') s))))"

text \<open>The message parts of the closed examples.\<close>

definition invoicePart :: MessagePart where
  "invoicePart = MessagePart (Some ''application/pdf'') (Some ''Invoice.PDF'')
      (Some \<lparr>data = None, bodySize = Some 120, attachmentId = None\<rparr>) []"

definition noextPart :: MessagePart where
  "noextPart = MessagePart (Some ''Application/Octet-Stream'') (Some ''noext'')
      (Some \<lparr>data = None, bodySize = None, attachmentId = Some ''ANGjdJ8''\<rparr>) []"

definition bareNoextPart :: MessagePart where
  "bareNoextPart = MessagePart None (Some ''noext'')
      (Some \<lparr>data = None, bodySize = None, attachmentId = Some ''ANGjdJ9''\<rparr>) []"

definition plainPart :: MessagePart where
  "plainPart = MessagePart (Some ''text/plain'') None
      (Some \<lparr>data = Some ''aGVsbG8gd29ybGQ='', bodySize = Some 11, attachmentId = None\<rparr>) []"

definition mixedMessage :: MessagePart where
  "mixedMessage = MessagePart (Some ''multipart/mixed'') (Some []) None
      [plainPart, invoicePart, noextPart, bareNoextPart]"

definition blankNamePart :: MessagePart where
  "blankNamePart = MessagePart (Some ''application/pdf'') (Some '' '')
      (Some \<lparr>data = None, bodySize = Some 120, attachmentId = Some ''ANGjdJ8''\<rparr>) []"

definition inlineIdPart :: MessagePart where
  "inlineIdPart = MessagePart (Some ''text/plain'') None
      (Some \<lparr>data = Some ''aGk='', bodySize = Some 2, attachmentId = Some ''ANGjdJ8''\<rparr>) []"

definition paddedPart :: MessagePart where
  "paddedPart = MessagePart (Some ''text/plain'') None
      (Some \<lparr>data = Some ''IGhpIA=='', bodySize = Some 4, attachmentId = None\<rparr>) []"

text \<open>
  The angle-bracket form of \<^verbatim>\<open>parseEmail\<close> applies to a trimmed header value when the
  first expression matches and both captures are non-empty.
\<close>

definition angleForm :: "string \<Rightarrow> bool" where
  "angleForm s =
     (case exec angleRe s of
        None \<Rightarrow> False
      | Some m \<Rightarrow> truthy (capture m 1) \<and> truthy (capture m 2))"

text \<open>
  A syntactic test on an expression: every match of \<open>r\<close> consumes at least one code unit
  that satisfies \<open>P\<close>. It is sufficient, not necessary.
\<close>

fun needs :: "bool \<Rightarrow> (char \<Rightarrow> bool) \<Rightarrow> re \<Rightarrow> bool" where
  "needs ic P (Cls neg rs) = (\<not> neg \<and> (\<forall>c. inClass ic rs c \<longrightarrow> P c))"
| "needs ic P Eps = False"
| "needs ic P (Seq a b) = (needs ic P a \<or> needs ic P b)"
| "needs ic P (Alt a b) = (needs ic P a \<and> needs ic P b)"
| "needs ic P (Rep m n a) = (0 < m \<and> n \<noteq> Some 0 \<and> needs ic P a)"
| "needs ic P (Grp k a) = needs ic P a"
| "needs ic P Bol = False"
| "needs ic P Eol = False"
| "needs ic P WordB = False"




section \<open>Evaluation rules\<close>

text \<open>
  The closed examples below are evaluated by rewriting with the defining equations. The
  lemmas of this section are those equations in a form that rewrites fast: comparison of
  two characters bit by bit, \<^verbatim>\<open>\w\<close> as a formula on the bits, and the quantifier equations
  split by the shape of the bounds and of the input.
\<close>

lemma char_le_bits:
  "(Char a0 a1 a2 a3 a4 a5 a6 a7 \<le> Char b0 b1 b2 b3 b4 b5 b6 b7) =
    (if a7 = b7 then if a6 = b6 then if a5 = b5 then if a4 = b4 then
     if a3 = b3 then if a2 = b2 then if a1 = b1 then (a0 \<longrightarrow> b0)
     else b1 else b2 else b3 else b4 else b5 else b6 else b7)"
  unfolding less_eq_char_simp by (auto simp: lexordp_eq_simps less_bool_def)

lemma isWordChar_bits:
  "isWordChar (Char b0 b1 b2 b3 b4 b5 b6 b7) =
     (\<not> b7 \<and> ((\<not> b6 \<and> b5 \<and> b4 \<and> (\<not> b3 \<or> (\<not> b2 \<and> \<not> b1)))
        \<or> (b6 \<and> (((b0 \<or> b1 \<or> b2 \<or> b3 \<or> b4) \<and> \<not> (b4 \<and> b3 \<and> (b2 \<or> (b1 \<and> b0))))
              \<or> (\<not> b5 \<and> b4 \<and> b3 \<and> b2 \<and> b1 \<and> b0)))))"
  unfolding isWordChar_def wordRanges_def inRanges.simps char_le_bits
  by (cases b7; cases b6; cases b5; cases b4; cases b3; cases b2; cases b1; cases b0; simp)

lemma length_Cons_Suc: "length (x # xs) = Suc (length xs)"
  by simp

lemma ms_Rep_Some0: "ms ic (Rep m (Some 0) a) (pre, rest, cs) = [(pre, rest, cs)]"
  by simp

lemma ms_Rep_Cls_Nil:
  "ms ic (Rep 0 None (Cls neg rs)) (pre, [], cs) = [(pre, [], cs)]"
  "ms ic (Rep 0 (Some (Suc n)) (Cls neg rs)) (pre, [], cs) = [(pre, [], cs)]"
  "ms ic (Rep (Suc m) None (Cls neg rs)) (pre, [], cs) = []"
  "ms ic (Rep (Suc m) (Some (Suc n)) (Cls neg rs)) (pre, [], cs) = []"
  by simp_all

lemma ms_Rep_Cls_Cons:
  "ms ic (Rep 0 None (Cls neg rs)) (pre, c # rest, cs) =
     (if inClass ic rs c \<noteq> neg
      then ms ic (Rep 0 None (Cls neg rs)) (c # pre, rest, cs) @ [(pre, c # rest, cs)]
      else [(pre, c # rest, cs)])"
  "ms ic (Rep 0 (Some (Suc n)) (Cls neg rs)) (pre, c # rest, cs) =
     (if inClass ic rs c \<noteq> neg
      then ms ic (Rep 0 (Some n) (Cls neg rs)) (c # pre, rest, cs) @ [(pre, c # rest, cs)]
      else [(pre, c # rest, cs)])"
  "ms ic (Rep (Suc m) None (Cls neg rs)) (pre, c # rest, cs) =
     (if inClass ic rs c \<noteq> neg then ms ic (Rep m None (Cls neg rs)) (c # pre, rest, cs) else [])"
  "ms ic (Rep (Suc m) (Some (Suc n)) (Cls neg rs)) (pre, c # rest, cs) =
     (if inClass ic rs c \<noteq> neg then ms ic (Rep m (Some n) (Cls neg rs)) (c # pre, rest, cs) else [])"
  by simp_all

lemma ms_Rep_gen:
  "ms ic (Rep 0 None a) (pre, rest, []) =
     concat (map (ms ic (Rep 0 None a))
       (filter (\<lambda>st'. length (fst (snd st')) < length rest) (ms ic a (pre, rest, []))))
     @ [(pre, rest, [])]"
  "ms ic (Rep 0 (Some (Suc n)) a) (pre, rest, []) =
     concat (map (ms ic (Rep 0 (Some n) a))
       (filter (\<lambda>st'. length (fst (snd st')) < length rest) (ms ic a (pre, rest, []))))
     @ [(pre, rest, [])]"
  "ms ic (Rep (Suc m) None a) (pre, rest, []) =
     concat (map (ms ic (Rep m None a)) (ms ic a (pre, rest, [])))"
  "ms ic (Rep (Suc m) (Some (Suc n)) a) (pre, rest, []) =
     concat (map (ms ic (Rep m (Some n) a)) (ms ic a (pre, rest, [])))"
  by simp_all

lemmas ms_Rep_Seq = ms_Rep_gen [where a = "Seq a b" for a b]

lemmas ms_Rep_Alt = ms_Rep_gen [where a = "Alt a b" for a b]

lemmas ms_Rep_Rep = ms_Rep_gen [where a = "Rep k l a" for k l a]

lemmas nat_eval = numeral_eq_Suc pred_numeral_simps BitM.simps One_nat_def
  diff_Suc_Suc diff_zero diff_0_eq_0 Suc_less_eq zero_less_Suc less_nat_zero_code
  nat.inject nat.distinct add_Suc add_0 add_Suc_right add_0_right

lemmas list_eval = list.case list.map concat.simps append.simps append_Nil2 filter.simps
  list.inject list.distinct list.size(3) length_Cons_Suc take_Suc_Cons take_0 take.simps(1)
  drop_Suc_Cons drop_0 drop.simps(1) rev.simps fold_simps list.set(1) set_simps insert_iff
  empty_iff dropWhile.simps

lemmas basic_eval = if_True if_False simp_thms fst_conv snd_conv prod.case prod.inject
  option.case option.inject option.distinct sum.case sum.sel char.inject char.case
  char_le_bits Let_def map_of.simps

lemmas re_eval = ms.simps(1-5) ms.simps(7-10) ms_Rep_Some0 ms_Rep_Cls_Nil ms_Rep_Cls_Cons
  ms_Rep_Seq ms_Rep_Alt ms_Rep_Rep matchAt_def scan.simps matchAll_def replaceAll_def
  isMatch.simps pieceText.simps seqs.simps alts.simps Str_def inClass_def inRanges.simps
  wordAtHead.simps isWordChar_bits spaceRanges_def decMax.simps execFrom.simps exec_def
  capture_def toUpperChar_def toLowerChar_def toLowerCase_def trim_def isWhiteSpace_def
  MatchResult.select_convs

lemmas eval_cong = if_weak_cong option.case_cong_weak list.case_cong_weak
  prod.case_cong_weak sum.case_cong_weak

lemmas san_eval = sanitizeText_def PATTERNS_def applyPattern_def applyRegex_def
  addCount.simps ALL_REDACTION_CATEGORIES_def RedactionPattern.select_convs
  SanitizeOptions.select_convs SanitizeResult.select_convs RedactionCategory.distinct

section \<open>The matcher only moves forward\<close>

lemma advances_refl: "advances (pre, rest, cs) (pre, rest, cs')"
  unfolding advances_def by (rule exI [of _ 0]) simp

lemma advances_caps: "advances st (p, r, cs) \<Longrightarrow> advances st (p, r, cs')"
  unfolding advances_def by simp

lemma advances_caps_left: "advances (p, r, cs) st' \<Longrightarrow> advances (p, r, cs') st'"
  unfolding advances_def by simp

lemma advances_trans:
  assumes "advances st st'" and "advances st' st''"
  shows "advances st st''"
proof -
  obtain k where k: "k \<le> length (fst (snd st))" "fst (snd st') = drop k (fst (snd st))"
      "fst st' = rev (take k (fst (snd st))) @ fst st"
    using assms(1) unfolding advances_def by blast
  obtain j where j: "j \<le> length (fst (snd st'))" "fst (snd st'') = drop j (fst (snd st'))"
      "fst st'' = rev (take j (fst (snd st'))) @ fst st'"
    using assms(2) unfolding advances_def by blast
  have "k + j \<le> length (fst (snd st))" using k j by simp
  moreover have "fst (snd st'') = drop (k + j) (fst (snd st))"
    using k j by (simp add: add.commute)
  moreover have "fst st'' = rev (take (k + j) (fst (snd st))) @ fst st"
    using k j by (simp add: take_add)
  ultimately show ?thesis unfolding advances_def by blast
qed

lemma advances_step: "advances (pre, c # rest, cs) (c # pre, rest, cs')"
  unfolding advances_def by (rule exI [of _ 1]) simp

lemma ms_advances: "st' \<in> set (ms ic r st) \<Longrightarrow> advances st st'"
proof (induction ic r st arbitrary: st' rule: ms.induct)
  case (1 ic neg rs pre cs)
  then show ?case by simp
next
  case (2 ic neg rs pre c rest cs)
  then show ?case by (auto simp: advances_step split: if_splits)
next
  case (3 ic st)
  then show ?case by (cases st) (auto simp: advances_refl)
next
  case (4 ic a b st)
  from 4(3) obtain x where x: "x \<in> set (ms ic a st)" and st': "st' \<in> set (ms ic b x)"
    by auto
  show ?case using 4(1) [OF x] 4(2) [OF x st'] by (rule advances_trans)
next
  case (5 ic a b st)
  from 5(3) have "st' \<in> set (ms ic a st) \<or> st' \<in> set (ms ic b st)" by simp
  then show ?case using 5(1) 5(2) by blast
next
  case (6 ic m n a pre rest cs)
  note eq = ms.simps(6) [of ic m n a pre rest cs]
  show ?case
  proof (cases "n = Some 0")
    case True
    with 6(5) show ?thesis by (simp add: ms_Rep_Some0 advances_refl del: ms.simps)
  next
    case n0: False
    show ?thesis
    proof (cases "0 < m")
      case True
      with n0 6(5) obtain x where x: "x \<in> set (ms ic a (pre, rest, filter (\<lambda>kv. fst kv \<notin> set (grps a)) cs))"
          and st': "st' \<in> set (ms ic (Rep (m - 1) (decMax n) a) x)"
        by (auto simp add: eq simp del: ms.simps)
      have "advances (pre, rest, filter (\<lambda>kv. fst kv \<notin> set (grps a)) cs) x"
        using 6(1) [OF n0 True x] .
      then have "advances (pre, rest, cs) x" by (rule advances_caps_left)
      moreover have "advances x st'" using 6(2) [OF n0 True x st'] .
      ultimately show ?thesis by (rule advances_trans)
    next
      case False
      with n0 6(5) consider
        (stop) "st' = (pre, rest, cs)"
        | (iter) x where "x \<in> set (ms ic a (pre, rest, filter (\<lambda>kv. fst kv \<notin> set (grps a)) cs))"
            "length (fst (snd x)) < length rest" "st' \<in> set (ms ic (Rep 0 (decMax n) a) x)"
        by (auto simp add: eq simp del: ms.simps)
      then show ?thesis
      proof cases
        case stop
        then show ?thesis by (simp add: advances_refl)
      next
        case iter
        have "advances (pre, rest, filter (\<lambda>kv. fst kv \<notin> set (grps a)) cs) x"
          using 6(3) [OF n0 False iter(1)] .
        then have "advances (pre, rest, cs) x" by (rule advances_caps_left)
        moreover have "advances x st'"
          using 6(4) [OF n0 False] iter by simp
        ultimately show ?thesis by (rule advances_trans)
      qed
    qed
  qed
next
  case (7 ic k a pre rest cs)
  then obtain x where x: "x \<in> set (ms ic a (pre, rest, cs))"
      and st': "st' = (fst x, fst (snd x), (k, take (length rest - length (fst (snd x))) rest) # filter (\<lambda>kv. fst kv \<noteq> k) (snd (snd x)))"
    by auto
  have "advances (pre, rest, cs) x" using 7(1) [OF x] .
  then have "advances (pre, rest, cs) (fst x, fst (snd x), snd (snd x))" by simp
  then show ?case unfolding st' by (rule advances_caps)
next
  case (8 ic pre rest cs)
  then show ?case by (auto simp: advances_refl split: if_splits)
next
  case (9 ic pre rest cs)
  then show ?case by (auto simp: advances_refl split: if_splits)
next
  case (10 ic pre rest cs)
  then show ?case by (auto simp: advances_refl split: if_splits)
qed

section \<open>Scanning without a match\<close>

lemma scan_no_match:
  "filter isMatch (scan rx pre s) = [] \<Longrightarrow> concat (map (pieceText repl) (scan rx pre s)) = s"
  by (induction rx pre s rule: scan.induct) (auto split: option.splits if_splits)

lemma replaceAll_no_match: "matchAll rx s = [] \<Longrightarrow> replaceAll rx repl s = s"
  unfolding matchAll_def replaceAll_def by (simp add: scan_no_match)

lemma applyRegex_no_match:
  "matchAll rx t = [] \<Longrightarrow> applyRegex cat repl rx (t, n, cs) = (t, n, cs)"
  by (simp add: applyRegex_def replaceAll_no_match)

lemma fold_applyRegex_no_match:
  "(\<forall>rx\<in>set rxs. matchAll rx t = []) \<Longrightarrow> fold (applyRegex cat repl) rxs (t, n, cs) = (t, n, cs)"
  by (induction rxs) (simp_all add: applyRegex_no_match)

lemma fold_applyPattern_unmatched:
  "unmatched cats ps t \<Longrightarrow> fold (applyPattern cats) ps (t, n, cs) = (t, n, cs)"
  by (induction ps) (simp_all add: unmatched_def applyPattern_def fold_applyRegex_no_match)

text \<open>The total count never decreases.\<close>

lemma applyRegex_count: "n \<le> fst (snd (applyRegex cat repl rx (t, n, cs)))"
  by (simp add: applyRegex_def Let_def)

lemma applyRegex_count_match:
  "matchAll rx t \<noteq> [] \<Longrightarrow> n < fst (snd (applyRegex cat repl rx (t, n, cs)))"
  by (simp add: applyRegex_def Let_def)

lemma fold_applyRegex_count: "fst (snd st) \<le> fst (snd (fold (applyRegex cat repl) rxs st))"
proof (induction rxs arbitrary: st)
  case Nil
  then show ?case by simp
next
  case (Cons rx rxs)
  obtain t n cs where st: "st = (t, n, cs)" by (cases st)
  have "fst (snd st) \<le> fst (snd (applyRegex cat repl rx st))"
    unfolding st using applyRegex_count [of n cat repl rx t cs] by simp
  also have "\<dots> \<le> fst (snd (fold (applyRegex cat repl) rxs (applyRegex cat repl rx st)))"
    by (rule Cons.IH)
  finally show ?case by simp
qed

lemma fold_applyRegex_count_match:
  "\<exists>rx\<in>set rxs. matchAll rx t \<noteq> [] \<Longrightarrow> n < fst (snd (fold (applyRegex cat repl) rxs (t, n, cs)))"
proof (induction rxs)
  case Nil
  then show ?case by simp
next
  case (Cons rx rxs)
  show ?case
  proof (cases "matchAll rx t = []")
    case True
    with Cons show ?thesis by (simp add: applyRegex_no_match)
  next
    case False
    have "n < fst (snd (applyRegex cat repl rx (t, n, cs)))"
      using False by (rule applyRegex_count_match)
    also have "\<dots> \<le> fst (snd (fold (applyRegex cat repl) rxs (applyRegex cat repl rx (t, n, cs))))"
      by (rule fold_applyRegex_count)
    finally show ?thesis by simp
  qed
qed

lemma applyPattern_count: "fst (snd st) \<le> fst (snd (applyPattern cats p st))"
  by (simp add: applyPattern_def fold_applyRegex_count)

lemma fold_applyPattern_count: "fst (snd st) \<le> fst (snd (fold (applyPattern cats) ps st))"
proof (induction ps arbitrary: st)
  case Nil
  then show ?case by simp
next
  case (Cons p ps)
  have "fst (snd st) \<le> fst (snd (applyPattern cats p st))" by (rule applyPattern_count)
  also have "\<dots> \<le> fst (snd (fold (applyPattern cats) ps (applyPattern cats p st)))"
    by (rule Cons.IH)
  finally show ?case by simp
qed

lemma fold_applyPattern_matched:
  "\<not> unmatched cats ps t \<Longrightarrow> n < fst (snd (fold (applyPattern cats) ps (t, n, cs)))"
proof (induction ps)
  case Nil
  then show ?case by (simp add: unmatched_def)
next
  case (Cons p ps)
  show ?case
  proof (cases "category p \<in> set cats \<and> (\<exists>rx\<in>set (patterns p). matchAll rx t \<noteq> [])")
    case True
    then have "n < fst (snd (applyPattern cats p (t, n, cs)))"
      by (simp add: applyPattern_def fold_applyRegex_count_match)
    also have "\<dots> \<le> fst (snd (fold (applyPattern cats) ps (applyPattern cats p (t, n, cs))))"
      by (rule fold_applyPattern_count)
    finally show ?thesis by simp
  next
    case False
    then have same: "applyPattern cats p (t, n, cs) = (t, n, cs)"
      by (auto simp: applyPattern_def fold_applyRegex_no_match)
    from False Cons.prems have "\<not> unmatched cats ps t"
      by (auto simp: unmatched_def)
    then show ?thesis using Cons.IH same by simp
  qed
qed

lemma sanitize_unmatched:
  assumes "enabled c" and "unmatched (categories c) PATTERNS t"
  shows "rtext (sanitizeText t c) = t \<and> redactionCount (sanitizeText t c) = 0"
  using assms by (simp add: sanitizeText_def fold_applyPattern_unmatched)

lemma sanitize_matched:
  assumes "enabled c" and "t \<noteq> []" and "\<not> unmatched (categories c) PATTERNS t"
  shows "0 < redactionCount (sanitizeText t c)"
proof -
  let ?cs = "map (\<lambda>cat. (cat, 0::nat)) ALL_REDACTION_CATEGORIES"
  have "0 < fst (snd (fold (applyPattern (categories c)) PATTERNS (t, 0, ?cs)))"
    using assms(3) by (rule fold_applyPattern_matched)
  then show ?thesis using assms(1,2)
    by (auto simp add: sanitizeText_def split: prod.splits)
qed

section \<open>Expressions that need a code unit of some kind\<close>

text \<open>
  When every match of an expression consumes a code unit satisfying \<open>P\<close>, the expression
  matches nowhere in a text without such a code unit.
\<close>

lemma advances_set: "advances st st' \<Longrightarrow> set (fst (snd st')) \<subseteq> set (fst (snd st))"
  unfolding advances_def by (auto dest: in_set_dropD)

lemma needs_ms:
  "needs ic P r \<Longrightarrow> \<forall>c\<in>set (fst (snd st)). \<not> P c \<Longrightarrow> ms ic r st = []"
proof (induction ic r st rule: ms.induct)
  case (4 ic a b st)
  show ?case
  proof (cases "needs ic P a")
    case True
    then have "ms ic a st = []" using 4 by simp
    then show ?thesis by simp
  next
    case False
    then have nb: "needs ic P b" using 4(3) by simp
    have "ms ic b st' = []" if "st' \<in> set (ms ic a st)" for st'
    proof -
      have "set (fst (snd st')) \<subseteq> set (fst (snd st))"
        using that by (intro advances_set ms_advances)
      then have "\<forall>c\<in>set (fst (snd st')). \<not> P c" using 4(4) by blast
      then show ?thesis using 4(2) [OF that nb] by simp
    qed
    then show ?thesis by simp
  qed
next
  case (6 ic m n a pre rest cs)
  then have "ms ic a (pre, rest, filter (\<lambda>kv. fst kv \<notin> set (grps a)) cs) = []"
    by simp
  moreover have "n \<noteq> Some 0" "0 < m" using 6 by simp_all
  ultimately show ?case
    using ms.simps(6) [of ic m n a pre rest cs] by (simp del: ms.simps)
qed auto

lemma needs_matchAt:
  "needs (snd rx) P (fst rx) \<Longrightarrow> \<forall>c\<in>set rest. \<not> P c \<Longrightarrow> matchAt rx pre rest = None"
  by (simp add: matchAt_def needs_ms)



lemma needs_execFrom:
  "needs (snd rx) P (fst rx) \<Longrightarrow> \<forall>c\<in>set s. \<not> P c \<Longrightarrow> execFrom rx pre s = None"
  by (induction rx pre s rule: execFrom.induct) (simp_all add: needs_matchAt)


lemma inClass_at: "inClass ic [(CHR ''@'', CHR ''@'')] c = (c = CHR ''@'')"
proof (cases c)
  case (Char b0 b1 b2 b3 b4 b5 b6 b7)
  show ?thesis
    unfolding Char inClass_def toUpperChar_def toLowerChar_def inRanges.simps
      char.case char_le_bits
    by (cases b7; cases b6; cases b5; cases b4; cases b3; cases b2; cases b1; cases b0; simp)
qed


section \<open>The early return of sanitizeText\<close>

text \<open>
  Claim C10. For every configuration, \<^verbatim>\<open>sanitizeText\<close> called on the empty text returns at
  once: the text unchanged, a total count of zero and a per-category dictionary with no
  key at all, also when redaction is enabled and categories are selected.
\<close>

theorem sanitize_empty_text:
  "sanitizeText [] options = \<lparr>rtext = [], redactionCount = 0, redactionsByCategory = []\<rparr>"
  by (simp add: sanitizeText_def)

theorem sanitize_empty_text_witness:
  "sanitizeText [] \<lparr>enabled = True, categories = [tax_ids, phone_numbers]\<rparr>
     = \<lparr>rtext = [], redactionCount = 0, redactionsByCategory = []\<rparr>"
  by (rule sanitize_empty_text)

text \<open>
  Claim C1 as stated asks, for a disabled configuration, for a dictionary that holds every
  category with count zero. The disabled path returns the empty dictionary: looking up
  \<open>credit_cards\<close> in the result for the text \<open>hello\<close> finds nothing.
\<close>

theorem sanitize_disabled_counterexample:
  "map_of (redactionsByCategory (sanitizeText ''hello'' \<lparr>enabled = False, categories = []\<rparr>)) credit_cards
     \<noteq> Some 0"
  by (simp add: sanitizeText_def)

text \<open>
  Claim C1, amended. For every text and every list of categories, \<^verbatim>\<open>sanitizeText\<close> with
  \<open>enabled = False\<close> returns the text unchanged, a total count of zero and the empty
  per-category dictionary.
\<close>

theorem sanitize_disabled:
  "sanitizeText t \<lparr>enabled = False, categories = cats\<rparr>
     = \<lparr>rtext = t, redactionCount = 0, redactionsByCategory = []\<rparr>"
  by (simp add: sanitizeText_def)

theorem sanitize_disabled_witness:
  "sanitizeText ''My SSN is 123-45-6789'' \<lparr>enabled = False, categories = [tax_ids]\<rparr>
     = \<lparr>rtext = ''My SSN is 123-45-6789'', redactionCount = 0, redactionsByCategory = []\<rparr>"
  by (rule sanitize_disabled)

section \<open>Running sanitizeText on its own output\<close>

lemma unmatched_Nil: "unmatched cats [] t = True"
  by (simp add: unmatched_def)

lemma unmatched_Cons:
  "unmatched cats (p # ps) t =
     ((if category p \<in> set cats then list_all (\<lambda>rx. matchAll rx t = []) (patterns p) else True)
      \<and> unmatched cats ps t)"
  by (auto simp: unmatched_def list_all_iff)

lemmas unmatched_eval = unmatched_Nil unmatched_Cons list.pred_inject

text \<open>
  Claim C2 as stated says that the output of \<^verbatim>\<open>sanitizeText\<close> is always a fixed point of a
  second run with the same configuration. With the categories \<open>passwords\<close> and
  \<open>financial_amounts\<close> enabled, the text \<open>pin: $5\<close> becomes \<open>pin: [REDACTED_AMOUNT]\<close>: no
  password pattern matches a secret of two characters, and the amount pattern replaces
  \<open>$5\<close>. On that output the first password pattern does match, the placeholder now being
  the secret, so the second run returns \<open>[REDACTED_PASSWORD]\<close> with a count of one.
\<close>

theorem sanitize_fixed_point_counterexample:
  "rtext (sanitizeText ''pin: $5'' \<lparr>enabled = True, categories = [passwords, financial_amounts]\<rparr>)
     = ''pin: [REDACTED_AMOUNT]''
   \<and> rtext (sanitizeText ''pin: [REDACTED_AMOUNT]'' \<lparr>enabled = True, categories = [passwords, financial_amounts]\<rparr>)
     = ''[REDACTED_PASSWORD]''
   \<and> redactionCount (sanitizeText ''pin: [REDACTED_AMOUNT]'' \<lparr>enabled = True, categories = [passwords, financial_amounts]\<rparr>)
     = 1"
proof -
  have first: "rtext (sanitizeText ''pin: $5'' \<lparr>enabled = True, categories = [passwords, financial_amounts]\<rparr>)
     = ''pin: [REDACTED_AMOUNT]''"
    by (simp only: san_eval re_eval basic_eval list_eval nat_eval passwords_patterns_def
          financial_amounts_patterns_def cong: eval_cong)
  have second: "rtext (sanitizeText ''pin: [REDACTED_AMOUNT]'' \<lparr>enabled = True, categories = [passwords, financial_amounts]\<rparr>)
     = ''[REDACTED_PASSWORD]''"
    by (simp only: san_eval re_eval basic_eval list_eval nat_eval passwords_patterns_def
          financial_amounts_patterns_def cong: eval_cong)
  have count: "redactionCount (sanitizeText ''pin: [REDACTED_AMOUNT]'' \<lparr>enabled = True, categories = [passwords, financial_amounts]\<rparr>)
     = 1"
    by (simp only: san_eval re_eval basic_eval list_eval nat_eval passwords_patterns_def
          financial_amounts_patterns_def cong: eval_cong)
  show ?thesis using first second count by simp
qed

text \<open>
  Claim C2, amended. For every configuration \<open>c\<close> with \<open>enabled\<close> true and every text \<open>u\<close>, in
  particular every output of a first run, \<^verbatim>\<open>sanitizeText\<close> returns \<open>u\<close> itself with total
  count zero if and only if \<open>u\<close> is empty or no expression of a category enabled in \<open>c\<close>
  matches \<open>u\<close>.
\<close>

theorem sanitize_fixed_point_iff:
  assumes "enabled c"
  shows "(rtext (sanitizeText u c) = u \<and> redactionCount (sanitizeText u c) = 0)
           \<longleftrightarrow> (u = [] \<or> unmatched (categories c) PATTERNS u)"
proof (cases "u = []")
  case True
  then show ?thesis by (simp add: sanitizeText_def)
next
  case False
  show ?thesis
  proof (cases "unmatched (categories c) PATTERNS u")
    case True
    with assms show ?thesis by (simp add: sanitize_unmatched)
  next
    case un: False
    have "0 < redactionCount (sanitizeText u c)"
      using assms False un by (rule sanitize_matched)
    with False un show ?thesis by simp
  qed
qed

theorem sanitize_fixed_point_witness:
  "rtext (sanitizeText ''My SSN is 123-45-6789'' \<lparr>enabled = True, categories = [tax_ids]\<rparr>)
     = ''My SSN is [REDACTED_TAX_ID]''
   \<and> rtext (sanitizeText ''My SSN is [REDACTED_TAX_ID]'' \<lparr>enabled = True, categories = [tax_ids]\<rparr>)
     = ''My SSN is [REDACTED_TAX_ID]''
   \<and> redactionCount (sanitizeText ''My SSN is [REDACTED_TAX_ID]'' \<lparr>enabled = True, categories = [tax_ids]\<rparr>) = 0"
proof -
  have first: "rtext (sanitizeText ''My SSN is 123-45-6789'' \<lparr>enabled = True, categories = [tax_ids]\<rparr>)
     = ''My SSN is [REDACTED_TAX_ID]''"
    by (simp only: san_eval re_eval basic_eval list_eval nat_eval tax_ids_patterns_def cong: eval_cong)
  have un: "unmatched [tax_ids] PATTERNS ''My SSN is [REDACTED_TAX_ID]''"
    by (simp only: unmatched_eval san_eval re_eval basic_eval list_eval nat_eval tax_ids_patterns_def
          cong: eval_cong)
  have "rtext (sanitizeText ''My SSN is [REDACTED_TAX_ID]'' \<lparr>enabled = True, categories = [tax_ids]\<rparr>)
          = ''My SSN is [REDACTED_TAX_ID]''
        \<and> redactionCount (sanitizeText ''My SSN is [REDACTED_TAX_ID]'' \<lparr>enabled = True, categories = [tax_ids]\<rparr>) = 0"
    using sanitize_fixed_point_iff [of "\<lparr>enabled = True, categories = [tax_ids]\<rparr>" "''My SSN is [REDACTED_TAX_ID]''"] un
    by simp
  with first show ?thesis by simp
qed

section \<open>Replacing one character\<close>

lemma matchAt_Lit_Nil: "matchAt (G (Lit c)) pre [] = None"
  by (simp add: matchAt_def)

lemma matchAt_Lit_Cons:
  "matchAt (G (Lit c)) pre (x # rest) = (if x = c then Some (1, []) else None)"
  by (auto simp: matchAt_def inClass_def)

lemma scan_Lit:
  "scan (G (Lit c)) pre s = map (\<lambda>x. if x = c then Inr [x] else Inl x) s"
  by (induction s arbitrary: pre) (simp_all add: matchAt_Lit_Nil matchAt_Lit_Cons)

lemma replaceAll_Lit:
  "replaceAll (G (Lit c)) [d] s = map (\<lambda>x. if x = c then d else x) s"
  unfolding replaceAll_def scan_Lit by (induction s) simp_all

section \<open>decodeBase64Url\<close>

lemma translate_twice:
  "map (\<lambda>x. if x = CHR ''_'' then CHR ''/'' else x) (map (\<lambda>x. if x = CHR ''-'' then CHR ''+'' else x) d)
     = map specTranslate d"
  by (induction d) (simp_all add: specTranslate_def)

lemma pad_length:
  fixes n :: nat
  shows "(n + (4 - n mod 4) mod 4) mod 4 = 0"
proof -
  define r where "r = n mod 4"
  have "r < 4" unfolding r_def by simp
  then have "r = 0 \<or> r = 1 \<or> r = 2 \<or> r = 3" by arith
  then have zero: "(r + (4 - r) mod 4) mod 4 = 0" by auto
  have "(n + (4 - r) mod 4) mod 4 = (n mod 4 + (4 - r) mod 4) mod 4"
    by (rule mod_add_left_eq [symmetric])
  with zero show ?thesis by (simp only: r_def)
qed

lemma pad_replicate:
  fixes n :: nat
  shows "(if n mod 4 = 0 then [] else replicate (4 - n mod 4) c) = replicate ((4 - n mod 4) mod 4) c"
  by (cases "n mod 4 = 0") simp_all

lemma decodeBase64Url_map:
  "decodeBase64Url dec d
     = dec (map specTranslate d @ replicate ((4 - length d mod 4) mod 4) (CHR ''=''))"
proof -
  have b64: "replaceAll (G (Lit (CHR ''_''))) ''/'' (replaceAll (G (Lit (CHR ''-''))) ''+'' d)
               = map specTranslate d"
    by (simp only: replaceAll_Lit translate_twice)
  show ?thesis
    by (simp only: decodeBase64Url_def Let_def b64 length_map pad_replicate)
qed

text \<open>
  Claim C8. \<^verbatim>\<open>decodeBase64Url\<close> is defined on every string: it hands the runtime decoder
  the input with \<^verbatim>\<open>-\<close> turned into \<^verbatim>\<open>+\<close> and \<^verbatim>\<open>_\<close> into \<^verbatim>\<open>/\<close>, followed by as many \<^verbatim>\<open>=\<close> (at
  most three, fixed by the length alone) as make the length a multiple of four. No step
  inspects the input for validity, so there is no failing branch.
\<close>

theorem decodeBase64Url_pads:
  "decodeBase64Url dec d
     = dec (map specTranslate d @ replicate ((4 - length d mod 4) mod 4) (CHR ''=''))
   \<and> length (map specTranslate d @ replicate ((4 - length d mod 4) mod 4) (CHR ''='')) mod 4 = 0
   \<and> (4 - length d mod 4) mod 4 < 4"
proof (intro conjI)
  show "decodeBase64Url dec d
     = dec (map specTranslate d @ replicate ((4 - length d mod 4) mod 4) (CHR ''=''))"
    by (rule decodeBase64Url_map)
  show "length (map specTranslate d @ replicate ((4 - length d mod 4) mod 4) (CHR ''='')) mod 4 = 0"
    by (simp only: length_append length_map length_replicate pad_length)
  show "(4 - length d mod 4) mod 4 < 4"
    by simp
qed

theorem decodeBase64Url_pads_witness:
  "decodeBase64Url id ''a-b_c'' = ''a+b/c==='' \<and> length ''a+b/c==='' mod 4 = 0"
proof -
  have n: "(4 - length ''a-b_c'' mod 4) mod 4 = 3"
    by simp
  have pad: "replicate 3 (CHR ''='') = ''===''"
    by (simp only: replicate.simps numeral_3_eq_3)
  have tr: "map specTranslate ''a-b_c'' = ''a+b/c''"
    by (simp add: specTranslate_def)
  have "decodeBase64Url id ''a-b_c'' = id (''a+b/c'' @ ''==='')"
    using decodeBase64Url_pads [of id "''a-b_c''"] unfolding n pad tr by (rule conjunct1)
  then show ?thesis by simp
qed

section \<open>The walk of extractBodyText\<close>

lemma fold_walkBody:
  assumes "\<And>q acc. q \<in> set ps \<Longrightarrow> walkBody dec q acc = (fst acc @ plainOf dec q, snd acc @ htmlOf dec q)"
  shows "fold (walkBody dec) ps acc
           = (fst acc @ concat (map (plainOf dec) ps), snd acc @ concat (map (htmlOf dec) ps))"
  using assms by (induction ps arbitrary: acc) simp_all

lemma walkBody_preorder:
  "walkBody dec p acc = (fst acc @ plainOf dec p, snd acc @ htmlOf dec p)"
proof (induction p arbitrary: acc)
  case (MessagePart mt fn bd ps)
  obtain pl ht where acc: "acc = (pl, ht)" by (cases acc)
  let ?p = "MessagePart mt fn bd ps"
  have kids: "\<And>q a. q \<in> set ps \<Longrightarrow> walkBody dec q a = (fst a @ plainOf dec q, snd a @ htmlOf dec q)"
    using MessagePart.IH by simp
  have pre: "plainOf dec ?p = (if contributes ''text/plain'' ?p then [decodeBase64Url dec (partData ?p)] else [])
                @ concat (map (plainOf dec) ps)"
    by (simp add: plainOf_def [abs_def] map_concat filter_concat comp_def)
  have hre: "htmlOf dec ?p = (if contributes ''text/html'' ?p then [decodeBase64Url dec (partData ?p)] else [])
                @ concat (map (htmlOf dec) ps)"
    by (simp add: htmlOf_def [abs_def] map_concat filter_concat comp_def)
  have fold_eq: "\<And>a. fold (walkBody dec) ps a
      = (fst a @ concat (map (plainOf dec) ps), snd a @ concat (map (htmlOf dec) ps))"
    by (rule fold_walkBody [OF kids])
  show ?case
    unfolding acc walkBody.simps pre hre
    by (auto simp: contributes_def fold_eq)
qed

section \<open>A bounded run of one character class, up to the end of the input\<close>

lemma ms_Rep_Cls_to_end:
  "m \<le> n \<Longrightarrow>
   filter (\<lambda>st. fst (snd st) = []) (ms ic (Rep m (Some n) (Cls neg rs)) (pre, rest, cs))
     = (if m \<le> length rest \<and> length rest \<le> n \<and> list_all (\<lambda>c. inClass ic rs c \<noteq> neg) rest
        then [(rev rest @ pre, [], cs)] else [])"
proof (induction rest arbitrary: m n pre)
  case Nil
  show ?case
  proof (cases n)
    case 0
    with Nil show ?thesis by (simp add: ms_Rep_Some0 del: ms.simps)
  next
    case (Suc n')
    show ?thesis
    proof (cases m)
      case 0
      then show ?thesis unfolding Suc by (simp add: ms_Rep_Cls_Nil del: ms.simps)
    next
      case (Suc m')
      then show ?thesis unfolding \<open>n = Suc n'\<close> by (simp add: ms_Rep_Cls_Nil del: ms.simps)
    qed
  qed
next
  case (Cons c r)
  show ?case
  proof (cases n)
    case 0
    then show ?thesis by (simp add: ms_Rep_Some0 del: ms.simps)
  next
    case n: (Suc n')
    show ?thesis
    proof (cases m)
      case 0
      have IH: "filter (\<lambda>st. fst (snd st) = []) (ms ic (Rep 0 (Some n') (Cls neg rs)) (c # pre, r, cs))
        = (if 0 \<le> length r \<and> length r \<le> n' \<and> list_all (\<lambda>c. inClass ic rs c \<noteq> neg) r
           then [(rev r @ c # pre, [], cs)] else [])"
        by (rule Cons.IH) simp
      show ?thesis unfolding 0 n ms_Rep_Cls_Cons
        using IH by (simp del: ms.simps)
    next
      case m: (Suc m')
      have IH: "filter (\<lambda>st. fst (snd st) = []) (ms ic (Rep m' (Some n') (Cls neg rs)) (c # pre, r, cs))
        = (if m' \<le> length r \<and> length r \<le> n' \<and> list_all (\<lambda>c. inClass ic rs c \<noteq> neg) r
           then [(rev r @ c # pre, [], cs)] else [])"
        using Cons.prems unfolding m n by (intro Cons.IH) simp
      show ?thesis unfolding m n ms_Rep_Cls_Cons
        using IH by (simp del: ms.simps)
    qed
  qed
qed

section \<open>The extension expression\<close>

lemma inClass_alnum:
  "(inClass False [(CHR ''a'', CHR ''z''), (CHR ''0'', CHR ''9'')] c \<noteq> False) = isLowerAlnum c"
  by (simp add: inClass_def isLowerAlnum_def)

lemma inClass_alnum_fun:
  "inClass False [(CHR ''a'', CHR ''z''), (CHR ''0'', CHR ''9'')] = isLowerAlnum"
  by (rule ext) (simp add: inClass_def isLowerAlnum_def)

lemma concat_map_Eol:
  "concat (map (ms ic Eol) sts) = filter (\<lambda>st. fst (snd st) = []) sts"
  by (induction sts) auto

lemma matchAt_extRe_Nil: "matchAt extRe pre [] = None"
  by (simp add: matchAt_def extRe_def)

lemma matchAt_extRe_Cons:
  "matchAt extRe pre (c # r)
     = (if c = CHR ''.'' \<and> goodExt r then Some (Suc (length r), [(1, r)]) else None)"
proof -
  let ?C = "Cls False [(CHR ''a'', CHR ''z''), (CHR ''0'', CHR ''9'')]"
  let ?R = "Rep 1 (Some 10) ?C"
  have dot: "ms False (Lit (CHR ''.'')) (pre, c # r, []) = (if c = CHR ''.'' then [(c # pre, r, [])] else [])"
    by (auto simp: inClass_def)
  have grp: "\<And>p. ms False (Seq (Grp 1 ?R) Eol) (p, r, [])
      = (if goodExt r then [(rev r @ p, [], [(1, r)])] else [])"
  proof -
    fix p
    have "ms False (Seq (Grp 1 ?R) Eol) (p, r, [])
        = filter (\<lambda>st. fst (snd st) = []) (ms False (Grp 1 ?R) (p, r, []))"
      by (simp only: ms.simps(4) concat_map_Eol)
    also have "\<dots> = map (\<lambda>st'. (fst st', fst (snd st'),
                 (1, take (length r - length (fst (snd st'))) r) # filter (\<lambda>kv. fst kv \<noteq> 1) (snd (snd st'))))
          (filter (\<lambda>st. fst (snd st) = []) (ms False ?R (p, r, [])))"
      by (simp only: ms.simps(7) filter_map comp_def fst_conv snd_conv)
    also have "filter (\<lambda>st. fst (snd st) = []) (ms False ?R (p, r, []))
        = (if 1 \<le> length r \<and> length r \<le> 10 \<and> list_all (\<lambda>c. inClass False [(CHR ''a'', CHR ''z''), (CHR ''0'', CHR ''9'')] c \<noteq> False) r
           then [(rev r @ p, [], [])] else [])"
      by (rule ms_Rep_Cls_to_end) simp
    finally show "ms False (Seq (Grp 1 ?R) Eol) (p, r, [])
      = (if goodExt r then [(rev r @ p, [], [(1, r)])] else [])"
      by (simp add: goodExt_def inClass_alnum_fun del: ms.simps)
  qed
  have all: "ms False (fst extRe) (pre, c # r, [])
      = (if c = CHR ''.'' \<and> goodExt r then [(rev r @ c # pre, [], [(1, r)])] else [])"
  proof (cases "c = CHR ''.''")
    case True
    have "ms False (fst extRe) (pre, c # r, []) = ms False (Seq (Grp 1 ?R) Eol) (c # pre, r, [])"
      unfolding extRe_def fst_conv seqs.simps ms.simps(4) [of False "Lit (CHR ''.'')"] dot
      by (simp only: True simp_thms if_True list.map concat.simps append_Nil2)
    then show ?thesis by (simp only: grp True simp_thms)
  next
    case False
    have "ms False (fst extRe) (pre, c # r, []) = []"
      unfolding extRe_def fst_conv seqs.simps ms.simps(4) [of False "Lit (CHR ''.'')"] dot
      by (simp only: False simp_thms if_False list.map concat.simps)
    then show ?thesis by (simp only: False simp_thms if_False)
  qed
  have flag: "snd extRe = False"
    by (simp add: extRe_def)
  show ?thesis
    unfolding matchAt_def flag all by simp
qed

lemma afterLastDot_Cons_dot:
  assumes "CHR ''.'' \<notin> set r"
  shows "afterLastDot (CHR ''.'' # r) = r"
proof -
  have "takeWhile (\<lambda>c. c \<noteq> CHR ''.'') (rev r @ [CHR ''.''])
          = rev r @ takeWhile (\<lambda>c. c \<noteq> CHR ''.'') [CHR ''.'']"
    by (rule takeWhile_append2) (use assms in auto)
  then show ?thesis by (simp add: afterLastDot_def)
qed

lemma afterLastDot_Cons:
  assumes "CHR ''.'' \<in> set r"
  shows "afterLastDot (c # r) = afterLastDot r"
proof -
  have "takeWhile (\<lambda>c. c \<noteq> CHR ''.'') (rev r @ [c]) = takeWhile (\<lambda>c. c \<noteq> CHR ''.'') (rev r)"
    by (rule takeWhile_append1 [of "CHR ''.''"]) (use assms in auto)
  then show ?thesis by (simp add: afterLastDot_def)
qed

lemma goodExt_no_dot: "goodExt r \<Longrightarrow> CHR ''.'' \<notin> set r"
  by (auto simp: goodExt_def list_all_iff isLowerAlnum_def)

lemma specExtension_no_dot: "CHR ''.'' \<notin> set s \<Longrightarrow> specExtension s = None"
  by (simp add: specExtension_def)

lemma specExtension_Cons:
  "specExtension (c # r)
     = (if c = CHR ''.'' \<and> goodExt r then Some r else specExtension r)"
proof (cases "CHR ''.'' \<in> set r")
  case True
  then have "\<not> goodExt r" using goodExt_no_dot by blast
  then show ?thesis using True by (simp add: specExtension_def afterLastDot_Cons)
next
  case False
  show ?thesis
  proof (cases "c = CHR ''.''")
    case True
    then show ?thesis using False
      by (simp add: specExtension_def afterLastDot_Cons_dot goodExt_def)
  next
    case c: False
    then show ?thesis using False by (simp add: specExtension_def)
  qed
qed

lemma execFrom_extRe:
  "(case execFrom extRe pre s of None \<Rightarrow> None | Some m \<Rightarrow> capture m 1) = specExtension s"
proof (induction s arbitrary: pre)
  case Nil
  show ?case by (simp add: matchAt_extRe_Nil specExtension_def)
next
  case (Cons c r)
  show ?case
    using Cons.IH [of "c # pre"]
    by (simp add: matchAt_extRe_Cons specExtension_Cons capture_def)
qed

lemma fileExt_spec: "fileExt fname = specExtension (toLowerCase fname)"
  unfolding fileExt_def exec_def by (rule execFrom_extRe)

section \<open>The walk of collectAttachmentTypes\<close>

lemma addTypes_append: "addTypes (qs @ rs) tys = addTypes rs (addTypes qs tys)"
  by (simp add: addTypes_def)

lemma set_addTypes: "set (addTypes qs tys) = set tys \<union> attachmentType ` set qs"
  unfolding addTypes_def by (induction qs arbitrary: tys) (auto simp: setAdd_def)

lemma distinct_addTypes: "distinct tys \<Longrightarrow> distinct (addTypes qs tys)"
  unfolding addTypes_def by (induction qs arbitrary: tys) (auto simp: setAdd_def)

lemma fold_walkAttachments:
  assumes "\<And>q acc. q \<in> set ps \<Longrightarrow>
             walkAttachments q acc = (addTypes (attachmentsOf q) (fst acc), snd acc + length (attachmentsOf q))"
  shows "fold walkAttachments ps acc
           = (addTypes (concat (map attachmentsOf ps)) (fst acc),
              snd acc + length (concat (map attachmentsOf ps)))"
  using assms
proof (induction ps arbitrary: acc)
  case Nil
  show ?case by (simp add: addTypes_def)
next
  case (Cons q ps)
  have "fold walkAttachments (q # ps) acc = fold walkAttachments ps (walkAttachments q acc)"
    by simp
  also have "walkAttachments q acc = (addTypes (attachmentsOf q) (fst acc), snd acc + length (attachmentsOf q))"
    by (rule Cons.prems) simp
  also have "fold walkAttachments ps (addTypes (attachmentsOf q) (fst acc), snd acc + length (attachmentsOf q))
      = (addTypes (concat (map attachmentsOf ps)) (addTypes (attachmentsOf q) (fst acc)),
         snd acc + length (attachmentsOf q) + length (concat (map attachmentsOf ps)))"
    using Cons.IH [of "(addTypes (attachmentsOf q) (fst acc), snd acc + length (attachmentsOf q))"] Cons.prems
    by simp
  finally show ?case by (simp add: addTypes_append add.assoc)
qed

lemma walkAttachments_preorder:
  "walkAttachments p acc = (addTypes (attachmentsOf p) (fst acc), snd acc + length (attachmentsOf p))"
proof (induction p arbitrary: acc)
  case (MessagePart mt fn bd ps)
  obtain tys cnt where acc: "acc = (tys, cnt)" by (cases acc)
  let ?p = "MessagePart mt fn bd ps"
  have kids: "\<And>q a. q \<in> set ps \<Longrightarrow>
      walkAttachments q a = (addTypes (attachmentsOf q) (fst a), snd a + length (attachmentsOf q))"
    using MessagePart.IH by simp
  have fold_eq: "\<And>a. fold walkAttachments ps a
      = (addTypes (concat (map attachmentsOf ps)) (fst a), snd a + length (concat (map attachmentsOf ps)))"
    by (rule fold_walkAttachments [OF kids])
  have att: "attachmentsOf ?p = (if looksLikeAttachment ?p then [?p] else []) @ concat (map attachmentsOf ps)"
    by (simp add: attachmentsOf_def [abs_def] filter_concat comp_def)
  show ?case
    unfolding acc walkAttachments.simps att fold_eq
    by (simp add: addTypes_def)
qed

lemma truthy_specExtension: "truthy (specExtension s) = (specExtension s \<noteq> None)"
  by (auto simp: truthy_def specExtension_def split: option.splits)

lemma attachmentType_spec:
  "attachmentType p =
     (case specExtension (toLowerCase (trim (orEmpty (filename p)))) of
        Some e \<Rightarrow> e
      | None \<Rightarrow> if truthy (mimeType p) then toLowerCase (orEmpty (mimeType p)) else ''unknown'')"
  by (simp add: attachmentType_def fileExt_spec truthy_specExtension partFilename_def orEmpty_def
      split: option.splits)

text \<open>
  Claim C3, amended. For every MessagePart tree, \<^verbatim>\<open>collectAttachmentTypes\<close> counts exactly
  the parts of the tree whose filename is non-empty after trimming white space and whose
  attachment id is present and non-empty or whose body size is above zero; its sorted,
  duplicate-free list of types holds the type of each of them, and \<open>hasAttachment\<close> says
  whether there is one. The type of a part is the text after the last dot of the
  trimmed, lower-cased filename when that text has 1 to 10 characters from \<open>a-z0-9\<close>,
  otherwise the lower-cased MIME type when that is present and non-empty, otherwise the
  literal \<open>unknown\<close>.
\<close>

theorem collectAttachmentTypes_spec:
  "count (collectAttachmentTypes (Some root)) = length (filter looksLikeAttachment (preorder root))
   \<and> set (types (collectAttachmentTypes (Some root)))
       = attachmentType ` set (filter looksLikeAttachment (preorder root))
   \<and> sorted (types (collectAttachmentTypes (Some root)))
   \<and> distinct (types (collectAttachmentTypes (Some root)))
   \<and> hasAttachment (collectAttachmentTypes (Some root))
       = (filter looksLikeAttachment (preorder root) \<noteq> [])
   \<and> looksLikeAttachment p
       = (trim (orEmpty (filename p)) \<noteq> [] \<and> (truthy (partAttachmentId p) \<or> 0 < partSize p))
   \<and> attachmentType p
       = (case specExtension (toLowerCase (trim (orEmpty (filename p)))) of
            Some e \<Rightarrow> e
          | None \<Rightarrow> if truthy (mimeType p) then toLowerCase (orEmpty (mimeType p)) else ''unknown'')"
proof -
  have walk: "walkAttachments root ([], 0) = (addTypes (attachmentsOf root) [], length (attachmentsOf root))"
    by (simp add: walkAttachments_preorder)
  have nonempty: "(addTypes (attachmentsOf root) [] \<noteq> []) = (attachmentsOf root \<noteq> [])"
    using set_addTypes [of "attachmentsOf root" "[]"] by (cases "attachmentsOf root") auto
  show ?thesis
    using nonempty
    by (simp add: collectAttachmentTypes_def walk set_addTypes distinct_addTypes
        attachmentsOf_def [symmetric] looksLikeAttachment_def partFilename_def attachmentType_spec)
qed

lemmas part_eval = invoicePart_def noextPart_def bareNoextPart_def plainPart_def mixedMessage_def
  blankNamePart_def looksLikeAttachment_def partFilename_def partAttachmentId_def partSize_def
  partData_def partMimeType_def isAttachment_def truthy_def orEmpty_def trim_def isWhiteSpace_def
  spaceRanges_def toLowerCase_def toLowerChar_def specExtension_def afterLastDot_def
  isLowerAlnum_def specIsAttachment_def contributes_def

text \<open>
  Claim C3 as stated counts every part with a non-empty filename and an attachment id or
  a positive size. The filename is trimmed first: a part whose filename is one blank,
  with an attachment id and a size of 120, is not counted.
\<close>

theorem collectAttachmentTypes_counterexample:
  "specIsAttachment blankNamePart
   \<and> count (collectAttachmentTypes (Some blankNamePart)) = 0
   \<and> hasAttachment (collectAttachmentTypes (Some blankNamePart)) = False"
  by (simp add: collectAttachmentTypes_def part_eval)

text \<open>
  The examples of the claim, in one message: \<open>Invoice.PDF\<close> with size 120 has type \<open>pdf\<close>;
  \<open>noext\<close> with an attachment id has its lower-cased MIME type, or \<open>unknown\<close> without one.
\<close>

theorem collectAttachmentTypes_witness:
  "count (collectAttachmentTypes (Some mixedMessage)) = 3
   \<and> set (types (collectAttachmentTypes (Some mixedMessage)))
       = {''pdf'', ''application/octet-stream'', ''unknown''}
   \<and> looksLikeAttachment invoicePart \<and> attachmentType invoicePart = ''pdf''
   \<and> looksLikeAttachment noextPart \<and> attachmentType noextPart = ''application/octet-stream''
   \<and> looksLikeAttachment bareNoextPart \<and> attachmentType bareNoextPart = ''unknown''"
proof -
  have atts: "filter looksLikeAttachment (preorder mixedMessage) = [invoicePart, noextPart, bareNoextPart]"
    by (simp add: part_eval)
  have t1: "attachmentType invoicePart = ''pdf''"
    using collectAttachmentTypes_spec [of mixedMessage invoicePart] by (simp add: part_eval)
  have t2: "attachmentType noextPart = ''application/octet-stream''"
    using collectAttachmentTypes_spec [of mixedMessage noextPart] by (simp add: part_eval)
  have t3: "attachmentType bareNoextPart = ''unknown''"
    using collectAttachmentTypes_spec [of mixedMessage bareNoextPart] by (simp add: part_eval)
  have l: "looksLikeAttachment invoicePart \<and> looksLikeAttachment noextPart \<and> looksLikeAttachment bareNoextPart"
    by (simp add: part_eval)
  show ?thesis
    using collectAttachmentTypes_spec [of mixedMessage invoicePart] l
    unfolding atts by (simp add: t1 t2 t3)
qed

section \<open>The body text\<close>

lemmas b64_eval = decodeBase64Url_map specTranslate_def base64Text_def b64Alphabet_def sextet_def
  List.map_filter_def

text \<open>
  Claim C4, amended. For every MessagePart tree, the two segment lists hold, in depth-first
  pre-order, the base64url-decoded data of exactly those parts of the tree whose filename
  is empty after trimming, whose attachment id is absent or empty, whose data is not
  empty and whose lower-cased MIME type is \<open>text/plain\<close>, respectively \<open>text/html\<close>. Every
  other part adds nothing, and its children are visited all the same, \<open>preorder\<close> listing
  every part of the tree.
\<close>

theorem bodySegments_spec:
  "bodySegments dec (Some root)
     = (map (\<lambda>q. decodeBase64Url dec (partData q)) (filter (contributes ''text/plain'') (preorder root)),
        map (\<lambda>q. decodeBase64Url dec (partData q)) (filter (contributes ''text/html'') (preorder root)))
   \<and> contributes mt p
       = (trim (orEmpty (filename p)) = [] \<and> \<not> truthy (partAttachmentId p) \<and> partData p \<noteq> []
          \<and> toLowerCase (orEmpty (mimeType p)) = mt)"
  by (auto simp add: bodySegments_def walkBody_preorder plainOf_def htmlOf_def contributes_def
      isAttachment_def partFilename_def partMimeType_def)

text \<open>
  In the example message only the plain part contributes; the three parts with a
  filename do not.
\<close>

theorem bodySegments_witness:
  "bodySegments base64Text (Some mixedMessage) = ([''hello world''], [])"
proof -
  have pl: "filter (contributes ''text/plain'') (preorder mixedMessage) = [plainPart]"
    by (simp add: part_eval)
  have ht: "filter (contributes ''text/html'') (preorder mixedMessage) = []"
    by (simp add: part_eval)
  have dec: "decodeBase64Url base64Text (partData plainPart) = ''hello world''"
    by (simp add: part_eval b64_eval)
  show ?thesis
    using bodySegments_spec [of base64Text mixedMessage] unfolding pl ht by (simp add: dec)
qed

text \<open>
  Claim C4 as stated uses the attachment test of the specification (a filename and an id
  or a size). The body walk has its own: a filename or an attachment id. A
  \<open>text/plain\<close> part with inline data, no filename and an attachment id is no attachment
  for the specification, yet it contributes nothing.
\<close>

theorem bodySegments_counterexample:
  "specIsAttachment inlineIdPart = False
   \<and> mimeType inlineIdPart = Some ''text/plain''
   \<and> partData inlineIdPart = ''aGk=''
   \<and> bodySegments base64Text (Some inlineIdPart) = ([], [])"
  by (simp add: inlineIdPart_def bodySegments_def part_eval)

text \<open>
  Claim C5, amended. For every MessagePart tree and no length limit: when the join of the
  plain-text segments with a line feed is not empty after trimming white space, the body
  is that trimmed join, whatever the HTML segments are; otherwise it is \<^verbatim>\<open>htmlToText\<close>
  applied to the trimmed join of the HTML segments when that is not empty, and the empty
  string when it is.
\<close>

theorem body_selection:
  "(trim (join [CHR 0x0A] (fst (bodySegments dec payload))) \<noteq> [] \<longrightarrow>
      extractBodyText dec h2t payload 0 = trim (join [CHR 0x0A] (fst (bodySegments dec payload))))
   \<and> (trim (join [CHR 0x0A] (fst (bodySegments dec payload))) = []
        \<and> trim (join [CHR 0x0A] (snd (bodySegments dec payload))) \<noteq> [] \<longrightarrow>
      extractBodyText dec h2t payload 0 = h2t (trim (join [CHR 0x0A] (snd (bodySegments dec payload)))))
   \<and> (trim (join [CHR 0x0A] (fst (bodySegments dec payload))) = []
        \<and> trim (join [CHR 0x0A] (snd (bodySegments dec payload))) = [] \<longrightarrow>
      extractBodyText dec h2t payload 0 = [])"
  by (simp add: extractBodyText_def selectBody_def Let_def)

text \<open>
  Claim C5 as stated uses the joined plain-text segments as they are. The join is
  trimmed: a single plain segment \<open> hi \<close>, with a blank on either side, gives the body
  \<open>hi\<close>.
\<close>

theorem body_selection_counterexample:
  "fst (bodySegments base64Text (Some paddedPart)) = ['' hi '']
   \<and> extractBodyText base64Text id (Some paddedPart) 0 = ''hi''"
  by (simp add: paddedPart_def bodySegments_def extractBodyText_def selectBody_def part_eval b64_eval)

text \<open>
  The first case of the selection, on the example message.
\<close>

theorem body_selection_witness:
  "trim (join [CHR 0x0A] (fst (bodySegments base64Text (Some mixedMessage)))) \<noteq> []
   \<and> extractBodyText base64Text id (Some mixedMessage) 0 = ''hello world''"
proof -
  have segs: "bodySegments base64Text (Some mixedMessage) = ([''hello world''], [])"
    by (simp add: bodySegments_def part_eval b64_eval)
  have tr: "trim (join [CHR 0x0A] [''hello world'']) = ''hello world''"
    by (simp add: part_eval)
  show ?thesis
    using body_selection [of base64Text "Some mixedMessage" id] unfolding segs fst_conv tr by simp
qed

text \<open>
  Claim C7. For every payload and every positive \<open>maxChars\<close>, the extracted body has at most
  \<open>maxChars\<close> code units and is the prefix of that length of the fully normalised body,
  which is what \<open>maxChars = 0\<close> returns, uncut.
\<close>

theorem extractBodyText_cut:
  "(0 < maxChars \<longrightarrow>
      length (extractBodyText dec h2t payload maxChars) \<le> nat maxChars
      \<and> extractBodyText dec h2t payload maxChars
          = take (nat maxChars) (extractBodyText dec h2t payload 0))
   \<and> extractBodyText dec h2t payload 0 = selectBody h2t (bodySegments dec payload)"
  by (auto simp add: extractBodyText_def Let_def)

text \<open>
  The example message cut to five code units.
\<close>

theorem extractBodyText_cut_witness:
  "(0::int) < 5
   \<and> length (extractBodyText base64Text id (Some mixedMessage) 5) \<le> nat 5
   \<and> extractBodyText base64Text id (Some mixedMessage) 5 = ''hello''"
proof -
  have full: "extractBodyText base64Text id (Some mixedMessage) 0 = ''hello world''"
    by (simp add: bodySegments_def extractBodyText_def selectBody_def part_eval b64_eval)
  have pos: "(0::int) < 5"
    by simp
  have "length (extractBodyText base64Text id (Some mixedMessage) 5) \<le> nat 5
        \<and> extractBodyText base64Text id (Some mixedMessage) 5
            = take (nat 5) (extractBodyText base64Text id (Some mixedMessage) 0)"
    using extractBodyText_cut [of 5 base64Text id "Some mixedMessage"] pos by blast
  then show ?thesis unfolding full by simp
qed

section \<open>Header addresses\<close>

lemmas mail_eval = parseEmail_def parseEmailBare_def angleForm_def angleRe_def emailRe_def
  quoteRe_def angleQuoteRe_def truthy_def ParsedEmail.select_convs replaceFirstStr.simps
  fun_upd_apply

text \<open>An email-like substring holds the character \<open>@\<close>.\<close>

lemma needs_emailRe: "needs (snd emailRe) (\<lambda>c. c = CHR ''@'') (fst emailRe)"
  by (simp add: emailRe_def inClass_at)

lemma exec_emailRe_no_at: "CHR ''@'' \<notin> set s \<Longrightarrow> exec emailRe s = None"
  unfolding exec_def by (rule needs_execFrom [OF needs_emailRe]) auto

lemma john_trim: "trim ''John Doe'' = ''John Doe''"
  by (simp only: re_eval basic_eval list_eval nat_eval cong: eval_cong)

lemma john_no_email: "exec emailRe ''John Doe'' = None"
  by (simp only: mail_eval re_eval basic_eval list_eval nat_eval cong: eval_cong)

lemma john_no_angle: "exec angleRe ''John Doe'' = None"
  by (simp only: mail_eval re_eval basic_eval list_eval nat_eval cong: eval_cong)

lemma bob_trim: "trim ''Bob <bob>'' = ''Bob <bob>''"
  by (simp only: re_eval basic_eval list_eval nat_eval cong: eval_cong)

lemma bob_no_email: "exec emailRe ''Bob <bob>'' = None"
  by (simp only: mail_eval re_eval basic_eval list_eval nat_eval cong: eval_cong)

lemma bob_angle: "parseEmail ''Bob <bob>'' = \<lparr>name = ''Bob'', email = ''bob''\<rparr>"
  by (simp only: mail_eval re_eval basic_eval list_eval nat_eval cong: eval_cong)

text \<open>
  Claim C6 says that a header value without an email-like substring gives an empty email
  and the trimmed value as the name. The value \<^verbatim>\<open>John Doe\<close> has no email-like substring
  and its name comes back empty, because the name is computed only when an email was
  found. The value \<^verbatim>\<open>Bob <bob>\<close> has no email-like substring either, and the
  angle-bracket form gives it the email \<^verbatim>\<open>bob\<close>.
\<close>

theorem parseEmail_counterexample:
  "exec emailRe (trim ''John Doe'') = None
   \<and> trim ''John Doe'' = ''John Doe''
   \<and> parseEmail ''John Doe'' = \<lparr>name = [], email = []\<rparr>
   \<and> exec emailRe (trim ''Bob <bob>'') = None
   \<and> parseEmail ''Bob <bob>'' = \<lparr>name = ''Bob'', email = ''bob''\<rparr>"
proof -
  have "parseEmail ''John Doe'' = \<lparr>name = [], email = []\<rparr>"
    by (simp add: parseEmail_def parseEmailBare_def john_trim john_no_email john_no_angle)
  then show ?thesis
    by (simp only: john_trim john_no_email bob_trim bob_no_email bob_angle simp_thms)
qed

text \<open>
  Claim C6, as the code has it: when no email-like substring is found in the trimmed
  value and the angle-bracket form does not apply to it, \<^verbatim>\<open>parseEmail\<close> returns an empty
  email and an empty name.
\<close>

theorem parseEmail_no_email:
  assumes "exec emailRe (trim raw) = None" and "\<not> angleForm (trim raw)"
  shows "parseEmail raw = \<lparr>name = [], email = []\<rparr>"
  using assms
  by (auto simp add: parseEmail_def parseEmailBare_def angleForm_def truthy_def Let_def
      split: option.splits)

text \<open>The value \<^verbatim>\<open>John Doe\<close> meets both conditions.\<close>

theorem parseEmail_no_email_witness:
  "exec emailRe (trim ''John Doe'') = None
   \<and> \<not> angleForm (trim ''John Doe'')
   \<and> parseEmail ''John Doe'' = \<lparr>name = [], email = []\<rparr>"
proof -
  have e: "exec emailRe (trim ''John Doe'') = None"
    by (simp only: john_trim john_no_email)
  have a: "\<not> angleForm (trim ''John Doe'')"
    by (simp add: john_trim angleForm_def john_no_angle)
  show ?thesis using parseEmail_no_email [OF e a] e a by simp
qed

section \<open>The order of the address expressions\<close>


































































































section \<open>The category of the addresses, run on the examples\<close>































end
